theory Spec2Isabelle
  imports Main "HOL-Library.Word"
begin

unbundle bit_operations_syntax

section \<open>NetBpfLoad: a shallow embedding of the eBPF object loader\<close>

text \<open>
  The development follows \<^verbatim>\<open>loader.h\<close>, \<^verbatim>\<open>loader.cpp\<close> and \<^verbatim>\<open>NetBpfLoad.cpp\<close>.
  A \<^verbatim>\<open>vector<char>\<close> is a \<^typ>\<open>char list\<close> (a \<^typ>\<open>char\<close> is one byte),
  \<^verbatim>\<open>unsigned int\<close> is \<^typ>\<open>32 word\<close>, a C \<^verbatim>\<open>int\<close> that only carries a return code,
  a descriptor or an \<^verbatim>\<open>errno\<close> value is \<^typ>\<open>int\<close>. Logging has no effect on any
  value below and is left out.
\<close>

subsection \<open>Faults and results\<close>

text \<open>
  A function of the loader either returns normally, returns an error code, or leaves the
  language: \<^verbatim>\<open>abort()\<close>, an access outside an array, a division by zero.
\<close>

datatype fault = Abort | OutOfBounds | DivByZero

datatype 'a res = Ok 'a | Err int | Fault fault

definition is_Ok :: "'a res \<Rightarrow> bool" where
  "is_Ok r = (case r of Ok x \<Rightarrow> True | _ \<Rightarrow> False)"

subsection \<open>C strings\<close>

abbreviation NUL :: char where
  "NUL \<equiv> CHR 0x00"

text \<open>
  A C string is the list of its characters; the end of the list stands for the
  terminating NUL of a literal, and a \<^verbatim>\<open>char[32]\<close> field is the list of its 32 bytes.
\<close>

definition strlen :: "string \<Rightarrow> nat" where
  "strlen s = length (takeWhile (\<lambda>c. c \<noteq> NUL) s)"

definition char_at_head :: "string \<Rightarrow> char" where
  "char_at_head s = (case s of [] \<Rightarrow> NUL | c # _ \<Rightarrow> c)"

fun strncmp :: "string \<Rightarrow> string \<Rightarrow> nat \<Rightarrow> int" where
  "strncmp s t n =
     (if n = 0 then 0
      else if char_at_head s \<noteq> char_at_head t
        then int (of_char (char_at_head s)) - int (of_char (char_at_head t))
      else if char_at_head s = NUL then 0
      else strncmp (tl s) (tl t) (n - 1))"

declare strncmp.simps [simp del]

subsection \<open>Domains (loader.h)\<close>

datatype domain =
    Unrecognized
  | Unspecified
  | Tethering
  | Net_private
  | Net_shared
  | Netd_readonly
  | Netd_shared

definition AllDomains :: "domain list" where
  "AllDomains = [Unspecified, Tethering, Net_private, Net_shared, Netd_readonly, Netd_shared]"

definition unrecognized :: "domain \<Rightarrow> bool" where
  "unrecognized d = (d = Unrecognized)"

definition specified :: "domain \<Rightarrow> bool" where
  "specified d = (d \<noteq> Unspecified)"

text \<open>
  Modelled from the spec: the array sizes \<^verbatim>\<open>BPF_SELINUX_CONTEXT_CHAR_ARRAY_SIZE\<close> and
  \<^verbatim>\<open>BPF_PIN_SUBDIR_CHAR_ARRAY_SIZE\<close> are declared in \<^verbatim>\<open>bpf_map_def.h\<close>; the tokens
  hold at most 31 characters and their terminator.
\<close>

definition BPF_SELINUX_CONTEXT_CHAR_ARRAY_SIZE :: nat where
  "BPF_SELINUX_CONTEXT_CHAR_ARRAY_SIZE = 32"

definition BPF_PIN_SUBDIR_CHAR_ARRAY_SIZE :: nat where
  "BPF_PIN_SUBDIR_CHAR_ARRAY_SIZE = 32"

fun lookupSelinuxContext :: "domain \<Rightarrow> string \<Rightarrow> string" where
  "lookupSelinuxContext Unspecified u = u"
| "lookupSelinuxContext Tethering u = ''fs_bpf_tethering''"
| "lookupSelinuxContext Net_private u = ''fs_bpf_net_private''"
| "lookupSelinuxContext Net_shared u = ''fs_bpf_net_shared''"
| "lookupSelinuxContext Netd_readonly u = ''fs_bpf_netd_readonly''"
| "lookupSelinuxContext Netd_shared u = ''fs_bpf_netd_shared''"
| "lookupSelinuxContext Unrecognized u = ''(unrecognized)''"

fun lookupPinSubdir :: "domain \<Rightarrow> string \<Rightarrow> string" where
  "lookupPinSubdir Unspecified u = u"
| "lookupPinSubdir Tethering u = ''tethering/''"
| "lookupPinSubdir Net_private u = ''net_private/''"
| "lookupPinSubdir Net_shared u = ''net_shared/''"
| "lookupPinSubdir Netd_readonly u = ''netd_readonly/''"
| "lookupPinSubdir Netd_shared u = ''netd_shared/''"
| "lookupPinSubdir Unrecognized u = ''(unrecognized)''"

text \<open>The loops over \<^verbatim>\<open>AllDomains\<close>; falling out of the loop is the last equation.\<close>

fun selinuxContextLoop :: "domain list \<Rightarrow> string \<Rightarrow> fault + domain" where
  "selinuxContextLoop [] s = Inr Unspecified"
| "selinuxContextLoop (d # ds) s =
     (if strlen (lookupSelinuxContext d '''') \<ge> BPF_SELINUX_CONTEXT_CHAR_ARRAY_SIZE
        then Inl Abort
      else if strncmp s (lookupSelinuxContext d '''') BPF_SELINUX_CONTEXT_CHAR_ARRAY_SIZE = 0
        then Inr d
      else selinuxContextLoop ds s)"

definition getDomainFromSelinuxContext :: "string \<Rightarrow> fault + domain" where
  "getDomainFromSelinuxContext s = selinuxContextLoop AllDomains s"

fun pinSubdirLoop :: "domain list \<Rightarrow> string \<Rightarrow> fault + domain" where
  "pinSubdirLoop [] s = Inr Unrecognized"
| "pinSubdirLoop (d # ds) s =
     (if strlen (lookupPinSubdir d '''') \<ge> BPF_PIN_SUBDIR_CHAR_ARRAY_SIZE
        then Inl Abort
      else if strncmp s (lookupPinSubdir d '''') BPF_PIN_SUBDIR_CHAR_ARRAY_SIZE = 0
        then Inr d
      else pinSubdirLoop ds s)"

definition getDomainFromPinSubdir :: "string \<Rightarrow> fault + domain" where
  "getDomainFromPinSubdir s = pinSubdirLoop AllDomains s"

subsection \<open>The ELF stream\<close>

text \<open>
  The \<^verbatim>\<open>ifstream\<close> is represented by what its reads return: for the ELF header, the
  section header table and the bytes of each section, either the data, or that the seek or
  the read fails. Section offsets and sizes are thereby replaced by the bytes they select.
  A failed seek or read sets the stream's fail bit, which no function of the loader
  clears: every later seek then fails. Vector sizes are taken to fit a C \<^verbatim>\<open>int\<close>.
\<close>

datatype 'a rd = Seek_failed | Read_failed | Data 'a

record Elf64_Ehdr =
  e_shstrndx :: nat

record Elf64_Shdr =
  sh_name :: "32 word"
  sh_type :: "32 word"
  sh_bytes :: "string rd"

record elf_image =
  ehdr :: "Elf64_Ehdr option"
  shdrs :: "Elf64_Shdr list rd"

record ifstream =
  contents :: elf_image
  failbit :: bool

definition seek_read :: "'a rd \<Rightarrow> ifstream \<Rightarrow> 'a rd \<times> ifstream" where
  "seek_read x s =
     (if failbit s then (Seek_failed, s)
      else case x of
        Data d \<Rightarrow> (Data d, s)
      | Seek_failed \<Rightarrow> (Seek_failed, s\<lparr>failbit := True\<rparr>)
      | Read_failed \<Rightarrow> (Read_failed, s\<lparr>failbit := True\<rparr>))"

text \<open>Sequencing on \<^verbatim>\<open>if (ret) return ret;\<close>, the stream passed along.\<close>

definition and_then :: "'a res \<times> 's \<Rightarrow> ('a \<Rightarrow> 's \<Rightarrow> 'b res \<times> 's) \<Rightarrow> 'b res \<times> 's" where
  "and_then m f =
     (case m of
        (Ok a, s) \<Rightarrow> f a s
      | (Err e, s) \<Rightarrow> (Err e, s)
      | (Fault x, s) \<Rightarrow> (Fault x, s))"

definition ENOMEM :: int where "ENOMEM = 12"
definition ENOTDIR :: int where "ENOTDIR = 20"
definition EINVAL :: int where "EINVAL = 22"
definition ENOTUNIQ :: int where "ENOTUNIQ = 76"

definition readElfHeader :: "ifstream \<Rightarrow> Elf64_Ehdr res \<times> ifstream" where
  "readElfHeader s =
     (if failbit s then (Err (- 1), s)
      else case ehdr (contents s) of
        None \<Rightarrow> (Err (- 1), s\<lparr>failbit := True\<rparr>)
      | Some eh \<Rightarrow> (Ok eh, s))"

definition readSectionHeadersAll :: "ifstream \<Rightarrow> Elf64_Shdr list res \<times> ifstream" where
  "readSectionHeadersAll s =
     and_then (readElfHeader s) (\<lambda>eh s.
       case seek_read (shdrs (contents s)) s of
         (Seek_failed, s') \<Rightarrow> (Err (- 1), s')
       | (Read_failed, s') \<Rightarrow> (Err (- ENOMEM), s')
       | (Data shTable, s') \<Rightarrow> (Ok shTable, s'))"

definition read_bytes :: "Elf64_Shdr \<Rightarrow> ifstream \<Rightarrow> string res \<times> ifstream" where
  "read_bytes sh s =
     (case seek_read (sh_bytes sh) s of
        (Data d, s') \<Rightarrow> (Ok d, s')
      | (Seek_failed, s') \<Rightarrow> (Err (- 1), s')
      | (Read_failed, s') \<Rightarrow> (Err (- 1), s'))"

definition readSectionByIdx :: "nat \<Rightarrow> ifstream \<Rightarrow> string res \<times> ifstream" where
  "readSectionByIdx idx s =
     and_then (readSectionHeadersAll s) (\<lambda>shTable s.
       if idx < length shTable then read_bytes (shTable ! idx) s
       else (Fault OutOfBounds, s))"

definition readSectionHeaderStrtab :: "ifstream \<Rightarrow> string res \<times> ifstream" where
  "readSectionHeaderStrtab s =
     and_then (readElfHeader s) (\<lambda>eh s. readSectionByIdx (e_shstrndx eh) s)"

text \<open>
  \<^verbatim>\<open>string(secStrTab.data() + nameOff)\<close> reads up to the next NUL; there is none
  to stop at when the table does not end in one, and no lower bound is checked.
\<close>

definition getSymName :: "int \<Rightarrow> ifstream \<Rightarrow> string res \<times> ifstream" where
  "getSymName nameOff s =
     and_then (readSectionHeaderStrtab s) (\<lambda>secStrTab s.
       if nameOff \<ge> int (length secStrTab) then (Err (- 1), s)
       else if nameOff < 0 \<or> NUL \<notin> set (drop (nat nameOff) secStrTab)
         then (Fault OutOfBounds, s)
       else (Ok (takeWhile (\<lambda>c. c \<noteq> NUL) (drop (nat nameOff) secStrTab)), s))"

text \<open>
  \<^verbatim>\<open>strcmp(p, t) == 0\<close> for a pointer \<open>p\<close> into a buffer, given as the bytes from
  \<open>p\<close> to the end of the buffer, and a C string \<open>t\<close>.
\<close>

fun strcmp_eq :: "string \<Rightarrow> string \<Rightarrow> fault + bool" where
  "strcmp_eq [] t = Inl OutOfBounds"
| "strcmp_eq (c # cs) [] = Inr (c = NUL)"
| "strcmp_eq (c # cs) (x # xs) =
     (if c \<noteq> x then Inr False else if c = NUL then Inr True else strcmp_eq cs xs)"

fun readSectionByName_loop ::
  "string \<Rightarrow> string \<Rightarrow> Elf64_Shdr list \<Rightarrow> ifstream \<Rightarrow> string res \<times> ifstream" where
  "readSectionByName_loop name secStrTab [] s = (Err (- 2), s)"
| "readSectionByName_loop name secStrTab (sh # shs) s =
     (case strcmp_eq (drop (unat (sh_name sh)) secStrTab) name of
        Inl f \<Rightarrow> (Fault f, s)
      | Inr True \<Rightarrow> read_bytes sh s
      | Inr False \<Rightarrow> readSectionByName_loop name secStrTab shs s)"

definition readSectionByName :: "string \<Rightarrow> ifstream \<Rightarrow> string res \<times> ifstream" where
  "readSectionByName name s =
     and_then (readSectionHeadersAll s) (\<lambda>shTable s.
       and_then (readSectionHeaderStrtab s) (\<lambda>secStrTab s.
         readSectionByName_loop name secStrTab shTable s))"

definition readSectionUint :: "string \<Rightarrow> ifstream \<Rightarrow> 32 word \<Rightarrow> 32 word res \<times> ifstream" where
  "readSectionUint name s defVal =
     (case readSectionByName name s of
        (Err ret, s') \<Rightarrow> (Ok defVal, s')
      | (Fault f, s') \<Rightarrow> (Fault f, s')
      | (Ok theBytes, s') \<Rightarrow>
          if length theBytes < 4 then (Ok defVal, s')
          else
            (let v3 = of_char (theBytes ! 3);
                 v2 = push_bit 8 v3 + of_char (theBytes ! 2);
                 v1 = push_bit 8 v2 + of_char (theBytes ! 1);
                 v0 = push_bit 8 v1 + of_char (theBytes ! 0)
             in (Ok v0, s')))"

definition SHT_SYMTAB :: int where "SHT_SYMTAB = 2"

fun readSectionByType_loop ::
  "int \<Rightarrow> Elf64_Shdr list \<Rightarrow> ifstream \<Rightarrow> string res \<times> ifstream" where
  "readSectionByType_loop ty [] s = (Err (- 2), s)"
| "readSectionByType_loop ty (sh # shs) s =
     (if sint (sh_type sh) \<noteq> ty then readSectionByType_loop ty shs s
      else read_bytes sh s)"

definition readSectionByType :: "int \<Rightarrow> ifstream \<Rightarrow> string res \<times> ifstream" where
  "readSectionByType ty s =
     and_then (readSectionHeadersAll s) (\<lambda>shTable s. readSectionByType_loop ty shTable s)"

subsection \<open>Little-endian fields\<close>

text \<open>
  The loader runs on little-endian hosts only: a \<^verbatim>\<open>uint32_t\<close> in memory is its four
  bytes, least significant first.
\<close>

definition le_nat :: "string \<Rightarrow> nat" where
  "le_nat bs = foldr (\<lambda>c n. of_char c + 256 * n) bs 0"

definition le32_nat :: "char \<Rightarrow> char \<Rightarrow> char \<Rightarrow> char \<Rightarrow> nat" where
  "le32_nat b0 b1 b2 b3 =
     of_char b0 + 256 * (of_char b1 + 256 * (of_char b2 + 256 * of_char b3))"

definition le32_bytes :: "32 word \<Rightarrow> string" where
  "le32_bytes v =
     [char_of (unat v), char_of (unat v div 256), char_of (unat v div 256 div 256),
      char_of (unat v div 256 div 256 div 256)]"

text \<open>\<^verbatim>\<open>memcpy(dst, src, n)\<close> on the bytes of \<open>dst\<close>, for \<open>n\<close> within both.\<close>

definition memcpy :: "string \<Rightarrow> string \<Rightarrow> nat \<Rightarrow> string" where
  "memcpy dst src n = take n src @ drop n dst"

definition store_u32 :: "nat \<Rightarrow> 32 word \<Rightarrow> string \<Rightarrow> string" where
  "store_u32 off v obj = take off obj @ memcpy (drop off obj) (le32_bytes v) 4"

subsection \<open>The symbol table\<close>

record Elf64_Sym =
  st_name :: "32 word"
  st_info :: "8 word"
  st_other :: "8 word"
  st_shndx :: "16 word"
  st_value :: "64 word"
  st_size :: "64 word"

definition sizeof_Elf64_Sym :: nat where "sizeof_Elf64_Sym = 24"

definition Elf64_Sym_of_bytes :: "string \<Rightarrow> Elf64_Sym" where
  "Elf64_Sym_of_bytes b =
     \<lparr>st_name = word_of_nat (le_nat (take 4 b)),
      st_info = word_of_nat (le_nat (take 1 (drop 4 b))),
      st_other = word_of_nat (le_nat (take 1 (drop 5 b))),
      st_shndx = word_of_nat (le_nat (take 2 (drop 6 b))),
      st_value = word_of_nat (le_nat (take 8 (drop 8 b))),
      st_size = word_of_nat (le_nat (take 8 (drop 16 b)))\<rparr>"

text \<open>The first \<open>n\<close> records of \<open>sz\<close> bytes each of a buffer.\<close>

fun array_of :: "nat \<Rightarrow> nat \<Rightarrow> string \<Rightarrow> string list" where
  "array_of sz 0 buf = []"
| "array_of sz (Suc n) buf = take sz buf # array_of sz n (drop sz buf)"

text \<open>
  \<^verbatim>\<open>std::sort\<close> with \<^verbatim>\<open>symCompare\<close> orders by \<^verbatim>\<open>st_value\<close>; it leaves the order of
  symbols of equal value open, and the model keeps their table order, which is one of
  the orders the sort may give. The statements below take the names of a section as
  they are returned, or use sections with one symbol, and none depends on the order of
  symbols of equal value.
\<close>

definition readSymTab :: "bool \<Rightarrow> ifstream \<Rightarrow> Elf64_Sym list res \<times> ifstream" where
  "readSymTab do_sort s =
     and_then (readSectionByType SHT_SYMTAB s) (\<lambda>secData s.
       let numElems = length secData div sizeof_Elf64_Sym;
           data = map Elf64_Sym_of_bytes (array_of sizeof_Elf64_Sym numElems secData)
       in (Ok (if do_sort then sort_key st_value data else data), s))"

definition ELF_ST_TYPE :: "8 word \<Rightarrow> nat" where
  "ELF_ST_TYPE x = unat (x AND 0xf)"

definition STT_FUNC :: nat where "STT_FUNC = 2"

fun find_sec_idx ::
  "string \<Rightarrow> Elf64_Shdr list \<Rightarrow> nat \<Rightarrow> ifstream \<Rightarrow> int res \<times> ifstream" where
  "find_sec_idx sectionName [] i s = (Ok (- 1), s)"
| "find_sec_idx sectionName (sh # shs) i s =
     (case getSymName (sint (sh_name sh)) s of
        (Ok name, s') \<Rightarrow>
          if name = sectionName then (Ok (int i), s')
          else find_sec_idx sectionName shs (Suc i) s'
      | (Err e, s') \<Rightarrow> (Err e, s')
      | (Fault f, s') \<Rightarrow> (Fault f, s'))"

text \<open>
  The output vector \<open>names\<close> keeps what was pushed before an error return, so it is
  returned beside the result.
\<close>

fun sym_names_loop ::
  "nat option \<Rightarrow> int \<Rightarrow> Elf64_Sym list \<Rightarrow> string list \<Rightarrow> ifstream
   \<Rightarrow> unit res \<times> string list \<times> ifstream" where
  "sym_names_loop symbolType sec_idx [] names s = (Ok (), names, s)"
| "sym_names_loop symbolType sec_idx (sy # syms) names s =
     (if symbolType \<noteq> None \<and> Some (ELF_ST_TYPE (st_info sy)) \<noteq> symbolType
        then sym_names_loop symbolType sec_idx syms names s
      else if int (unat (st_shndx sy)) = sec_idx then
        (case getSymName (sint (st_name sy)) s of
           (Ok n, s') \<Rightarrow> sym_names_loop symbolType sec_idx syms (names @ [n]) s'
         | (Err e, s') \<Rightarrow> (Err e, names, s')
         | (Fault f, s') \<Rightarrow> (Fault f, names, s'))
      else sym_names_loop symbolType sec_idx syms names s)"

definition getSectionSymNames ::
  "string \<Rightarrow> string list \<Rightarrow> nat option \<Rightarrow> ifstream \<Rightarrow> unit res \<times> string list \<times> ifstream" where
  "getSectionSymNames sectionName names symbolType s =
     (case readSymTab True s of
        (Err e, s1) \<Rightarrow> (Err e, names, s1)
      | (Fault f, s1) \<Rightarrow> (Fault f, names, s1)
      | (Ok symtab, s1) \<Rightarrow>
          (case readSectionHeadersAll s1 of
             (Err e, s2) \<Rightarrow> (Err e, names, s2)
           | (Fault f, s2) \<Rightarrow> (Fault f, names, s2)
           | (Ok shTable, s2) \<Rightarrow>
               (case find_sec_idx sectionName shTable 0 s2 of
                  (Err e, s3) \<Rightarrow> (Err e, names, s3)
                | (Fault f, s3) \<Rightarrow> (Fault f, names, s3)
                | (Ok sec_idx, s3) \<Rightarrow>
                    if sec_idx = - 1 then (Err (- 1), names, s3)
                    else sym_names_loop symbolType sec_idx symtab names s3)))"

definition getSymNameByIdx :: "int \<Rightarrow> ifstream \<Rightarrow> string res \<times> ifstream" where
  "getSymNameByIdx index s =
     and_then (readSymTab False s) (\<lambda>symtab s.
       if index \<ge> int (length symtab) then (Err (- 1), s)
       else if index < 0 then (Fault OutOfBounds, s)
       else getSymName (sint (st_name (symtab ! nat index))) s)"

subsection \<open>Program and map definitions\<close>

text \<open>
  \<^verbatim>\<open>struct bpf_map_def\<close> and \<^verbatim>\<open>struct bpf_prog_def\<close> are declared in
  \<^verbatim>\<open>bpf_map_def.h\<close>, with the defaults of the version 0.0 format. What the loader
  uses of that header is a parameter of the model: the sizes, the offsets of the fields
  that get a nonzero default, and the reading of an object's bytes as its fields.
  An object of either struct in memory is the list of its bytes.
\<close>

record bpf_map_def =
  md_type :: "32 word"
  md_key_size :: "32 word"
  md_value_size :: "32 word"
  md_max_entries :: "32 word"
  md_map_flags :: "32 word"
  md_zero :: "32 word"
  md_gid :: "32 word"
  md_mode :: "32 word"
  md_bpfloader_min_ver :: "32 word"
  md_bpfloader_max_ver :: "32 word"
  md_min_kver :: "32 word"
  md_max_kver :: "32 word"
  md_selinux_context :: string
  md_pin_subdir :: string
  md_shared :: bool
  md_ignore_on_eng :: bool
  md_ignore_on_user :: bool
  md_ignore_on_userdebug :: bool
  md_ignore_on_arm32 :: bool
  md_ignore_on_aarch64 :: bool
  md_ignore_on_x86_32 :: bool
  md_ignore_on_x86_64 :: bool
  md_ignore_on_riscv64 :: bool
  md_uid :: "32 word"

record bpf_prog_def =
  pd_uid :: "32 word"
  pd_gid :: "32 word"
  pd_min_kver :: "32 word"
  pd_max_kver :: "32 word"
  pd_optional :: bool
  pd_ignore_on_eng :: bool
  pd_ignore_on_user :: bool
  pd_ignore_on_userdebug :: bool
  pd_ignore_on_arm32 :: bool
  pd_ignore_on_aarch64 :: bool
  pd_ignore_on_x86_32 :: bool
  pd_ignore_on_x86_64 :: bool
  pd_ignore_on_riscv64 :: bool
  pd_bpfloader_min_ver :: "32 word"
  pd_bpfloader_max_ver :: "32 word"
  pd_selinux_context :: string
  pd_pin_subdir :: string

record abi =
  DEFAULT_BPFLOADER_MIN_VER :: "32 word"
  DEFAULT_BPFLOADER_MAX_VER :: "32 word"
  DEFAULT_SIZEOF_BPF_MAP_DEF :: nat
  DEFAULT_SIZEOF_BPF_PROG_DEF :: nat
  sizeof_bpf_map_def :: nat
  sizeof_bpf_prog_def :: nat
  offsetof_map_bpfloader_max_ver :: nat
  offsetof_map_max_kver :: nat
  offsetof_prog_bpfloader_max_ver :: nat
  as_bpf_map_def :: "string \<Rightarrow> bpf_map_def"
  as_bpf_prog_def :: "string \<Rightarrow> bpf_prog_def"

text \<open>\<^verbatim>\<open>memset(&p, 0, sizeof(p))\<close>, then the nonzero defaults.\<close>

definition prog_def_defaults :: "abi \<Rightarrow> string" where
  "prog_def_defaults a =
     store_u32 (offsetof_prog_bpfloader_max_ver a) (DEFAULT_BPFLOADER_MAX_VER a)
       (replicate (sizeof_bpf_prog_def a) NUL)"

definition map_def_defaults :: "abi \<Rightarrow> string" where
  "map_def_defaults a =
     store_u32 (offsetof_map_max_kver a) 0xFFFFFFFF
       (store_u32 (offsetof_map_bpfloader_max_ver a) (DEFAULT_BPFLOADER_MAX_VER a)
          (replicate (sizeof_bpf_map_def a) NUL))"

text \<open>
  The loop over the resized vector: each element is reset, overwritten by the prefix of
  the record under \<open>dataPtr\<close>, and \<open>dataPtr\<close> moves on by the advertised size.
\<close>

fun copy_defs :: "string \<Rightarrow> nat \<Rightarrow> nat \<Rightarrow> nat \<Rightarrow> string \<Rightarrow> string list" where
  "copy_defs defaults trimmedSize sizeOfDef 0 dataPtr = []"
| "copy_defs defaults trimmedSize sizeOfDef (Suc n) dataPtr =
     memcpy defaults dataPtr trimmedSize
       # copy_defs defaults trimmedSize sizeOfDef n (drop sizeOfDef dataPtr)"

definition readProgDefs :: "abi \<Rightarrow> ifstream \<Rightarrow> nat \<Rightarrow> string list res \<times> ifstream" where
  "readProgDefs a s sizeOfBpfProgDef =
     and_then (readSectionByName ''progs'' s) (\<lambda>pdData s.
       if sizeOfBpfProgDef = 0 then (Fault DivByZero, s)
       else if length pdData mod sizeOfBpfProgDef \<noteq> 0 then (Err (- 1), s)
       else
         (let progCount = length pdData div sizeOfBpfProgDef;
              trimmedSize = min sizeOfBpfProgDef (sizeof_bpf_prog_def a)
          in (Ok (copy_defs (prog_def_defaults a) trimmedSize sizeOfBpfProgDef progCount pdData),
              s)))"

text \<open>The same decoding at the head of \<^verbatim>\<open>createMaps\<close>, for the bytes of \<^verbatim>\<open>maps\<close>.\<close>

definition createMaps_defs :: "abi \<Rightarrow> string \<Rightarrow> nat \<Rightarrow> string list res" where
  "createMaps_defs a mdData sizeOfBpfMapDef =
     (if sizeOfBpfMapDef = 0 then Fault DivByZero
      else if length mdData mod sizeOfBpfMapDef \<noteq> 0 then Err (- 1)
      else
        (let mapCount = length mdData div sizeOfBpfMapDef;
             trimmedSize = min sizeOfBpfMapDef (sizeof_bpf_map_def a)
         in Ok (copy_defs (map_def_defaults a) trimmedSize sizeOfBpfMapDef mapCount mdData)))"

subsection \<open>Code sections\<close>

datatype bpf_prog_type =
    BPF_PROG_TYPE_UNSPEC
  | BPF_PROG_TYPE_SOCKET_FILTER
  | BPF_PROG_TYPE_SCHED_CLS
  | BPF_PROG_TYPE_SCHED_ACT
  | BPF_PROG_TYPE_XDP
  | BPF_PROG_TYPE_CGROUP_SKB
  | BPF_PROG_TYPE_CGROUP_SOCK
  | BPF_PROG_TYPE_LWT_IN
  | BPF_PROG_TYPE_LWT_OUT
  | BPF_PROG_TYPE_LWT_XMIT
  | BPF_PROG_TYPE_SOCK_OPS
  | BPF_PROG_TYPE_CGROUP_SOCK_ADDR
  | BPF_PROG_TYPE_LWT_SEG6LOCAL
  | BPF_PROG_TYPE_CGROUP_SYSCTL
  | BPF_PROG_TYPE_CGROUP_SOCKOPT

datatype bpf_attach_type =
    BPF_CGROUP_INET_INGRESS
  | BPF_CGROUP_INET_EGRESS
  | BPF_CGROUP_INET_SOCK_CREATE
  | BPF_CGROUP_SOCK_OPS
  | BPF_CGROUP_INET4_BIND
  | BPF_CGROUP_INET6_BIND
  | BPF_CGROUP_INET4_CONNECT
  | BPF_CGROUP_INET6_CONNECT
  | BPF_CGROUP_INET4_POST_BIND
  | BPF_CGROUP_INET6_POST_BIND
  | BPF_CGROUP_UDP4_SENDMSG
  | BPF_CGROUP_UDP6_SENDMSG
  | BPF_CGROUP_SYSCTL
  | BPF_CGROUP_UDP4_RECVMSG
  | BPF_CGROUP_UDP6_RECVMSG
  | BPF_CGROUP_GETSOCKOPT
  | BPF_CGROUP_SETSOCKOPT
  | BPF_CGROUP_INET_SOCK_RELEASE

abbreviation BPF_ATTACH_TYPE_UNSPEC :: bpf_attach_type where
  "BPF_ATTACH_TYPE_UNSPEC \<equiv> BPF_CGROUP_INET_INGRESS"

definition sectionNameTypes :: "(string \<times> bpf_prog_type \<times> bpf_attach_type) list" where
  "sectionNameTypes =
     [(''bind4/'', BPF_PROG_TYPE_CGROUP_SOCK_ADDR, BPF_CGROUP_INET4_BIND),
      (''bind6/'', BPF_PROG_TYPE_CGROUP_SOCK_ADDR, BPF_CGROUP_INET6_BIND),
      (''cgroupskb/'', BPF_PROG_TYPE_CGROUP_SKB, BPF_ATTACH_TYPE_UNSPEC),
      (''cgroupsock/'', BPF_PROG_TYPE_CGROUP_SOCK, BPF_ATTACH_TYPE_UNSPEC),
      (''cgroupsockcreate/'', BPF_PROG_TYPE_CGROUP_SOCK, BPF_CGROUP_INET_SOCK_CREATE),
      (''cgroupsockrelease/'', BPF_PROG_TYPE_CGROUP_SOCK, BPF_CGROUP_INET_SOCK_RELEASE),
      (''connect4/'', BPF_PROG_TYPE_CGROUP_SOCK_ADDR, BPF_CGROUP_INET4_CONNECT),
      (''connect6/'', BPF_PROG_TYPE_CGROUP_SOCK_ADDR, BPF_CGROUP_INET6_CONNECT),
      (''egress/'', BPF_PROG_TYPE_CGROUP_SKB, BPF_CGROUP_INET_EGRESS),
      (''getsockopt/'', BPF_PROG_TYPE_CGROUP_SOCKOPT, BPF_CGROUP_GETSOCKOPT),
      (''ingress/'', BPF_PROG_TYPE_CGROUP_SKB, BPF_CGROUP_INET_INGRESS),
      (''lwt_in/'', BPF_PROG_TYPE_LWT_IN, BPF_ATTACH_TYPE_UNSPEC),
      (''lwt_out/'', BPF_PROG_TYPE_LWT_OUT, BPF_ATTACH_TYPE_UNSPEC),
      (''lwt_seg6local/'', BPF_PROG_TYPE_LWT_SEG6LOCAL, BPF_ATTACH_TYPE_UNSPEC),
      (''lwt_xmit/'', BPF_PROG_TYPE_LWT_XMIT, BPF_ATTACH_TYPE_UNSPEC),
      (''postbind4/'', BPF_PROG_TYPE_CGROUP_SOCK, BPF_CGROUP_INET4_POST_BIND),
      (''postbind6/'', BPF_PROG_TYPE_CGROUP_SOCK, BPF_CGROUP_INET6_POST_BIND),
      (''recvmsg4/'', BPF_PROG_TYPE_CGROUP_SOCK_ADDR, BPF_CGROUP_UDP4_RECVMSG),
      (''recvmsg6/'', BPF_PROG_TYPE_CGROUP_SOCK_ADDR, BPF_CGROUP_UDP6_RECVMSG),
      (''schedact/'', BPF_PROG_TYPE_SCHED_ACT, BPF_ATTACH_TYPE_UNSPEC),
      (''schedcls/'', BPF_PROG_TYPE_SCHED_CLS, BPF_ATTACH_TYPE_UNSPEC),
      (''sendmsg4/'', BPF_PROG_TYPE_CGROUP_SOCK_ADDR, BPF_CGROUP_UDP4_SENDMSG),
      (''sendmsg6/'', BPF_PROG_TYPE_CGROUP_SOCK_ADDR, BPF_CGROUP_UDP6_SENDMSG),
      (''setsockopt/'', BPF_PROG_TYPE_CGROUP_SOCKOPT, BPF_CGROUP_SETSOCKOPT),
      (''skfilter/'', BPF_PROG_TYPE_SOCKET_FILTER, BPF_ATTACH_TYPE_UNSPEC),
      (''sockops/'', BPF_PROG_TYPE_SOCK_OPS, BPF_CGROUP_SOCK_OPS),
      (''sysctl'', BPF_PROG_TYPE_CGROUP_SYSCTL, BPF_CGROUP_SYSCTL),
      (''xdp/'', BPF_PROG_TYPE_XDP, BPF_ATTACH_TYPE_UNSPEC)]"

definition StartsWith :: "string \<Rightarrow> string \<Rightarrow> bool" where
  "StartsWith s p = (take (length p) s = p)"

definition EndsWith :: "string \<Rightarrow> string \<Rightarrow> bool" where
  "EndsWith s p = (length p \<le> length s \<and> drop (length s - length p) s = p)"

fun getSectionType_loop ::
  "(string \<times> bpf_prog_type \<times> bpf_attach_type) list \<Rightarrow> string \<Rightarrow> bpf_prog_type" where
  "getSectionType_loop [] name = BPF_PROG_TYPE_UNSPEC"
| "getSectionType_loop (snt # snts) name =
     (if StartsWith name (fst snt) then fst (snd snt) else getSectionType_loop snts name)"

definition getSectionType :: "string \<Rightarrow> bpf_prog_type" where
  "getSectionType name = getSectionType_loop sectionNameTypes name"

fun getExpectedAttachType_loop ::
  "(string \<times> bpf_prog_type \<times> bpf_attach_type) list \<Rightarrow> string \<Rightarrow> bpf_attach_type" where
  "getExpectedAttachType_loop [] name = BPF_ATTACH_TYPE_UNSPEC"
| "getExpectedAttachType_loop (snt # snts) name =
     (if StartsWith name (fst snt) then snd (snd snt)
      else getExpectedAttachType_loop snts name)"

definition getExpectedAttachType :: "string \<Rightarrow> bpf_attach_type" where
  "getExpectedAttachType name = getExpectedAttachType_loop sectionNameTypes name"

record codeSection =
  cs_type :: bpf_prog_type
  cs_expected_attach_type :: bpf_attach_type
  cs_name :: string
  cs_data :: string
  cs_rel_data :: string
  cs_prog_def :: "bpf_prog_def option"
  cs_prog_fd :: int

text \<open>
  One round of a loop either goes on to the next round with a value, or leaves the
  function: \<^verbatim>\<open>return ret\<close> is success when \<open>ret\<close> is zero.
\<close>

datatype 'a step = Next 'a | Exit "unit res"

definition ret_code :: "int \<Rightarrow> unit res" where
  "ret_code r = (if r = 0 then Ok () else Err r)"

text \<open>The loop over \<^verbatim>\<open>progDefNames\<close>; \<^verbatim>\<open>pd[i]\<close> is not checked against the size of \<open>pd\<close>.\<close>

fun find_prog_def ::
  "abi \<Rightarrow> string list \<Rightarrow> string list \<Rightarrow> nat \<Rightarrow> string \<Rightarrow> fault + bpf_prog_def option" where
  "find_prog_def a pd [] i wanted = Inr None"
| "find_prog_def a pd (n # ns) i wanted =
     (if n = wanted then
        (if i < length pd then Inr (Some (as_bpf_prog_def a (pd ! i))) else Inl OutOfBounds)
      else find_prog_def a pd ns (Suc i) wanted)"

text \<open>
  The body of the loop of \<^verbatim>\<open>readCodeSections\<close> for section \<open>i < entries\<close>. The test
  before the relocation section is \<^verbatim>\<open>i < entries\<close>, which the loop condition already
  gives; \<^verbatim>\<open>shTable[i + 1]\<close> is then read.
\<close>

definition readCodeSection ::
  "abi \<Rightarrow> Elf64_Shdr list \<Rightarrow> string list \<Rightarrow> string list \<Rightarrow> nat \<Rightarrow> ifstream
   \<Rightarrow> codeSection option step \<times> ifstream" where
  "readCodeSection a shTable pd progDefNames i s =
     (case getSymName (sint (sh_name (shTable ! i))) s of
        (Err e, s1) \<Rightarrow> (Exit (Err e), s1)
      | (Fault f, s1) \<Rightarrow> (Exit (Fault f), s1)
      | (Ok oldName, s1) \<Rightarrow>
          if getSectionType oldName = BPF_PROG_TYPE_UNSPEC then (Next None, s1)
          else
            (case readSectionByIdx i s1 of
               (Err e, s2) \<Rightarrow> (Exit (Err e), s2)
             | (Fault f, s2) \<Rightarrow> (Exit (Fault f), s2)
             | (Ok data, s2) \<Rightarrow>
                 (case getSectionSymNames oldName [] (Some STT_FUNC) s2 of
                    (Err e, csSymNames, s3) \<Rightarrow> (Exit (Err e), s3)
                  | (Fault f, csSymNames, s3) \<Rightarrow> (Exit (Fault f), s3)
                  | (Ok u, csSymNames, s3) \<Rightarrow>
                      if csSymNames = [] then (Exit (Ok ()), s3)
                      else
                        (case find_prog_def a pd progDefNames 0 (hd csSymNames @ ''_def'') of
                           Inl f \<Rightarrow> (Exit (Fault f), s3)
                         | Inr prog_def \<Rightarrow>
                             (let cs_temp =
                                \<lparr>cs_type = getSectionType oldName,
                                 cs_expected_attach_type = getExpectedAttachType oldName,
                                 cs_name = map (\<lambda>c. if c = CHR ''/'' then CHR ''_'' else c) oldName,
                                 cs_data = data,
                                 cs_rel_data = [],
                                 cs_prog_def = prog_def,
                                 cs_prog_fd = - 1\<rparr>
                              in if length data > 0 \<and> i < length shTable then
                                   (if \<not> Suc i < length shTable then (Exit (Fault OutOfBounds), s3)
                                    else
                                      (case getSymName (sint (sh_name (shTable ! Suc i))) s3 of
                                         (Err e, s4) \<Rightarrow> (Exit (Err e), s4)
                                       | (Fault f, s4) \<Rightarrow> (Exit (Fault f), s4)
                                       | (Ok name, s4) \<Rightarrow>
                                           if name = ''.rel'' @ oldName then
                                             (case readSectionByIdx (Suc i) s4 of
                                                (Err e, s5) \<Rightarrow> (Exit (Err e), s5)
                                              | (Fault f, s5) \<Rightarrow> (Exit (Fault f), s5)
                                              | (Ok rel, s5) \<Rightarrow>
                                                  (Next (Some (cs_temp\<lparr>cs_rel_data := rel\<rparr>)), s5))
                                           else (Next (Some cs_temp), s4)))
                                 else (Next None, s3))))))"

function readCodeSections_loop ::
  "abi \<Rightarrow> Elf64_Shdr list \<Rightarrow> string list \<Rightarrow> string list \<Rightarrow> nat \<Rightarrow> codeSection list
   \<Rightarrow> ifstream \<Rightarrow> unit res \<times> codeSection list \<times> ifstream" where
  "readCodeSections_loop a shTable pd progDefNames i cs s =
     (if i < length shTable then
        (case readCodeSection a shTable pd progDefNames i s of
           (Exit r, s') \<Rightarrow> (r, cs, s')
         | (Next None, s') \<Rightarrow> readCodeSections_loop a shTable pd progDefNames (Suc i) cs s'
         | (Next (Some c), s') \<Rightarrow>
             readCodeSections_loop a shTable pd progDefNames (Suc i) (cs @ [c]) s')
      else (Ok (), cs, s))"
  by pat_completeness auto
termination
  by (relation "measure (\<lambda>(a, shTable, pd, progDefNames, i, cs, s). length shTable - i)") auto

declare readCodeSections_loop.simps [simp del]

definition readCodeSections ::
  "abi \<Rightarrow> ifstream \<Rightarrow> nat \<Rightarrow> unit res \<times> codeSection list \<times> ifstream" where
  "readCodeSections a s sizeOfBpfProgDef =
     (case readSectionHeadersAll s of
        (Err e, s1) \<Rightarrow> (Err e, [], s1)
      | (Fault f, s1) \<Rightarrow> (Fault f, [], s1)
      | (Ok shTable, s1) \<Rightarrow>
          (case readProgDefs a s1 sizeOfBpfProgDef of
             (Err e, s2) \<Rightarrow> (Err e, [], s2)
           | (Fault f, s2) \<Rightarrow> (Fault f, [], s2)
           | (Ok pd, s2) \<Rightarrow>
               (case getSectionSymNames ''progs'' [] None s2 of
                  (Fault f, progDefNames, s3) \<Rightarrow> (Fault f, [], s3)
                | (Err e, progDefNames, s3) \<Rightarrow>
                    if pd \<noteq> [] then (Err e, [], s3)
                    else readCodeSections_loop a shTable pd progDefNames 0 [] s3
                | (Ok u, progDefNames, s3) \<Rightarrow>
                    readCodeSections_loop a shTable pd progDefNames 0 [] s3)))"

subsection \<open>The environment and the kernel\<close>

text \<open>
  What \<^verbatim>\<open>BpfUtils.h\<close>, the system properties and the file system answer is fixed for
  a run: the record \<open>env\<close>. \<^verbatim>\<open>isAtLeastKernelVersion\<close> is declared there and is taken
  as given. The files that can be opened and the directories that can be listed are
  functions of the path.
\<close>

record env =
  kernelVersion :: "32 word"
  isAtLeastKernelVersion :: "nat \<Rightarrow> nat \<Rightarrow> nat \<Rightarrow> bool"
  getBuildType :: string
  isArm :: bool
  isX86 :: bool
  isRiscV :: bool
  isKernel32Bit :: bool
  isKernel64Bit :: bool
  page_size :: "32 word"
  open_elf :: "string \<Rightarrow> elf_image option"
  opendir :: "string \<Rightarrow> string list option"

definition isEng :: "env \<Rightarrow> bool" where
  "isEng e = (getBuildType e = ''eng'')"

definition isUser :: "env \<Rightarrow> bool" where
  "isUser e = (getBuildType e = ''user'')"

definition isUserdebug :: "env \<Rightarrow> bool" where
  "isUserdebug e = (getBuildType e = ''userdebug'')"

text \<open>
  The kernel and the bpf file system are a state \<open>'k\<close> that the system calls read and
  change. A call that can fail returns its result and the \<^verbatim>\<open>errno\<close> it leaves.
  Descriptors are not closed in the model.
\<close>

record bpf_attr_map_create =
  req_map_type :: "32 word"
  req_key_size :: "32 word"
  req_value_size :: "32 word"
  req_max_entries :: "32 word"
  req_map_flags :: "32 word"
  req_map_name :: string

record bpf_attr_prog_load =
  req_prog_type :: bpf_prog_type
  req_kern_version :: "32 word"
  req_license :: string
  req_insns :: string
  req_insn_cnt :: "32 word"
  req_expected_attach_type :: bpf_attach_type
  req_prog_name :: string

record 'k sys =
  access :: "'k \<Rightarrow> string \<Rightarrow> bool"
  mapRetrieveRO :: "'k \<Rightarrow> string \<Rightarrow> (int \<times> int) \<times> 'k"
  bpf_MAP_CREATE :: "'k \<Rightarrow> bpf_attr_map_create \<Rightarrow> (int \<times> int) \<times> 'k"
  bpfGetFdMapType :: "'k \<Rightarrow> int \<Rightarrow> int"
  bpfGetFdKeySize :: "'k \<Rightarrow> int \<Rightarrow> int"
  bpfGetFdValueSize :: "'k \<Rightarrow> int \<Rightarrow> int"
  bpfGetFdMaxEntries :: "'k \<Rightarrow> int \<Rightarrow> int"
  bpfGetFdMapFlags :: "'k \<Rightarrow> int \<Rightarrow> int"
  bpfFdPin :: "'k \<Rightarrow> int \<Rightarrow> string \<Rightarrow> (int \<times> int) \<times> 'k"
  renameat2 :: "'k \<Rightarrow> string \<Rightarrow> string \<Rightarrow> (int \<times> int) \<times> 'k"
  chmod :: "'k \<Rightarrow> string \<Rightarrow> 32 word \<Rightarrow> (int \<times> int) \<times> 'k"
  chown :: "'k \<Rightarrow> string \<Rightarrow> 32 word \<Rightarrow> 32 word \<Rightarrow> (int \<times> int) \<times> 'k"
  retrieveProgram :: "'k \<Rightarrow> string \<Rightarrow> int \<times> 'k"
  bpf_PROG_LOAD :: "'k \<Rightarrow> bpf_attr_prog_load \<Rightarrow> int \<times> 'k"

definition BPF_FS_PATH :: string where
  "BPF_FS_PATH = ''/sys/fs/bpf/''"

text \<open>Constants of \<^verbatim>\<open>linux/bpf.h\<close>.\<close>

definition BPF_MAP_TYPE_HASH :: "32 word" where "BPF_MAP_TYPE_HASH = 1"
definition BPF_MAP_TYPE_ARRAY :: "32 word" where "BPF_MAP_TYPE_ARRAY = 2"
definition BPF_MAP_TYPE_DEVMAP :: "32 word" where "BPF_MAP_TYPE_DEVMAP = 14"
definition BPF_MAP_TYPE_DEVMAP_HASH :: "32 word" where "BPF_MAP_TYPE_DEVMAP_HASH = 25"
definition BPF_MAP_TYPE_RINGBUF :: "32 word" where "BPF_MAP_TYPE_RINGBUF = 27"
definition BPF_F_RDONLY_PROG :: "32 word" where "BPF_F_RDONLY_PROG = 128"
definition BPF_LD :: "8 word" where "BPF_LD = 0x00"
definition BPF_IMM :: "8 word" where "BPF_IMM = 0x00"
definition BPF_DW :: "8 word" where "BPF_DW = 0x18"
definition BPF_PSEUDO_MAP_FD :: nat where "BPF_PSEUDO_MAP_FD = 1"
definition BPF_OBJ_NAME_LEN :: nat where "BPF_OBJ_NAME_LEN = 16"

text \<open>\<^verbatim>\<open>s.substr(0, s.find_last_of(c))\<close>: all of \<open>s\<close> when \<open>c\<close> does not occur.\<close>

definition strip_from_last :: "char \<Rightarrow> string \<Rightarrow> string" where
  "strip_from_last c s =
     (if c \<in> set s then rev (tl (dropWhile (\<lambda>x. x \<noteq> c) (rev s))) else s)"

definition pathToObjName :: "string \<Rightarrow> string" where
  "pathToObjName path =
     (let filename = rev (takeWhile (\<lambda>x. x \<noteq> CHR ''/'') (rev path));
          name = strip_from_last CHR ''.'' filename
      in strip_from_last CHR ''@'' name)"

subsection \<open>Maps\<close>

definition mapMatchesExpectations ::
  "env \<Rightarrow> 'k sys \<Rightarrow> 'k \<Rightarrow> int \<Rightarrow> bpf_map_def \<Rightarrow> 32 word \<Rightarrow> bool" where
  "mapMatchesExpectations e y k fd mapDef type =
     (if \<not> isAtLeastKernelVersion e 4 14 0 then True
      else
        (let fd_type = bpfGetFdMapType y k fd;
             fd_key_size = bpfGetFdKeySize y k fd;
             fd_value_size = bpfGetFdValueSize y k fd;
             fd_max_entries = bpfGetFdMaxEntries y k fd;
             fd_map_flags = bpfGetFdMapFlags y k fd;
             desired_map_flags =
               (if type = BPF_MAP_TYPE_DEVMAP \<or> type = BPF_MAP_TYPE_DEVMAP_HASH
                  then sint (md_map_flags mapDef OR BPF_F_RDONLY_PROG)
                else sint (md_map_flags mapDef));
             desired_max_entries =
               (if type = BPF_MAP_TYPE_RINGBUF \<and> md_max_entries mapDef < page_size e
                  then page_size e
                else md_max_entries mapDef)
         in fd_type = sint type
            \<and> fd_key_size = sint (md_key_size mapDef)
            \<and> fd_value_size = sint (md_value_size mapDef)
            \<and> fd_max_entries = sint desired_max_entries
            \<and> fd_map_flags = desired_map_flags))"

text \<open>The block \<^verbatim>\<open>if (!reuse) { ... }\<close> of \<^verbatim>\<open>createMaps\<close>: pin, then mode and owner.\<close>

definition createMaps_pin ::
  "'k sys \<Rightarrow> string \<Rightarrow> string \<Rightarrow> domain \<Rightarrow> string \<Rightarrow> bpf_map_def \<Rightarrow> int \<Rightarrow> 'k
   \<Rightarrow> unit step \<times> 'k" where
  "createMaps_pin y objName mapName selinux_context mapPinLoc m fd k =
     (let pinned =
        (if specified selinux_context then
           (let createLoc = BPF_FS_PATH @ lookupPinSubdir selinux_context []
                              @ ''tmp_map_'' @ objName @ ''_'' @ mapName
            in case bpfFdPin y k fd createLoc of
                 ((ret, err), k1) \<Rightarrow>
                   if ret \<noteq> 0 then (Exit (ret_code (- err)), k1)
                   else
                     (case renameat2 y k1 createLoc mapPinLoc of
                        ((ret, err), k2) \<Rightarrow>
                          if ret \<noteq> 0 then (Exit (ret_code (- err)), k2) else (Next (), k2)))
         else
           (case bpfFdPin y k fd mapPinLoc of
              ((ret, err), k1) \<Rightarrow> if ret \<noteq> 0 then (Exit (ret_code (- err)), k1) else (Next (), k1)))
      in case pinned of
           (Next u, k2) \<Rightarrow>
             (case chmod y k2 mapPinLoc (md_mode m) of
                ((ret, err), k3) \<Rightarrow>
                  if ret \<noteq> 0 then (Exit (ret_code (- err)), k3)
                  else
                    (case chown y k3 mapPinLoc (md_uid m) (md_gid m) of
                       ((ret, err), k4) \<Rightarrow>
                         if ret \<noteq> 0 then (Exit (ret_code (- err)), k4) else (Next (), k4)))
         | (Exit r, k2) \<Rightarrow> (Exit r, k2))"

text \<open>
  The body of the loop of \<^verbatim>\<open>createMaps\<close> for one definition and its name: the
  descriptor to push, \<open>- 1\<close> being the empty \<^verbatim>\<open>unique_fd()\<close>, or the return.
  A \<^verbatim>\<open>return ret\<close> that leaves the loop by an error path with \<open>ret = 0\<close> is kept
  apart from the normal end by \<open>Exit\<close>.
\<close>

definition createMap ::
  "env \<Rightarrow> 'k sys \<Rightarrow> string \<Rightarrow> string \<Rightarrow> 32 word \<Rightarrow> bpf_map_def \<Rightarrow> string \<Rightarrow> 'k
   \<Rightarrow> int step \<times> 'k" where
  "createMap e y objName prefix bpfloader_ver m mapName k =
     (if md_zero m \<noteq> 0 then (Exit (Fault Abort), k)
      else if bpfloader_ver < md_bpfloader_min_ver m then (Next (- 1), k)
      else if bpfloader_ver \<ge> md_bpfloader_max_ver m then (Next (- 1), k)
      else if kernelVersion e < md_min_kver m then (Next (- 1), k)
      else if kernelVersion e \<ge> md_max_kver m then (Next (- 1), k)
      else if (md_ignore_on_eng m \<and> isEng e) \<or> (md_ignore_on_user m \<and> isUser e)
              \<or> (md_ignore_on_userdebug m \<and> isUserdebug e) then (Next (- 1), k)
      else if (isArm e \<and> isKernel32Bit e \<and> md_ignore_on_arm32 m)
              \<or> (isArm e \<and> isKernel64Bit e \<and> md_ignore_on_aarch64 m)
              \<or> (isX86 e \<and> isKernel32Bit e \<and> md_ignore_on_x86_32 m)
              \<or> (isX86 e \<and> isKernel64Bit e \<and> md_ignore_on_x86_64 m)
              \<or> (isRiscV e \<and> md_ignore_on_riscv64 m) then (Next (- 1), k)
      else
        (let type1 =
               (if md_type m = BPF_MAP_TYPE_DEVMAP \<and> \<not> isAtLeastKernelVersion e 4 14 0
                  then BPF_MAP_TYPE_ARRAY else md_type m);
             type =
               (if type1 = BPF_MAP_TYPE_DEVMAP_HASH \<and> \<not> isAtLeastKernelVersion e 5 4 0
                  then BPF_MAP_TYPE_HASH else type1);
             max_entries =
               (if type = BPF_MAP_TYPE_RINGBUF \<and> md_max_entries m < page_size e
                  then page_size e else md_max_entries m)
         in case getDomainFromSelinuxContext (md_selinux_context m) of
              Inl f \<Rightarrow> (Exit (Fault f), k)
            | Inr selinux_context \<Rightarrow>
                (case getDomainFromPinSubdir (md_pin_subdir m) of
                   Inl f \<Rightarrow> (Exit (Fault f), k)
                 | Inr pin_subdir \<Rightarrow>
                     if unrecognized pin_subdir then (Exit (Err (- ENOTDIR)), k)
                     else
                       (let mapPinLoc =
                              BPF_FS_PATH @ lookupPinSubdir pin_subdir prefix @ ''map_''
                                @ (if md_shared m then [] else objName) @ ''_'' @ mapName;
                            reuse = access y k mapPinLoc;
                            opened =
                              (if reuse then mapRetrieveRO y k mapPinLoc
                               else bpf_MAP_CREATE y k
                                      \<lparr>req_map_type = type,
                                       req_key_size = md_key_size m,
                                       req_value_size = md_value_size m,
                                       req_max_entries = max_entries,
                                       req_map_flags = md_map_flags m,
                                       req_map_name =
                                         (if isAtLeastKernelVersion e 4 15 0
                                            then take (BPF_OBJ_NAME_LEN - 1) mapName
                                          else [])\<rparr>)
                        in case opened of
                             ((fd, saved_errno), k1) \<Rightarrow>
                               if \<not> fd \<ge> 0 then (Exit (ret_code (- saved_errno)), k1)
                               else if \<not> mapMatchesExpectations e y k1 fd m type
                                 then (Exit (Err (- ENOTUNIQ)), k1)
                               else if \<not> reuse then
                                 (case createMaps_pin y objName mapName selinux_context
                                         mapPinLoc m fd k1 of
                                    (Next u, k2) \<Rightarrow> (Next fd, k2)
                                  | (Exit r, k2) \<Rightarrow> (Exit r, k2))
                               else (Next fd, k1)))))"

text \<open>The loop over \<^verbatim>\<open>mapNames\<close>; \<^verbatim>\<open>md[i]\<close> is not checked against the size of \<open>md\<close>.\<close>

fun createMaps_loop ::
  "env \<Rightarrow> 'k sys \<Rightarrow> string \<Rightarrow> string \<Rightarrow> 32 word \<Rightarrow> bpf_map_def list \<Rightarrow> string list \<Rightarrow> nat
   \<Rightarrow> int list \<Rightarrow> 'k \<Rightarrow> unit res \<times> int list \<times> 'k" where
  "createMaps_loop e y objName prefix bpfloader_ver md [] i mapFds k = (Ok (), mapFds, k)"
| "createMaps_loop e y objName prefix bpfloader_ver md (mapName # rest) i mapFds k =
     (if \<not> i < length md then (Fault OutOfBounds, mapFds, k)
      else
        (case createMap e y objName prefix bpfloader_ver (md ! i) mapName k of
           (Exit r, k') \<Rightarrow> (r, mapFds, k')
         | (Next fd, k') \<Rightarrow>
             createMaps_loop e y objName prefix bpfloader_ver md rest (Suc i) (mapFds @ [fd]) k'))"

definition createMaps ::
  "abi \<Rightarrow> env \<Rightarrow> 'k sys \<Rightarrow> string \<Rightarrow> ifstream \<Rightarrow> int list \<Rightarrow> string \<Rightarrow> nat \<Rightarrow> 32 word \<Rightarrow> 'k
   \<Rightarrow> unit res \<times> int list \<times> ifstream \<times> 'k" where
  "createMaps a e y elfPath s mapFds prefix sizeOfBpfMapDef bpfloader_ver k =
     (case readSectionByName ''maps'' s of
        (Err r, s1) \<Rightarrow> if r = - 2 then (Ok (), mapFds, s1, k) else (Err r, mapFds, s1, k)
      | (Fault f, s1) \<Rightarrow> (Fault f, mapFds, s1, k)
      | (Ok mdData, s1) \<Rightarrow>
          (case createMaps_defs a mdData sizeOfBpfMapDef of
             Err r \<Rightarrow> (Err r, mapFds, s1, k)
           | Fault f \<Rightarrow> (Fault f, mapFds, s1, k)
           | Ok md \<Rightarrow>
               (case getSectionSymNames ''maps'' [] None s1 of
                  (Err r, mapNames, s2) \<Rightarrow> (Err r, mapFds, s2, k)
                | (Fault f, mapNames, s2) \<Rightarrow> (Fault f, mapFds, s2, k)
                | (Ok u, mapNames, s2) \<Rightarrow>
                    (case createMaps_loop e y (pathToObjName elfPath) prefix bpfloader_ver
                            (map (as_bpf_map_def a) md) mapNames 0 mapFds k of
                       (r, fds, k') \<Rightarrow> (r, fds, s2, k')))))"

subsection \<open>Relocations\<close>

text \<open>
  A \<^verbatim>\<open>struct bpf_insn\<close> is eight bytes: \<^verbatim>\<open>code\<close>, one byte holding \<^verbatim>\<open>dst_reg\<close> in
  its low and \<^verbatim>\<open>src_reg\<close> in its high four bits, \<^verbatim>\<open>off\<close> in two bytes and \<^verbatim>\<open>imm\<close>
  in four. \<^verbatim>\<open>applyRelo\<close> indexes the instructions by an \<^verbatim>\<open>int\<close> and checks no bound.
\<close>

definition sizeof_bpf_insn :: nat where "sizeof_bpf_insn = 8"

definition insn_code :: "string \<Rightarrow> nat \<Rightarrow> 8 word" where
  "insn_code insns i = of_char (insns ! (sizeof_bpf_insn * i))"




definition set_src_reg :: "char \<Rightarrow> nat \<Rightarrow> char" where
  "set_src_reg b v = char_of (of_char b mod 16 + 16 * (v mod 16) :: nat)"

definition applyRelo :: "string \<Rightarrow> 64 word \<Rightarrow> int \<Rightarrow> fault + string" where
  "applyRelo insns offset fd =
     (let insnIndex = sint (ucast (offset div 8) :: 32 word);
          p = sizeof_bpf_insn * nat insnIndex
      in if insnIndex < 0 \<or> \<not> p < length insns then Inl OutOfBounds
         else if insn_code insns (nat insnIndex) \<noteq> BPF_LD OR BPF_IMM OR BPF_DW then Inr insns
         else if \<not> p + sizeof_bpf_insn \<le> length insns then Inl OutOfBounds
         else Inr (store_u32 (p + 4) (word_of_int fd)
                     (insns[p + 1 := set_src_reg (insns ! (p + 1)) BPF_PSEUDO_MAP_FD])))"

record Elf64_Rel =
  r_offset :: "64 word"
  r_info :: "64 word"

definition sizeof_Elf64_Rel :: nat where "sizeof_Elf64_Rel = 16"

definition Elf64_Rel_of_bytes :: "string \<Rightarrow> Elf64_Rel" where
  "Elf64_Rel_of_bytes b =
     \<lparr>r_offset = word_of_nat (le_nat (take 8 b)),
      r_info = word_of_nat (le_nat (take 8 (drop 8 b)))\<rparr>"

definition ELF64_R_SYM :: "64 word \<Rightarrow> 64 word" where
  "ELF64_R_SYM i = drop_bit 32 i"

text \<open>The search for the map of a symbol name: the first match, its index into \<open>mapFds\<close>.\<close>

fun find_map_fd :: "string list \<Rightarrow> int list \<Rightarrow> nat \<Rightarrow> string \<Rightarrow> (fault + int) option" where
  "find_map_fd [] mapFds j symName = None"
| "find_map_fd (n # ns) mapFds j symName =
     (if n = symName then
        Some (if j < length mapFds then Inr (mapFds ! j) else Inl OutOfBounds)
      else find_map_fd ns mapFds (Suc j) symName)"

text \<open>
  The loop over the relocation records of one code section. \<open>Err\<close> stands for the
  \<^verbatim>\<open>return\<close> of \<^verbatim>\<open>applyMapRelo\<close> after a failed symbol lookup, which its caller cannot
  see; what was rewritten until then stays rewritten.
\<close>

fun applyMapRelo_rels ::
  "string list \<Rightarrow> int list \<Rightarrow> Elf64_Rel list \<Rightarrow> string \<Rightarrow> ifstream
   \<Rightarrow> unit res \<times> string \<times> ifstream" where
  "applyMapRelo_rels mapNames mapFds [] insns s = (Ok (), insns, s)"
| "applyMapRelo_rels mapNames mapFds (r # rs) insns s =
     (let symIndex = sint (ucast (ELF64_R_SYM (r_info r)) :: 32 word)
      in case getSymNameByIdx symIndex s of
           (Err e, s') \<Rightarrow> (Err e, insns, s')
         | (Fault f, s') \<Rightarrow> (Fault f, insns, s')
         | (Ok symName, s') \<Rightarrow>
             (case find_map_fd mapNames mapFds 0 symName of
                None \<Rightarrow> applyMapRelo_rels mapNames mapFds rs insns s'
              | Some (Inl f) \<Rightarrow> (Fault f, insns, s')
              | Some (Inr fd) \<Rightarrow>
                  (case applyRelo insns (r_offset r) fd of
                     Inl f \<Rightarrow> (Fault f, insns, s')
                   | Inr insns' \<Rightarrow> applyMapRelo_rels mapNames mapFds rs insns' s')))"

definition rel_records :: "string \<Rightarrow> Elf64_Rel list" where
  "rel_records rel_data =
     map Elf64_Rel_of_bytes
       (array_of sizeof_Elf64_Rel (length rel_data div sizeof_Elf64_Rel) rel_data)"

fun applyMapRelo_loop ::
  "string list \<Rightarrow> int list \<Rightarrow> codeSection list \<Rightarrow> ifstream
   \<Rightarrow> unit res \<times> codeSection list \<times> ifstream" where
  "applyMapRelo_loop mapNames mapFds [] s = (Ok (), [], s)"
| "applyMapRelo_loop mapNames mapFds (c # cs) s =
     (case applyMapRelo_rels mapNames mapFds (rel_records (cs_rel_data c)) (cs_data c) s of
        (Ok u, insns, s') \<Rightarrow>
          (case applyMapRelo_loop mapNames mapFds cs s' of
             (r, cs', s'') \<Rightarrow> (r, c\<lparr>cs_data := insns\<rparr> # cs', s''))
      | (Err e, insns, s') \<Rightarrow> (Err e, c\<lparr>cs_data := insns\<rparr> # cs, s')
      | (Fault f, insns, s') \<Rightarrow> (Fault f, c\<lparr>cs_data := insns\<rparr> # cs, s'))"

definition applyMapRelo ::
  "ifstream \<Rightarrow> int list \<Rightarrow> codeSection list \<Rightarrow> unit res \<times> codeSection list \<times> ifstream" where
  "applyMapRelo s mapFds cs =
     (case getSectionSymNames ''maps'' [] None s of
        (Err e, mapNames, s1) \<Rightarrow> (Err e, cs, s1)
      | (Fault f, mapNames, s1) \<Rightarrow> (Fault f, cs, s1)
      | (Ok u, mapNames, s1) \<Rightarrow> applyMapRelo_loop mapNames mapFds cs s1)"

subsection \<open>Programs\<close>

text \<open>
  The block \<^verbatim>\<open>if (!reuse) { ... }\<close> of \<^verbatim>\<open>loadCodeSections\<close>; the mode
  \<^verbatim>\<open>0440\<close> is octal, \<open>0x120\<close>.
\<close>

definition loadCodeSections_pin ::
  "'k sys \<Rightarrow> string \<Rightarrow> string \<Rightarrow> domain \<Rightarrow> string \<Rightarrow> bpf_prog_def \<Rightarrow> int \<Rightarrow> 'k
   \<Rightarrow> unit step \<times> 'k" where
  "loadCodeSections_pin y objName name selinux_context progPinLoc pd fd k =
     (let pinned =
        (if specified selinux_context then
           (let createLoc = BPF_FS_PATH @ lookupPinSubdir selinux_context []
                              @ ''tmp_prog_'' @ objName @ ''_'' @ name
            in case bpfFdPin y k fd createLoc of
                 ((ret, err), k1) \<Rightarrow>
                   if ret \<noteq> 0 then (Exit (ret_code (- err)), k1)
                   else
                     (case renameat2 y k1 createLoc progPinLoc of
                        ((ret, err), k2) \<Rightarrow>
                          if ret \<noteq> 0 then (Exit (ret_code (- err)), k2) else (Next (), k2)))
         else
           (case bpfFdPin y k fd progPinLoc of
              ((ret, err), k1) \<Rightarrow> if ret \<noteq> 0 then (Exit (ret_code (- err)), k1) else (Next (), k1)))
      in case pinned of
           (Next u, k2) \<Rightarrow>
             (case chmod y k2 progPinLoc 0x120 of
                ((ret, err), k3) \<Rightarrow>
                  if ret \<noteq> 0 then (Exit (ret_code (- err)), k3)
                  else
                    (case chown y k3 progPinLoc (pd_uid pd) (pd_gid pd) of
                       ((ret, err), k4) \<Rightarrow>
                         if ret \<noteq> 0 then (Exit (ret_code (- err)), k4) else (Next (), k4)))
         | (Exit r, k2) \<Rightarrow> (Exit r, k2))"

text \<open>
  The body of the loop of \<^verbatim>\<open>loadCodeSections\<close> for one code section: the section
  with its \<^verbatim>\<open>prog_fd\<close> as the round leaves it, or the return.
\<close>

definition loadCodeSection ::
  "env \<Rightarrow> 'k sys \<Rightarrow> string \<Rightarrow> string \<Rightarrow> string \<Rightarrow> 32 word \<Rightarrow> codeSection \<Rightarrow> 'k
   \<Rightarrow> codeSection step \<times> 'k" where
  "loadCodeSection e y objName license prefix bpfloader_ver c k =
     (case cs_prog_def c of
        None \<Rightarrow> (Exit (Err (- EINVAL)), k)
      | Some pd \<Rightarrow>
          if kernelVersion e < pd_min_kver pd then (Next c, k)
          else if kernelVersion e \<ge> pd_max_kver pd then (Next c, k)
          else
            (case getDomainFromSelinuxContext (pd_selinux_context pd) of
               Inl f \<Rightarrow> (Exit (Fault f), k)
             | Inr selinux_context \<Rightarrow>
                 (case getDomainFromPinSubdir (pd_pin_subdir pd) of
                    Inl f \<Rightarrow> (Exit (Fault f), k)
                  | Inr pin_subdir \<Rightarrow>
                      if bpfloader_ver < pd_bpfloader_min_ver pd then (Next c, k)
                      else if bpfloader_ver \<ge> pd_bpfloader_max_ver pd then (Next c, k)
                      else if (pd_ignore_on_eng pd \<and> isEng e) \<or> (pd_ignore_on_user pd \<and> isUser e)
                              \<or> (pd_ignore_on_userdebug pd \<and> isUserdebug e) then (Next c, k)
                      else if (isArm e \<and> isKernel32Bit e \<and> pd_ignore_on_arm32 pd)
                              \<or> (isArm e \<and> isKernel64Bit e \<and> pd_ignore_on_aarch64 pd)
                              \<or> (isX86 e \<and> isKernel32Bit e \<and> pd_ignore_on_x86_32 pd)
                              \<or> (isX86 e \<and> isKernel64Bit e \<and> pd_ignore_on_x86_64 pd)
                              \<or> (isRiscV e \<and> pd_ignore_on_riscv64 pd) then (Next c, k)
                      else if unrecognized pin_subdir then (Exit (Err (- ENOTDIR)), k)
                      else
                        (let name = strip_from_last CHR ''$'' (cs_name c);
                             progPinLoc =
                               BPF_FS_PATH @ lookupPinSubdir pin_subdir prefix @ ''prog_''
                                 @ objName @ ''_'' @ name
                         in if access y k progPinLoc then
                              (case retrieveProgram y k progPinLoc of
                                 (fd, k1) \<Rightarrow>
                                   if \<not> fd \<ge> 0 then (Exit (ret_code fd), k1)
                                   else (Next (c\<lparr>cs_prog_fd := fd\<rparr>), k1))
                            else
                              (case bpf_PROG_LOAD y k
                                      \<lparr>req_prog_type = cs_type c,
                                       req_kern_version = kernelVersion e,
                                       req_license = license,
                                       req_insns = cs_data c,
                                       req_insn_cnt =
                                         word_of_nat (length (cs_data c) div sizeof_bpf_insn),
                                       req_expected_attach_type = cs_expected_attach_type c,
                                       req_prog_name =
                                         (if isAtLeastKernelVersion e 4 15 0
                                            then take (BPF_OBJ_NAME_LEN - 1) (cs_name c)
                                          else [])\<rparr> of
                                 (fd, k1) \<Rightarrow>
                                   if \<not> fd \<ge> 0 then
                                     (if pd_optional pd then (Next (c\<lparr>cs_prog_fd := fd\<rparr>), k1)
                                      else (Exit (ret_code fd), k1))
                                   else
                                     (case loadCodeSections_pin y objName name selinux_context
                                             progPinLoc pd fd k1 of
                                        (Next u, k2) \<Rightarrow> (Next (c\<lparr>cs_prog_fd := fd\<rparr>), k2)
                                      | (Exit r, k2) \<Rightarrow> (Exit r, k2)))))))"

fun loadCodeSections_loop ::
  "env \<Rightarrow> 'k sys \<Rightarrow> string \<Rightarrow> string \<Rightarrow> string \<Rightarrow> 32 word \<Rightarrow> codeSection list \<Rightarrow> 'k
   \<Rightarrow> unit res \<times> codeSection list \<times> 'k" where
  "loadCodeSections_loop e y objName license prefix bpfloader_ver [] k = (Ok (), [], k)"
| "loadCodeSections_loop e y objName license prefix bpfloader_ver (c # cs) k =
     (case loadCodeSection e y objName license prefix bpfloader_ver c k of
        (Exit r, k') \<Rightarrow> (r, c # cs, k')
      | (Next c', k') \<Rightarrow>
          (case loadCodeSections_loop e y objName license prefix bpfloader_ver cs k' of
             (r, cs', k'') \<Rightarrow> (r, c' # cs', k'')))"

definition loadCodeSections ::
  "env \<Rightarrow> 'k sys \<Rightarrow> string \<Rightarrow> codeSection list \<Rightarrow> string \<Rightarrow> string \<Rightarrow> 32 word \<Rightarrow> 'k
   \<Rightarrow> unit res \<times> codeSection list \<times> 'k" where
  "loadCodeSections e y elfPath cs license prefix bpfloader_ver k =
     (if kernelVersion e = 0 then (Err (- EINVAL), cs, k)
      else loadCodeSections_loop e y (pathToObjName elfPath) license prefix bpfloader_ver cs k)"

subsection \<open>One object\<close>

record Location =
  loc_dir :: string
  loc_prefix :: string

text \<open>The five scalar sections, read in the order of the source.\<close>

definition readVersions ::
  "abi \<Rightarrow> ifstream \<Rightarrow> (32 word \<times> 32 word \<times> 32 word \<times> nat \<times> nat) res \<times> ifstream" where
  "readVersions a s =
     and_then (readSectionUint ''bpfloader_min_ver'' s (DEFAULT_BPFLOADER_MIN_VER a))
       (\<lambda>bpfLoaderMinVer s.
     and_then (readSectionUint ''bpfloader_max_ver'' s (DEFAULT_BPFLOADER_MAX_VER a))
       (\<lambda>bpfLoaderMaxVer s.
     and_then (readSectionUint ''bpfloader_min_required_ver'' s 0)
       (\<lambda>bpfLoaderMinRequiredVer s.
     and_then (readSectionUint ''size_of_bpf_map_def'' s
                 (word_of_nat (DEFAULT_SIZEOF_BPF_MAP_DEF a)))
       (\<lambda>sizeOfBpfMapDef s.
     and_then (readSectionUint ''size_of_bpf_prog_def'' s
                 (word_of_nat (DEFAULT_SIZEOF_BPF_PROG_DEF a)))
       (\<lambda>sizeOfBpfProgDef s.
          (Ok (bpfLoaderMinVer, bpfLoaderMaxVer, bpfLoaderMinRequiredVer,
               unat sizeOfBpfMapDef, unat sizeOfBpfProgDef), s))))))"

text \<open>
  \<^verbatim>\<open>loadProg\<close> from the two size checks to its end: what the loader does with an
  object once the version checks let it through.
\<close>

definition loadProg_load ::
  "abi \<Rightarrow> env \<Rightarrow> 'k sys \<Rightarrow> string \<Rightarrow> 32 word \<Rightarrow> Location \<Rightarrow> string \<Rightarrow> nat \<Rightarrow> nat
   \<Rightarrow> ifstream \<Rightarrow> 'k \<Rightarrow> unit res \<times> 'k" where
  "loadProg_load a e y elfPath bpfloader_ver location license sizeOfBpfMapDef sizeOfBpfProgDef
     s k =
     (if sizeOfBpfMapDef < DEFAULT_SIZEOF_BPF_MAP_DEF a then (Err (- 1), k)
      else if sizeOfBpfProgDef < DEFAULT_SIZEOF_BPF_PROG_DEF a then (Err (- 1), k)
      else
        (case readCodeSections a s sizeOfBpfProgDef of
           (Err r, cs, s1) \<Rightarrow> (Err r, k)
         | (Fault f, cs, s1) \<Rightarrow> (Fault f, k)
         | (Ok u, cs, s1) \<Rightarrow>
             (case createMaps a e y elfPath s1 [] (loc_prefix location) sizeOfBpfMapDef
                     bpfloader_ver k of
                (Err r, mapFds, s2, k1) \<Rightarrow> (Err r, k1)
              | (Fault f, mapFds, s2, k1) \<Rightarrow> (Fault f, k1)
              | (Ok u, mapFds, s2, k1) \<Rightarrow>
                  (case applyMapRelo s2 mapFds cs of
                     (Fault f, cs', s3) \<Rightarrow> (Fault f, k1)
                   | (r, cs', s3) \<Rightarrow>
                       if NUL \<notin> set license then (Fault OutOfBounds, k1)
                       else
                         (case loadCodeSections e y elfPath cs'
                                 (takeWhile (\<lambda>c. c \<noteq> NUL) license) (loc_prefix location)
                                 bpfloader_ver k1 of
                            (r, cs'', k2) \<Rightarrow> (r, k2))))))"

datatype gate = Skip | Fail | Proceed

text \<open>The three version checks of \<^verbatim>\<open>loadProg\<close>, in their order.\<close>

definition version_gate :: "32 word \<Rightarrow> 32 word \<Rightarrow> 32 word \<Rightarrow> 32 word \<Rightarrow> gate" where
  "version_gate bpfloader_ver bpfLoaderMinVer bpfLoaderMaxVer bpfLoaderMinRequiredVer =
     (if bpfloader_ver < bpfLoaderMinVer then Skip
      else if bpfloader_ver \<ge> bpfLoaderMaxVer then Skip
      else if bpfloader_ver < bpfLoaderMinRequiredVer then Fail
      else Proceed)"

text \<open>
  \<^verbatim>\<open>loadProg\<close> returns its code and what it stored through \<^verbatim>\<open>isCritical\<close>, a pointer
  that its only caller never passes as null.
\<close>

definition loadProg ::
  "abi \<Rightarrow> env \<Rightarrow> 'k sys \<Rightarrow> string \<Rightarrow> 32 word \<Rightarrow> Location \<Rightarrow> 'k \<Rightarrow> (unit res \<times> bool) \<times> 'k" where
  "loadProg a e y elfPath bpfloader_ver location k =
     (case open_elf e elfPath of
        None \<Rightarrow> ((Err (- 1), False), k)
      | Some img \<Rightarrow>
          (case readSectionByName ''critical'' \<lparr>contents = img, failbit = False\<rparr> of
             (Fault f, s1) \<Rightarrow> ((Fault f, False), k)
           | (ret, s1) \<Rightarrow>
               (let isCritical = is_Ok ret
                in case readSectionByName ''license'' s1 of
                     (Err r, s2) \<Rightarrow> ((Err r, isCritical), k)
                   | (Fault f, s2) \<Rightarrow> ((Fault f, isCritical), k)
                   | (Ok license, s2) \<Rightarrow>
                       (case readVersions a s2 of
                          (Err r, s3) \<Rightarrow> ((Err r, isCritical), k)
                        | (Fault f, s3) \<Rightarrow> ((Fault f, isCritical), k)
                        | (Ok (bpfLoaderMinVer, bpfLoaderMaxVer, bpfLoaderMinRequiredVer,
                               sizeOfBpfMapDef, sizeOfBpfProgDef), s3) \<Rightarrow>
                            (case version_gate bpfloader_ver bpfLoaderMinVer bpfLoaderMaxVer
                                    bpfLoaderMinRequiredVer of
                               Skip \<Rightarrow> ((Ok (), isCritical), k)
                             | Fail \<Rightarrow> ((Err (- 1), isCritical), k)
                             | Proceed \<Rightarrow>
                                 (case loadProg_load a e y elfPath bpfloader_ver location license
                                         sizeOfBpfMapDef sizeOfBpfProgDef s3 k of
                                    (r, k') \<Rightarrow> ((r, isCritical), k')))))))"

subsection \<open>All objects of a location\<close>

text \<open>
  The loop over the directory entries, \<open>retVal\<close> carried along. A fault in one object
  ends the process.
\<close>

fun loadAllElfObjects_loop ::
  "abi \<Rightarrow> env \<Rightarrow> 'k sys \<Rightarrow> 32 word \<Rightarrow> Location \<Rightarrow> string list \<Rightarrow> int \<Rightarrow> 'k
   \<Rightarrow> (fault + int) \<times> 'k" where
  "loadAllElfObjects_loop a e y bpfloader_ver location [] retVal k = (Inr retVal, k)"
| "loadAllElfObjects_loop a e y bpfloader_ver location (ent # ents) retVal k =
     (if \<not> EndsWith ent ''.o'' then
        loadAllElfObjects_loop a e y bpfloader_ver location ents retVal k
      else
        (case loadProg a e y (loc_dir location @ ent) bpfloader_ver location k of
           ((Fault f, critical), k') \<Rightarrow> (Inl f, k')
         | ((Ok u, critical), k') \<Rightarrow>
             loadAllElfObjects_loop a e y bpfloader_ver location ents retVal k'
         | ((Err ret, critical), k') \<Rightarrow>
             loadAllElfObjects_loop a e y bpfloader_ver location ents
               (if critical then ret else retVal) k'))"

definition loadAllElfObjects ::
  "abi \<Rightarrow> env \<Rightarrow> 'k sys \<Rightarrow> 32 word \<Rightarrow> Location \<Rightarrow> 'k \<Rightarrow> (fault + int) \<times> 'k" where
  "loadAllElfObjects a e y bpfloader_ver location k =
     (case opendir e (loc_dir location) of
        None \<Rightarrow> (Inr 0, k)
      | Some ents \<Rightarrow> loadAllElfObjects_loop a e y bpfloader_ver location ents 0 k)"

subsection \<open>Notions used in the statements\<close>

text \<open>
  The outcomes of \<^verbatim>\<open>loadProg\<close> for the \<^verbatim>\<open>.o\<close> entries of a directory, in the order
  the loop meets them, and the error codes of the critical failures among them.
\<close>

fun object_outcomes ::
  "abi \<Rightarrow> env \<Rightarrow> 'k sys \<Rightarrow> 32 word \<Rightarrow> Location \<Rightarrow> string list \<Rightarrow> 'k \<Rightarrow> (unit res \<times> bool) list" where
  "object_outcomes a e y bpfloader_ver location [] k = []"
| "object_outcomes a e y bpfloader_ver location (ent # ents) k =
     (if \<not> EndsWith ent ''.o'' then object_outcomes a e y bpfloader_ver location ents k
      else
        (case loadProg a e y (loc_dir location @ ent) bpfloader_ver location k of
           (out, k') \<Rightarrow> out # object_outcomes a e y bpfloader_ver location ents k'))"

fun critical_errors :: "(unit res \<times> bool) list \<Rightarrow> int list" where
  "critical_errors [] = []"
| "critical_errors ((Err ret, True) # outs) = ret # critical_errors outs"
| "critical_errors (out # outs) = critical_errors outs"

definition faulted :: "unit res \<times> bool \<Rightarrow> bool" where
  "faulted out = (case fst out of Fault f \<Rightarrow> True | _ \<Rightarrow> False)"

subsection \<open>Example objects\<close>

text \<open>
  Two small objects. Object \<open>b\<close> is marked critical, carries a license, asks for a loader
  of version 43 or later and requires version 45; object \<open>a\<close> is marked critical and has
  no license. Both use one string table for section names, at section index 1.
\<close>

definition ex_strtab :: string where
  "ex_strtab =
     [NUL] @ ''.strtab'' @ [NUL] @ ''critical'' @ [NUL] @ ''license'' @ [NUL]
       @ ''bpfloader_min_ver'' @ [NUL] @ ''bpfloader_min_required_ver'' @ [NUL]
       @ ''pad'' @ [NUL]"

definition ex_section :: "32 word \<Rightarrow> string \<Rightarrow> Elf64_Shdr" where
  "ex_section name_off bytes = \<lparr>sh_name = name_off, sh_type = 1, sh_bytes = Data bytes\<rparr>"

definition ex_sections_a :: "Elf64_Shdr list" where
  "ex_sections_a =
     [ex_section 0 [],
      ex_section 1 ex_strtab,
      ex_section 9 (''netd'' @ [NUL])]"

definition ex_image_a :: elf_image where
  "ex_image_a = \<lparr>ehdr = Some \<lparr>e_shstrndx = 1\<rparr>, shdrs = Data ex_sections_a\<rparr>"

definition ex_sections_b :: "Elf64_Shdr list" where
  "ex_sections_b =
     [ex_section 0 [],
      ex_section 1 ex_strtab,
      ex_section 9 (''netd'' @ [NUL]),
      ex_section 18 (''Apache 2.0'' @ [NUL]),
      ex_section 26 [CHR 0x2B, NUL, NUL, NUL],
      ex_section 44 [CHR 0x2D, NUL, NUL, NUL],
      ex_section 71 [CHR 0x01, CHR 0x02]]"

definition ex_image_b :: elf_image where
  "ex_image_b = \<lparr>ehdr = Some \<lparr>e_shstrndx = 1\<rparr>, shdrs = Data ex_sections_b\<rparr>"

definition ex_stream_a :: ifstream where
  "ex_stream_a = \<lparr>contents = ex_image_a, failbit = False\<rparr>"

definition ex_stream_b :: ifstream where
  "ex_stream_b = \<lparr>contents = ex_image_b, failbit = False\<rparr>"

text \<open>
  An instance of the declarations of \<^verbatim>\<open>bpf_map_def.h\<close> for the examples: version 0.0
  records of 32 and 20 bytes, objects of 120 and 92 bytes.
\<close>

definition u32_at :: "nat \<Rightarrow> string \<Rightarrow> 32 word" where
  "u32_at off b = word_of_nat (le_nat (take 4 (drop off b)))"

definition flag_at :: "nat \<Rightarrow> nat \<Rightarrow> string \<Rightarrow> bool" where
  "flag_at off n b = odd (of_char (b ! off) div 2 ^ n :: nat)"

definition ex_as_bpf_map_def :: "string \<Rightarrow> bpf_map_def" where
  "ex_as_bpf_map_def b =
     \<lparr>md_type = u32_at 0 b, md_key_size = u32_at 4 b, md_value_size = u32_at 8 b,
      md_max_entries = u32_at 12 b, md_map_flags = u32_at 16 b, md_zero = u32_at 20 b,
      md_gid = u32_at 24 b, md_mode = u32_at 28 b, md_bpfloader_min_ver = u32_at 32 b,
      md_bpfloader_max_ver = u32_at 36 b, md_min_kver = u32_at 40 b, md_max_kver = u32_at 44 b,
      md_selinux_context = take 32 (drop 48 b), md_pin_subdir = take 32 (drop 80 b),
      md_shared = (b ! 112 \<noteq> NUL),
      md_ignore_on_eng = flag_at 113 0 b, md_ignore_on_user = flag_at 113 1 b,
      md_ignore_on_userdebug = flag_at 113 2 b, md_ignore_on_arm32 = flag_at 113 3 b,
      md_ignore_on_aarch64 = flag_at 113 4 b, md_ignore_on_x86_32 = flag_at 113 5 b,
      md_ignore_on_x86_64 = flag_at 113 6 b, md_ignore_on_riscv64 = flag_at 113 7 b,
      md_uid = u32_at 116 b\<rparr>"

definition ex_as_bpf_prog_def :: "string \<Rightarrow> bpf_prog_def" where
  "ex_as_bpf_prog_def b =
     \<lparr>pd_uid = u32_at 0 b, pd_gid = u32_at 4 b, pd_min_kver = u32_at 8 b,
      pd_max_kver = u32_at 12 b, pd_optional = (b ! 16 \<noteq> NUL),
      pd_ignore_on_eng = flag_at 17 0 b, pd_ignore_on_user = flag_at 17 1 b,
      pd_ignore_on_userdebug = flag_at 17 2 b, pd_ignore_on_arm32 = flag_at 17 3 b,
      pd_ignore_on_aarch64 = flag_at 17 4 b, pd_ignore_on_x86_32 = flag_at 17 5 b,
      pd_ignore_on_x86_64 = flag_at 17 6 b, pd_ignore_on_riscv64 = flag_at 17 7 b,
      pd_bpfloader_min_ver = u32_at 20 b, pd_bpfloader_max_ver = u32_at 24 b,
      pd_selinux_context = take 32 (drop 28 b), pd_pin_subdir = take 32 (drop 60 b)\<rparr>"

definition ex_abi :: abi where
  "ex_abi =
     \<lparr>DEFAULT_BPFLOADER_MIN_VER = 0,
      DEFAULT_BPFLOADER_MAX_VER = 0x10000,
      DEFAULT_SIZEOF_BPF_MAP_DEF = 32,
      DEFAULT_SIZEOF_BPF_PROG_DEF = 20,
      sizeof_bpf_map_def = 120,
      sizeof_bpf_prog_def = 92,
      offsetof_map_bpfloader_max_ver = 36,
      offsetof_map_max_kver = 44,
      offsetof_prog_bpfloader_max_ver = 24,
      as_bpf_map_def = ex_as_bpf_map_def,
      as_bpf_prog_def = ex_as_bpf_prog_def\<rparr>"

text \<open>
  A 64-bit arm device on a 6.1 kernel with a \<^verbatim>\<open>userdebug\<close> build, whose first location
  holds the two objects; and a kernel in which nothing is pinned, every map creation
  succeeds and a descriptor reports what it was created with. The descriptors are 3, 4, ...
  in the order of creation.
\<close>

definition ex_dir :: string where
  "ex_dir = ''/apex/com.android.tethering/etc/bpf/''"

definition ex_location :: Location where
  "ex_location = \<lparr>loc_dir = ex_dir, loc_prefix = ''tethering/''\<rparr>"

definition ex_env :: env where
  "ex_env =
     \<lparr>kernelVersion = 0x06010000,
      isAtLeastKernelVersion =
        (\<lambda>major minor sub. major < 6 \<or> (major = 6 \<and> (minor < 1 \<or> (minor = 1 \<and> sub = 0)))),
      getBuildType = ''userdebug'',
      isArm = True, isX86 = False, isRiscV = False,
      isKernel32Bit = False, isKernel64Bit = True,
      page_size = 4096,
      open_elf = (\<lambda>path. if path = ex_dir @ ''a.o'' then Some ex_image_a
                          else if path = ex_dir @ ''b.o'' then Some ex_image_b else None),
      opendir = (\<lambda>d. if d = ex_dir then Some [''.'', ''..'', ''a.o'', ''b.o''] else None)\<rparr>"

definition ex_fd_map :: "bpf_attr_map_create list \<Rightarrow> int \<Rightarrow> bpf_attr_map_create option" where
  "ex_fd_map k fd = (if 3 \<le> fd \<and> nat (fd - 3) < length k then Some (k ! nat (fd - 3)) else None)"

definition ex_fd_info ::
  "(bpf_attr_map_create \<Rightarrow> 32 word) \<Rightarrow> bpf_attr_map_create list \<Rightarrow> int \<Rightarrow> int" where
  "ex_fd_info field k fd = (case ex_fd_map k fd of None \<Rightarrow> - 1 | Some m \<Rightarrow> sint (field m))"

definition ex_sys :: "bpf_attr_map_create list sys" where
  "ex_sys =
     \<lparr>access = (\<lambda>k path. False),
      mapRetrieveRO = (\<lambda>k path. ((- 1, 2), k)),
      bpf_MAP_CREATE = (\<lambda>k req. ((3 + int (length k), 0), k @ [req])),
      bpfGetFdMapType = ex_fd_info req_map_type,
      bpfGetFdKeySize = ex_fd_info req_key_size,
      bpfGetFdValueSize = ex_fd_info req_value_size,
      bpfGetFdMaxEntries = ex_fd_info req_max_entries,
      bpfGetFdMapFlags = ex_fd_info req_map_flags,
      bpfFdPin = (\<lambda>k fd path. ((0, 0), k)),
      renameat2 = (\<lambda>k old new. ((0, 0), k)),
      chmod = (\<lambda>k path mode. ((0, 0), k)),
      chown = (\<lambda>k path uid gid. ((0, 0), k)),
      retrieveProgram = (\<lambda>k path. (- 1, k)),
      bpf_PROG_LOAD = (\<lambda>k req. (- 1, k))\<rparr>"

text \<open>
  Object \<open>c\<close> holds one program and one map: a string table for the names of sections and
  symbols, \<^verbatim>\<open>progs\<close> and \<^verbatim>\<open>maps\<close> with one version 0.0 record each, the license, the
  symbol table, the code section \<^verbatim>\<open>xdp/prog\<close> of three instructions, the first a 64-bit
  immediate load, and its relocation section with one record, for the symbol of the map.
  Object \<open>d\<close> is object \<open>c\<close> without the relocation section: its code section is the
  last section.
\<close>

definition ex_strtab_c :: string where
  "ex_strtab_c =
     [NUL] @ ''.strtab'' @ [NUL] @ ''progs'' @ [NUL] @ ''maps'' @ [NUL] @ ''license'' @ [NUL]
       @ ''.symtab'' @ [NUL] @ ''.relxdp/prog'' @ [NUL] @ ''xdp_prog_def'' @ [NUL]
       @ ''xdp_prog'' @ [NUL] @ ''a_map'' @ [NUL]"

definition ex_symtab_c :: string where
  "ex_symtab_c =
     [NUL, NUL, NUL, NUL, NUL, NUL, NUL, NUL,
      NUL, NUL, NUL, NUL, NUL, NUL, NUL, NUL,
      NUL, NUL, NUL, NUL, NUL, NUL, NUL, NUL,
      CHR 0x3E, NUL, NUL, NUL, CHR 0x12, NUL, CHR 0x06, NUL,
      NUL, NUL, NUL, NUL, NUL, NUL, NUL, NUL,
      CHR 0x18, NUL, NUL, NUL, NUL, NUL, NUL, NUL,
      CHR 0x31, NUL, NUL, NUL, CHR 0x11, NUL, CHR 0x02, NUL,
      NUL, NUL, NUL, NUL, NUL, NUL, NUL, NUL,
      CHR 0x14, NUL, NUL, NUL, NUL, NUL, NUL, NUL,
      CHR 0x47, NUL, NUL, NUL, CHR 0x11, NUL, CHR 0x03, NUL,
      NUL, NUL, NUL, NUL, NUL, NUL, NUL, NUL,
      CHR 0x20, NUL, NUL, NUL, NUL, NUL, NUL, NUL]"

definition ex_progs_c :: string where
  "ex_progs_c =
     [NUL, NUL, NUL, NUL, NUL, NUL, NUL, NUL,
      NUL, NUL, NUL, NUL, CHR 0xFF, CHR 0xFF, CHR 0xFF, CHR 0xFF,
      NUL, NUL, NUL, NUL]"

definition ex_maps_c :: string where
  "ex_maps_c =
     [CHR 0x01, NUL, NUL, NUL, CHR 0x04, NUL, NUL, NUL,
      CHR 0x08, NUL, NUL, NUL, CHR 0x10, NUL, NUL, NUL,
      NUL, NUL, NUL, NUL, NUL, NUL, NUL, NUL,
      NUL, NUL, NUL, NUL, CHR 0xB0, CHR 0x01, NUL, NUL]"

definition ex_code_c :: string where
  "ex_code_c =
     [CHR 0x18, CHR 0x01, NUL, NUL, NUL, NUL, NUL, NUL,
      NUL, NUL, NUL, NUL, NUL, NUL, NUL, NUL,
      CHR 0x95, NUL, NUL, NUL, NUL, NUL, NUL, NUL]"

definition ex_rel_c :: string where
  "ex_rel_c =
     [NUL, NUL, NUL, NUL, NUL, NUL, NUL, NUL,
      CHR 0x01, NUL, NUL, NUL, CHR 0x03, NUL, NUL, NUL]"

definition ex_sections_d :: "Elf64_Shdr list" where
  "ex_sections_d =
     [ex_section 0 [],
      \<lparr>sh_name = 1, sh_type = 3, sh_bytes = Data ex_strtab_c\<rparr>,
      ex_section 9 ex_progs_c,
      ex_section 15 ex_maps_c,
      ex_section 20 (''Apache 2.0'' @ [NUL]),
      \<lparr>sh_name = 28, sh_type = 2, sh_bytes = Data ex_symtab_c\<rparr>,
      ex_section 40 ex_code_c]"

definition ex_sections_c :: "Elf64_Shdr list" where
  "ex_sections_c =
     ex_sections_d @ [\<lparr>sh_name = 36, sh_type = 9, sh_bytes = Data ex_rel_c\<rparr>]"

definition ex_stream_c :: ifstream where
  "ex_stream_c =
     \<lparr>contents = \<lparr>ehdr = Some \<lparr>e_shstrndx = 1\<rparr>, shdrs = Data ex_sections_c\<rparr>,
      failbit = False\<rparr>"

definition ex_stream_d :: ifstream where
  "ex_stream_d =
     \<lparr>contents = \<lparr>ehdr = Some \<lparr>e_shstrndx = 1\<rparr>, shdrs = Data ex_sections_d\<rparr>,
      failbit = False\<rparr>"

subsection \<open>Notions of the map and program steps\<close>

text \<open>
  The conditions under which a map or a program is skipped, the values a map is created
  and compared with, and the descriptor a map entry gets, each as the specification words
  them; the theorems relate them to \<^verbatim>\<open>createMaps\<close> and \<^verbatim>\<open>loadCodeSections\<close>.
\<close>

definition map_skipped :: "env \<Rightarrow> 32 word \<Rightarrow> bpf_map_def \<Rightarrow> bool" where
  "map_skipped e loader_version m =
     (loader_version < md_bpfloader_min_ver m \<or> loader_version \<ge> md_bpfloader_max_ver m
      \<or> kernelVersion e < md_min_kver m \<or> kernelVersion e \<ge> md_max_kver m
      \<or> (md_ignore_on_eng m \<and> isEng e) \<or> (md_ignore_on_user m \<and> isUser e)
      \<or> (md_ignore_on_userdebug m \<and> isUserdebug e)
      \<or> (md_ignore_on_arm32 m \<and> isArm e \<and> isKernel32Bit e)
      \<or> (md_ignore_on_aarch64 m \<and> isArm e \<and> isKernel64Bit e)
      \<or> (md_ignore_on_x86_32 m \<and> isX86 e \<and> isKernel32Bit e)
      \<or> (md_ignore_on_x86_64 m \<and> isX86 e \<and> isKernel64Bit e)
      \<or> (md_ignore_on_riscv64 m \<and> isRiscV e))"


definition desired_type :: "env \<Rightarrow> bpf_map_def \<Rightarrow> 32 word" where
  "desired_type e m =
     (if md_type m = BPF_MAP_TYPE_DEVMAP \<and> \<not> isAtLeastKernelVersion e 4 14 0
        then BPF_MAP_TYPE_ARRAY
      else if md_type m = BPF_MAP_TYPE_DEVMAP_HASH \<and> \<not> isAtLeastKernelVersion e 5 4 0
        then BPF_MAP_TYPE_HASH
      else md_type m)"

definition desired_max_entries :: "env \<Rightarrow> bpf_map_def \<Rightarrow> 32 word" where
  "desired_max_entries e m =
     (if desired_type e m = BPF_MAP_TYPE_RINGBUF then max (md_max_entries m) (page_size e)
      else md_max_entries m)"

definition desired_map_flags :: "env \<Rightarrow> bpf_map_def \<Rightarrow> 32 word" where
  "desired_map_flags e m =
     (if desired_type e m = BPF_MAP_TYPE_DEVMAP \<or> desired_type e m = BPF_MAP_TYPE_DEVMAP_HASH
        then md_map_flags m OR BPF_F_RDONLY_PROG
      else md_map_flags m)"

definition map_pin_path :: "string \<Rightarrow> string \<Rightarrow> domain \<Rightarrow> bpf_map_def \<Rightarrow> string \<Rightarrow> string" where
  "map_pin_path objName prefix pin_subdir m mapName =
     BPF_FS_PATH @ lookupPinSubdir pin_subdir prefix @ ''map_''
       @ (if md_shared m then [] else objName) @ ''_'' @ mapName"

text \<open>The descriptor of a map entry: retrieved from its pin when that exists, else created.\<close>

definition open_map ::
  "env \<Rightarrow> 'k sys \<Rightarrow> string \<Rightarrow> string \<Rightarrow> domain \<Rightarrow> bpf_map_def \<Rightarrow> string \<Rightarrow> 'k \<Rightarrow> (int \<times> int) \<times> 'k" where
  "open_map e y objName prefix pin_subdir m mapName k =
     (if access y k (map_pin_path objName prefix pin_subdir m mapName)
        then mapRetrieveRO y k (map_pin_path objName prefix pin_subdir m mapName)
      else bpf_MAP_CREATE y k
             \<lparr>req_map_type = desired_type e m,
              req_key_size = md_key_size m,
              req_value_size = md_value_size m,
              req_max_entries = desired_max_entries e m,
              req_map_flags = md_map_flags m,
              req_map_name =
                (if isAtLeastKernelVersion e 4 15 0 then take (BPF_OBJ_NAME_LEN - 1) mapName
                 else [])\<rparr>)"

text \<open>The five properties of a descriptor that \<^verbatim>\<open>mapMatchesExpectations\<close> compares.\<close>

definition fd_has_desired_shape :: "env \<Rightarrow> 'k sys \<Rightarrow> 'k \<Rightarrow> int \<Rightarrow> bpf_map_def \<Rightarrow> bool" where
  "fd_has_desired_shape e y k fd m =
     (bpfGetFdMapType y k fd = sint (desired_type e m)
      \<and> bpfGetFdKeySize y k fd = sint (md_key_size m)
      \<and> bpfGetFdValueSize y k fd = sint (md_value_size m)
      \<and> bpfGetFdMaxEntries y k fd = sint (desired_max_entries e m)
      \<and> bpfGetFdMapFlags y k fd = sint (desired_map_flags e m))"

text \<open>The symbols of object \<open>c\<close>, and its one relocation record.\<close>

definition ex_syms_c :: "Elf64_Sym list" where
  "ex_syms_c =
     [\<lparr>st_name = 0, st_info = 0, st_other = 0, st_shndx = 0, st_value = 0, st_size = 0\<rparr>,
      \<lparr>st_name = 62, st_info = 0x12, st_other = 0, st_shndx = 6, st_value = 0, st_size = 24\<rparr>,
      \<lparr>st_name = 49, st_info = 0x11, st_other = 0, st_shndx = 2, st_value = 0, st_size = 20\<rparr>,
      \<lparr>st_name = 71, st_info = 0x11, st_other = 0, st_shndx = 3, st_value = 0, st_size = 32\<rparr>]"



text \<open>A failing system call leaves a nonzero \<^verbatim>\<open>errno\<close>.\<close>

definition errno_on_failure :: "'k sys \<Rightarrow> bool" where
  "errno_on_failure y =
     ((\<forall>k p. fst (fst (mapRetrieveRO y k p)) < 0 \<longrightarrow> snd (fst (mapRetrieveRO y k p)) \<noteq> 0)
      \<and> (\<forall>k r. fst (fst (bpf_MAP_CREATE y k r)) < 0 \<longrightarrow> snd (fst (bpf_MAP_CREATE y k r)) \<noteq> 0)
      \<and> (\<forall>k fd p. fst (fst (bpfFdPin y k fd p)) \<noteq> 0 \<longrightarrow> snd (fst (bpfFdPin y k fd p)) \<noteq> 0)
      \<and> (\<forall>k p q. fst (fst (renameat2 y k p q)) \<noteq> 0 \<longrightarrow> snd (fst (renameat2 y k p q)) \<noteq> 0)
      \<and> (\<forall>k p m. fst (fst (chmod y k p m)) \<noteq> 0 \<longrightarrow> snd (fst (chmod y k p m)) \<noteq> 0)
      \<and> (\<forall>k p u g. fst (fst (chown y k p u g)) \<noteq> 0 \<longrightarrow> snd (fst (chown y k p u g)) \<noteq> 0))"

text \<open>
  The map of object \<open>c\<close> as \<^verbatim>\<open>createMaps\<close> decodes it, and the same map with a
  \<^verbatim>\<open>pin_subdir\<close> that is in no table.
\<close>

definition ex_map_def :: bpf_map_def where
  "ex_map_def =
     \<lparr>md_type = 1, md_key_size = 4, md_value_size = 8, md_max_entries = 16,
      md_map_flags = 0, md_zero = 0, md_gid = 0, md_mode = 0x1B0,
      md_bpfloader_min_ver = 0, md_bpfloader_max_ver = 0x10000,
      md_min_kver = 0, md_max_kver = 0xFFFFFFFF,
      md_selinux_context = replicate 32 NUL, md_pin_subdir = replicate 32 NUL,
      md_shared = False,
      md_ignore_on_eng = False, md_ignore_on_user = False, md_ignore_on_userdebug = False,
      md_ignore_on_arm32 = False, md_ignore_on_aarch64 = False, md_ignore_on_x86_32 = False,
      md_ignore_on_x86_64 = False, md_ignore_on_riscv64 = False,
      md_uid = 0\<rparr>"

definition ex_map_def_bogus :: bpf_map_def where
  "ex_map_def_bogus = ex_map_def\<lparr>md_pin_subdir := ''bogus/'' @ replicate 26 NUL\<rparr>"

text \<open>
  A kernel that holds one map, of key size 8, which is pinned at every path and on which
  every retrieval gives descriptor 3; and a device on a 4.9 kernel.
\<close>

definition ex_pinned :: "bpf_attr_map_create list" where
  "ex_pinned =
     [\<lparr>req_map_type = 1, req_key_size = 8, req_value_size = 8, req_max_entries = 16,
       req_map_flags = 0, req_map_name = ''a_map''\<rparr>]"

definition ex_sys_pinned :: "bpf_attr_map_create list sys" where
  "ex_sys_pinned =
     ex_sys\<lparr>access := (\<lambda>k path. True), mapRetrieveRO := (\<lambda>k path. ((3, 0), k))\<rparr>"

definition ex_env_old :: env where
  "ex_env_old =
     ex_env\<lparr>kernelVersion := 0x04090000,
            isAtLeastKernelVersion :=
              (\<lambda>major minor sub. major < 4 \<or> (major = 4 \<and> (minor < 9 \<or> (minor = 9 \<and> sub = 0))))\<rparr>"






text \<open>
  The example map with a nonzero reserved byte, and with a \<^verbatim>\<open>selinux_context\<close> that is
  in no table; a program with such a \<^verbatim>\<open>selinux_context\<close> and no \<^verbatim>\<open>pin_subdir\<close>; a
  kernel that loads every program, as descriptor 5; and a relocation record for the
  symbol of index 99, which object \<open>c\<close> does not have.
\<close>

definition ex_map_def_reserved :: bpf_map_def where
  "ex_map_def_reserved = ex_map_def\<lparr>md_zero := 1\<rparr>"





text \<open>
  Object \<open>r\<close> holds the map of object \<open>c\<close> with a nonzero reserved byte, and no code
  section.
\<close>

definition ex_maps_r :: string where
  "ex_maps_r =
     [CHR 0x01, NUL, NUL, NUL, CHR 0x04, NUL, NUL, NUL,
      CHR 0x08, NUL, NUL, NUL, CHR 0x10, NUL, NUL, NUL,
      NUL, NUL, NUL, NUL, CHR 0x01, NUL, NUL, NUL,
      NUL, NUL, NUL, NUL, CHR 0xB0, CHR 0x01, NUL, NUL]"

definition ex_sections_r :: "Elf64_Shdr list" where
  "ex_sections_r =
     [ex_section 0 [],
      \<lparr>sh_name = 1, sh_type = 3, sh_bytes = Data ex_strtab_c\<rparr>,
      ex_section 9 ex_progs_c,
      ex_section 15 ex_maps_r,
      ex_section 20 (''Apache 2.0'' @ [NUL]),
      \<lparr>sh_name = 28, sh_type = 2, sh_bytes = Data ex_symtab_c\<rparr>]"

definition ex_stream_r :: ifstream where
  "ex_stream_r =
     \<lparr>contents = \<lparr>ehdr = Some \<lparr>e_shstrndx = 1\<rparr>, shdrs = Data ex_sections_r\<rparr>,
      failbit = False\<rparr>"

section \<open>Properties\<close>

subsection \<open>Token tables\<close>

lemmas token_eval =
  getDomainFromSelinuxContext_def getDomainFromPinSubdir_def AllDomains_def
  BPF_SELINUX_CONTEXT_CHAR_ARRAY_SIZE_def BPF_PIN_SUBDIR_CHAR_ARRAY_SIZE_def
  strlen_def strncmp.simps char_at_head_def

text \<open>
  C10. For every domain of \<^verbatim>\<open>AllDomains\<close> the token tables round-trip: the selinux
  context of the domain decodes to the domain, and so does its pin subdirectory; the
  empty token of the unspecified domain decodes to the unspecified domain.
\<close>

theorem domain_tokens_roundtrip:
  assumes "d \<in> set AllDomains"
  shows "getDomainFromSelinuxContext (lookupSelinuxContext d '''') = Inr d
       \<and> getDomainFromPinSubdir (lookupPinSubdir d '''') = Inr d"
proof (cases d)
  case Unrecognized
  with assms show ?thesis by (simp add: AllDomains_def)
qed (simp_all add: token_eval)

theorem domain_tokens_roundtrip_witness:
  "Unspecified \<in> set AllDomains
   \<and> getDomainFromSelinuxContext '''' = Inr Unspecified
   \<and> getDomainFromPinSubdir '''' = Inr Unspecified"
  using domain_tokens_roundtrip [of Unspecified] by (simp add: AllDomains_def)

subsection \<open>Little-endian scalars\<close>

lemma digit_step:
  fixes a m :: nat
  assumes "a < 256"
  shows "(a + 256 * m) div 256 = m" "(a + 256 * m) mod 256 = a"
  using assms by simp_all

lemma of_char_nat_less: "(of_char c :: nat) < 256"
  by simp

lemma horner256_less:
  fixes a b c d :: nat
  assumes "a < 256" "b < 256" "c < 256" "d < 256"
  shows "a + 256 * (b + 256 * (c + 256 * d)) < 4294967296"
proof -
  have 1: "c + 256 * d < 65536" using assms(3,4) by simp
  then have 2: "b + 256 * (c + 256 * d) < 16777216" using assms(2) by simp
  then show ?thesis using assms(1) by simp
qed

lemma le32_nat_less: "le32_nat b0 b1 b2 b3 < 4294967296"
  unfolding le32_nat_def
  by (rule horner256_less [OF of_char_nat_less of_char_nat_less of_char_nat_less of_char_nat_less])

lemma word_of_char: "(of_char c :: 32 word) = word_of_nat (of_char c)"
  by (simp add: of_nat_of_char)

lemma shift_add_le32:
  "push_bit 8 (push_bit 8 (push_bit 8 (of_char b3) + of_char b2) + of_char b1) + of_char b0
   = (word_of_nat (le32_nat b0 b1 b2 b3) :: 32 word)"
  by (simp add: le32_nat_def push_bit_eq_mult word_of_char [symmetric] algebra_simps)

lemma unat_le32: "unat (word_of_nat (le32_nat b0 b1 b2 b3) :: 32 word) = le32_nat b0 b1 b2 b3"
  using le32_nat_less [of b0 b1 b2 b3] by (simp add: unat_of_nat)

lemma char_of_digit: "char_of (of_char c + 256 * m :: nat) = c"
proof -
  have "char_of (of_char c + 256 * m :: nat) = char_of ((of_char c + 256 * m) mod 256 :: nat)"
    by (simp only: char_of_mod_256)
  also have "\<dots> = char_of (of_char c :: nat)"
    by (simp only: digit_step(2) [OF of_char_nat_less])
  finally show ?thesis by simp
qed

lemma le32_bytes_le32_nat:
  "le32_bytes (word_of_nat (le32_nat b0 b1 b2 b3)) = [b0, b1, b2, b3]"
proof -
  have 3: "char_of (of_char b3 :: nat) = b3" by simp
  show ?thesis
    unfolding le32_bytes_def unat_le32
    unfolding le32_nat_def
    by (simp only: digit_step(1) [OF of_char_nat_less] char_of_digit 3)
qed

lemma le32_nat_le32_bytes:
  assumes a: "le32_bytes v = [b0, b1, b2, b3]"
  shows "word_of_nat (le32_nat b0 b1 b2 b3) = v"
proof -
  define n where "n = unat v"
  have "n < 256 * 16777216" using unsigned_less [of v] by (simp add: n_def)
  then have "n div 256 < 256 * 65536" by (simp add: less_mult_imp_div_less)
  then have "n div 256 div 256 < 256 * 256" by (simp add: less_mult_imp_div_less)
  then have lt: "n div 256 div 256 div 256 < 256" by (simp add: less_mult_imp_div_less)
  have c: "of_char (char_of m) = m mod 256" for m :: nat by simp
  have b: "b0 = char_of n" "b1 = char_of (n div 256)" "b2 = char_of (n div 256 div 256)"
    "b3 = char_of (n div 256 div 256 div 256)"
    using a unfolding le32_bytes_def n_def by simp_all
  have s: "m mod 256 + 256 * (m div 256) = m" for m :: nat by simp
  have "le32_nat b0 b1 b2 b3 =
      n mod 256 + 256 * (n div 256 mod 256 + 256 * (n div 256 div 256 mod 256 + 256 * (n div 256 div 256 div 256)))"
    unfolding le32_nat_def b c using lt by simp
  also have "\<dots> = n" by (simp only: s)
  finally show ?thesis by (simp add: n_def)
qed

lemma le32_word_iff:
  "(word_of_nat (le32_nat b0 b1 b2 b3) = v) = ([b0, b1, b2, b3] = le32_bytes v)"
  using le32_bytes_le32_nat [of b0 b1 b2 b3] le32_nat_le32_bytes [of v b0 b1 b2 b3] by auto

lemma readSectionUint_found:
  assumes "readSectionByName name s = (Ok bs, s')" and "4 \<le> length bs"
  shows "readSectionUint name s d =
           (Ok (word_of_nat (le32_nat (bs ! 0) (bs ! 1) (bs ! 2) (bs ! 3))), s')"
  using assms by (simp add: readSectionUint_def Let_def shift_add_le32)

lemma take4_nth:
  assumes "4 \<le> length bs"
  shows "take 4 bs = [bs ! 0, bs ! 1, bs ! 2, bs ! 3]"
proof (cases bs)
  case Nil
  with assms show ?thesis by simp
next
  case c0: (Cons b0 r0)
  show ?thesis
  proof (cases r0)
    case Nil
    with c0 assms show ?thesis by simp
  next
    case c1: (Cons b1 r1)
    show ?thesis
    proof (cases r1)
      case Nil
      with c0 c1 assms show ?thesis by simp
    next
      case c2: (Cons b2 r2)
      show ?thesis
      proof (cases r2)
        case Nil
        with c0 c1 c2 assms show ?thesis by simp
      next
        case (Cons b3 r3)
        with c0 c1 c2 show ?thesis by simp
      qed
    qed
  qed
qed

text \<open>
  C9. When the named section is found with at least four bytes, \<^verbatim>\<open>readSectionUint\<close>
  returns \<open>v\<close> iff the first four bytes are the little-endian encoding of \<open>v\<close>; when the
  section is shorter than four bytes, or is not found or cannot be read, it returns the
  default.
\<close>

theorem readSectionUint_le32:
  "(fst (readSectionByName name s) = Ok bs \<and> 4 \<le> length bs \<longrightarrow>
      (fst (readSectionUint name s d) = Ok v \<longleftrightarrow> take 4 bs = le32_bytes v))
   \<and> (fst (readSectionByName name s) = Ok bs \<and> length bs < 4 \<longrightarrow>
        fst (readSectionUint name s d) = Ok d)
   \<and> (fst (readSectionByName name s) = Err r \<longrightarrow> fst (readSectionUint name s d) = Ok d)"
proof (intro conjI impI)
  assume a: "fst (readSectionByName name s) = Ok bs \<and> 4 \<le> length bs"
  then obtain s' where "readSectionByName name s = (Ok bs, s')" by (cases "readSectionByName name s") auto
  with a have "fst (readSectionUint name s d)
      = Ok (word_of_nat (le32_nat (bs ! 0) (bs ! 1) (bs ! 2) (bs ! 3)))"
    by (simp add: readSectionUint_found)
  with a show "fst (readSectionUint name s d) = Ok v \<longleftrightarrow> take 4 bs = le32_bytes v"
    by (simp add: le32_word_iff take4_nth)
next
  assume "fst (readSectionByName name s) = Ok bs \<and> length bs < 4"
  then show "fst (readSectionUint name s d) = Ok d"
    by (cases "readSectionByName name s") (auto simp: readSectionUint_def)
next
  assume "fst (readSectionByName name s) = Err r"
  then show "fst (readSectionUint name s d) = Ok d"
    by (cases "readSectionByName name s") (auto simp: readSectionUint_def)
qed

lemmas elf_eval =
  readSectionByName_def readSectionHeadersAll_def readElfHeader_def seek_read_def
  readSectionHeaderStrtab_def readSectionByIdx_def read_bytes_def and_then_def

lemmas ex_b_eval =
  ex_stream_b_def ex_image_b_def ex_sections_b_def ex_section_def ex_strtab_def

lemma ex_b_min_ver:
  "readSectionByName ''bpfloader_min_ver'' ex_stream_b = (Ok [CHR 0x2B, NUL, NUL, NUL], ex_stream_b)"
  by (simp add: elf_eval ex_b_eval)

lemma ex_b_pad:
  "readSectionByName ''pad'' ex_stream_b = (Ok [CHR 0x01, CHR 0x02], ex_stream_b)"
  by (simp add: elf_eval ex_b_eval)

lemma ex_b_max_ver:
  "readSectionByName ''bpfloader_max_ver'' ex_stream_b = (Err (- 2), ex_stream_b)"
  by (simp add: elf_eval ex_b_eval)

lemma le32_bytes_43: "le32_bytes 43 = [CHR 0x2B, NUL, NUL, NUL]"
  by code_simp

theorem readSectionUint_le32_witness:
  "fst (readSectionUint ''bpfloader_min_ver'' ex_stream_b 0) = Ok 43
   \<and> fst (readSectionUint ''pad'' ex_stream_b 7) = Ok 7
   \<and> fst (readSectionUint ''bpfloader_max_ver'' ex_stream_b 0x10000) = Ok 0x10000"
  using readSectionUint_le32 [where name = "''bpfloader_min_ver''" and s = ex_stream_b
      and bs = "[CHR 0x2B, NUL, NUL, NUL]" and d = 0 and v = 43]
    readSectionUint_le32 [where name = "''pad''" and s = ex_stream_b
      and bs = "[CHR 0x01, CHR 0x02]" and d = 7]
    readSectionUint_le32 [where name = "''bpfloader_max_ver''" and s = ex_stream_b
      and d = "0x10000" and r = "- 2"]
  by (simp add: ex_b_min_ver ex_b_pad ex_b_max_ver le32_bytes_43)

subsection \<open>The version checks of an object\<close>

lemma version_gate_cases:
  "(version_gate ver minV maxV minReq = Skip \<longleftrightarrow> ver < minV \<or> maxV \<le> ver)
   \<and> (version_gate ver minV maxV minReq = Fail \<longleftrightarrow> minV \<le> ver \<and> ver < maxV \<and> ver < minReq)
   \<and> (version_gate ver minV maxV minReq = Proceed \<longleftrightarrow> minV \<le> ver \<and> ver < maxV \<and> minReq \<le> ver)"
  by (auto simp: version_gate_def not_less not_le)

lemma loadProg_gated:
  assumes "open_elf e elfPath = Some img"
    and "readSectionByName ''critical'' \<lparr>contents = img, failbit = False\<rparr> = (rc, s1)"
    and "\<forall>f. rc \<noteq> Fault f"
    and "readSectionByName ''license'' s1 = (Ok license, s2)"
    and "readVersions a s2 = (Ok (minV, maxV, minReq, szM, szP), s3)"
  shows "loadProg a e y elfPath ver loc k =
           (case version_gate ver minV maxV minReq of
              Skip \<Rightarrow> ((Ok (), is_Ok rc), k)
            | Fail \<Rightarrow> ((Err (- 1), is_Ok rc), k)
            | Proceed \<Rightarrow>
                (case loadProg_load a e y elfPath ver loc license szM szP s3 k of
                   (r, k') \<Rightarrow> ((r, is_Ok rc), k')))"
  using assms by (cases rc) (auto simp add: loadProg_def Let_def)

text \<open>
  C1, as the code has it. For an object whose license and version scalars are read:
  outside the half-open window \<open>[min, max)\<close> \<^verbatim>\<open>loadProg\<close> returns success and touches
  nothing, whatever the required version is; inside the window and below the required
  version it returns \<open>- 1\<close>; inside the window and at or above the required version, and
  only then, it goes on to load the object, and its result is the result of that.
\<close>

theorem loadProg_version_checks:
  assumes "open_elf e elfPath = Some img"
    and "readSectionByName ''critical'' \<lparr>contents = img, failbit = False\<rparr> = (rc, s1)"
    and "\<forall>f. rc \<noteq> Fault f"
    and "readSectionByName ''license'' s1 = (Ok license, s2)"
    and "readVersions a s2 = (Ok (minV, maxV, minReq, szM, szP), s3)"
  shows "(ver < minV \<or> maxV \<le> ver \<longrightarrow>
            loadProg a e y elfPath ver loc k = ((Ok (), is_Ok rc), k))
       \<and> (minV \<le> ver \<and> ver < maxV \<and> ver < minReq \<longrightarrow>
            loadProg a e y elfPath ver loc k = ((Err (- 1), is_Ok rc), k))
       \<and> (minV \<le> ver \<and> ver < maxV \<and> minReq \<le> ver \<longrightarrow>
            loadProg a e y elfPath ver loc k =
              (case loadProg_load a e y elfPath ver loc license szM szP s3 k of
                 (r, k') \<Rightarrow> ((r, is_Ok rc), k')))
       \<and> (version_gate ver minV maxV minReq = Proceed
            \<longleftrightarrow> minV \<le> ver \<and> ver < maxV \<and> minReq \<le> ver)"
proof -
  note g = version_gate_cases [of ver minV maxV minReq]
  note l = loadProg_gated [OF assms, where y = y and ver = ver and loc = loc and k = k]
  have 1: "ver < minV \<or> maxV \<le> ver \<longrightarrow>
            loadProg a e y elfPath ver loc k = ((Ok (), is_Ok rc), k)"
    using g l by auto
  have 2: "minV \<le> ver \<and> ver < maxV \<and> ver < minReq \<longrightarrow>
            loadProg a e y elfPath ver loc k = ((Err (- 1), is_Ok rc), k)"
    using g l by auto
  have 3: "minV \<le> ver \<and> ver < maxV \<and> minReq \<le> ver \<longrightarrow>
            loadProg a e y elfPath ver loc k =
              (case loadProg_load a e y elfPath ver loc license szM szP s3 k of
                 (r, k') \<Rightarrow> ((r, is_Ok rc), k'))"
    using g l by auto
  from 1 2 3 g show ?thesis by blast
qed

lemma ex_b_headers: "readSectionHeadersAll ex_stream_b = (Ok ex_sections_b, ex_stream_b)"
  by (simp add: readSectionHeadersAll_def readElfHeader_def seek_read_def and_then_def
      ex_stream_b_def ex_image_b_def)

lemma ex_b_critical:
  "readSectionByName ''critical'' ex_stream_b = (Ok (''netd'' @ [NUL]), ex_stream_b)"
  by (simp add: elf_eval ex_b_eval)

lemma ex_b_license:
  "readSectionByName ''license'' ex_stream_b = (Ok (''Apache 2.0'' @ [NUL]), ex_stream_b)"
  by (simp add: elf_eval ex_b_eval)

lemma ex_b_min_required_ver:
  "readSectionByName ''bpfloader_min_required_ver'' ex_stream_b
     = (Ok [CHR 0x2D, NUL, NUL, NUL], ex_stream_b)"
  by (simp add: elf_eval ex_b_eval)

lemma ex_b_map_def_size:
  "readSectionByName ''size_of_bpf_map_def'' ex_stream_b = (Err (- 2), ex_stream_b)"
  by (simp add: elf_eval ex_b_eval)

lemma ex_b_prog_def_size:
  "readSectionByName ''size_of_bpf_prog_def'' ex_stream_b = (Err (- 2), ex_stream_b)"
  by (simp add: elf_eval ex_b_eval)

lemma ex_b_progs:
  "readSectionByName ''progs'' ex_stream_b = (Err (- 2), ex_stream_b)"
  by (simp add: elf_eval ex_b_eval)

lemma ex_b_versions:
  "readVersions ex_abi ex_stream_b = (Ok (43, 0x10000, 45, 32, 20), ex_stream_b)"
  by (simp add: readVersions_def readSectionUint_def and_then_def ex_b_min_ver ex_b_max_ver
      ex_b_min_required_ver ex_b_map_def_size ex_b_prog_def_size ex_abi_def)

lemma ex_b_load:
  "loadProg_load ex_abi ex_env ex_sys p ver ex_location lic 32 20 ex_stream_b k = (Err (- 2), k)"
  by (simp add: loadProg_load_def readCodeSections_def ex_b_headers readProgDefs_def
      and_then_def ex_b_progs ex_abi_def)

lemma ex_open_b: "open_elf ex_env (ex_dir @ ''b.o'') = Some ex_image_b"
  by (simp add: ex_env_def ex_dir_def)

lemma ex_b_not_fault: "\<forall>f. (Ok (''netd'' @ [NUL]) :: string res) \<noteq> Fault f"
  by simp

lemmas ex_b_object =
  ex_open_b ex_b_critical [unfolded ex_stream_b_def] ex_b_not_fault
  ex_b_license [unfolded ex_stream_b_def] ex_b_versions [unfolded ex_stream_b_def]

theorem loadProg_version_checks_witness:
  "loadProg ex_abi ex_env ex_sys (ex_dir @ ''b.o'') 42 ex_location [] = ((Ok (), True), [])
   \<and> loadProg ex_abi ex_env ex_sys (ex_dir @ ''b.o'') 44 ex_location [] = ((Err (- 1), True), [])
   \<and> loadProg ex_abi ex_env ex_sys (ex_dir @ ''b.o'') 46 ex_location [] = ((Err (- 2), True), [])"
proof -
  have "loadProg ex_abi ex_env ex_sys (ex_dir @ ''b.o'') 42 ex_location [] = ((Ok (), True), [])"
    using loadProg_version_checks [OF ex_b_object,
        where y = ex_sys and ver = 42 and loc = ex_location and k = "[]"]
    by (simp add: is_Ok_def)
  moreover
  have "loadProg ex_abi ex_env ex_sys (ex_dir @ ''b.o'') 44 ex_location [] = ((Err (- 1), True), [])"
    using loadProg_version_checks [OF ex_b_object,
        where y = ex_sys and ver = 44 and loc = ex_location and k = "[]"]
    by (simp add: is_Ok_def)
  moreover
  have "loadProg ex_abi ex_env ex_sys (ex_dir @ ''b.o'') 46 ex_location [] = ((Err (- 2), True), [])"
    using loadProg_version_checks [OF ex_b_object,
        where y = ex_sys and ver = 46 and loc = ex_location and k = "[]"]
    by (simp add: is_Ok_def ex_b_load [unfolded ex_stream_b_def])
  ultimately show ?thesis by simp
qed

text \<open>
  Object \<open>b\<close> has the window \<open>[43, 0x10000)\<close> and requires version 45. A loader of version
  44 is inside the window and does not go on to load the object: it fails. A loader of
  version 42 is below the required version and does not fail: it skips.
\<close>

theorem loadProg_version_claim_counterexample:
  "fst (readVersions ex_abi ex_stream_b) = Ok (43, 0x10000, 45, 32, 20)
   \<and> (43 :: 32 word) \<le> 44 \<and> (44 :: 32 word) < 0x10000
   \<and> loadProg ex_abi ex_env ex_sys (ex_dir @ ''b.o'') 44 ex_location [] = ((Err (- 1), True), [])
   \<and> (42 :: 32 word) < 45
   \<and> loadProg ex_abi ex_env ex_sys (ex_dir @ ''b.o'') 42 ex_location [] = ((Ok (), True), [])"
  by (simp add: loadProg_def ex_open_b ex_b_critical [unfolded ex_stream_b_def]
      ex_b_license [unfolded ex_stream_b_def] ex_b_versions [unfolded ex_stream_b_def]
      ex_b_versions version_gate_def is_Ok_def)

subsection \<open>The objects of a location\<close>

lemma critical_errors_append:
  "critical_errors (xs @ ys) = critical_errors xs @ critical_errors ys"
  by (induction xs rule: critical_errors.induct) simp_all

lemma loadAllElfObjects_loop_last:
  assumes "\<forall>out \<in> set (object_outcomes a e y ver loc ents k). \<not> faulted out"
  shows "fst (loadAllElfObjects_loop a e y ver loc ents retVal k)
           = Inr (last (retVal # critical_errors (object_outcomes a e y ver loc ents k)))"
  using assms
proof (induction ents arbitrary: retVal k)
  case Nil
  then show ?case by simp
next
  case (Cons ent ents)
  show ?case
  proof (cases "EndsWith ent ''.o''")
    case False
    with Cons show ?thesis by simp
  next
    case True
    obtain r c k' where lp: "loadProg a e y (loc_dir loc @ ent) ver loc k = ((r, c), k')"
      by (metis surj_pair)
    with True Cons.prems have nf: "\<not> faulted (r, c)"
      and rest: "\<forall>out \<in> set (object_outcomes a e y ver loc ents k'). \<not> faulted out"
      by simp_all
    note ih = Cons.IH [OF rest]
    show ?thesis
    proof (cases r)
      case (Ok u)
      with True lp ih show ?thesis by simp
    next
      case (Err ret)
      with True lp ih show ?thesis by (cases c) simp_all
    next
      case (Fault f)
      with nf show ?thesis by (simp add: faulted_def)
    qed
  qed
qed

text \<open>
  C2, as the code has it. When no object faults, the value returned for a location is the
  error of the last critical object that failed, and zero when no critical object failed;
  failures of objects that are not critical do not enter it.
\<close>

theorem loadAllElfObjects_last_critical_error:
  assumes "opendir e (loc_dir loc) = Some ents"
    and "\<forall>out \<in> set (object_outcomes a e y ver loc ents k). \<not> faulted out"
  shows "fst (loadAllElfObjects a e y ver loc k)
           = Inr (last (0 # critical_errors (object_outcomes a e y ver loc ents k)))"
  using assms by (simp add: loadAllElfObjects_def loadAllElfObjects_loop_last)

lemma ex_a_critical:
  "readSectionByName ''critical'' ex_stream_a = (Ok (''netd'' @ [NUL]), ex_stream_a)"
  by (simp add: elf_eval ex_stream_a_def ex_image_a_def ex_sections_a_def ex_section_def
      ex_strtab_def)

lemma ex_a_license:
  "readSectionByName ''license'' ex_stream_a = (Err (- 2), ex_stream_a)"
  by (simp add: elf_eval ex_stream_a_def ex_image_a_def ex_sections_a_def ex_section_def
      ex_strtab_def)

lemma ex_a_loadProg:
  "loadProg ex_abi ex_env ex_sys (ex_dir @ ''a.o'') ver ex_location k = ((Err (- 2), True), k)"
  by (simp add: loadProg_def ex_env_def ex_dir_def ex_a_critical [unfolded ex_stream_a_def]
      ex_a_license [unfolded ex_stream_a_def] is_Ok_def)

lemma ex_b_loadProg_44:
  "loadProg ex_abi ex_env ex_sys (ex_dir @ ''b.o'') 44 ex_location k = ((Err (- 1), True), k)"
  by (simp add: loadProg_def ex_open_b ex_b_critical [unfolded ex_stream_b_def]
      ex_b_license [unfolded ex_stream_b_def] ex_b_versions [unfolded ex_stream_b_def]
      version_gate_def is_Ok_def)

lemma ex_loc_dir: "loc_dir ex_location = ex_dir"
  by (simp add: ex_location_def)

lemma ex_opendir: "opendir ex_env ex_dir = Some [''.'', ''..'', ''a.o'', ''b.o'']"
  by (simp add: ex_env_def)

lemma ex_outcomes:
  "object_outcomes ex_abi ex_env ex_sys 44 ex_location [''.'', ''..'', ''a.o'', ''b.o''] []
     = [(Err (- 2), True), (Err (- 1), True)]"
  by (simp add: EndsWith_def ex_loc_dir ex_a_loadProg ex_b_loadProg_44)

lemma ex_loadAllElfObjects:
  "fst (loadAllElfObjects ex_abi ex_env ex_sys 44 ex_location []) = Inr (- 1)"
  by (simp add: loadAllElfObjects_def ex_loc_dir ex_opendir EndsWith_def ex_a_loadProg
      ex_b_loadProg_44)

theorem loadAllElfObjects_last_critical_error_witness:
  "fst (loadAllElfObjects ex_abi ex_env ex_sys 44 ex_location []) = Inr (- 1)"
proof -
  have d: "opendir ex_env (loc_dir ex_location) = Some [''.'', ''..'', ''a.o'', ''b.o'']"
    by (simp only: ex_loc_dir ex_opendir)
  have f: "\<forall>out \<in> set (object_outcomes ex_abi ex_env ex_sys 44 ex_location
              [''.'', ''..'', ''a.o'', ''b.o''] []). \<not> faulted out"
    unfolding ex_outcomes by (simp add: faulted_def)
  show ?thesis
    using loadAllElfObjects_last_critical_error [OF d f] unfolding ex_outcomes by simp
qed

text \<open>
  Both objects of the example location are critical and fail for a loader of version 44,
  \<open>a\<close> first with \<open>- 2\<close> and then \<open>b\<close> with \<open>- 1\<close>. The location returns \<open>- 1\<close>, which is
  not the first critical error.
\<close>

theorem loadAllElfObjects_first_error_counterexample:
  "critical_errors
     (object_outcomes ex_abi ex_env ex_sys 44 ex_location [''.'', ''..'', ''a.o'', ''b.o''] [])
     = [- 2, - 1]
   \<and> fst (loadAllElfObjects ex_abi ex_env ex_sys 44 ex_location []) = Inr (- 1)"
proof
  show "critical_errors
     (object_outcomes ex_abi ex_env ex_sys 44 ex_location [''.'', ''..'', ''a.o'', ''b.o''] [])
     = [- 2, - 1]"
    unfolding ex_outcomes by simp
  show "fst (loadAllElfObjects ex_abi ex_env ex_sys 44 ex_location []) = Inr (- 1)"
    by (rule ex_loadAllElfObjects)
qed

subsection \<open>Decoding the definition records\<close>

lemma copy_defs_map:
  "copy_defs d t adv n ptr = map (\<lambda>i. memcpy d (drop (i * adv) ptr) t) [0..<n]"
proof (induction n arbitrary: ptr)
  case 0
  then show ?case by simp
next
  case (Suc n)
  have "map (\<lambda>i. memcpy d (drop (i * adv) ptr) t) [0..<Suc n]
      = memcpy d ptr t # map (\<lambda>i. memcpy d (drop (Suc i * adv) ptr) t) [0..<n]"
    by (simp add: upt_conv_Cons map_Suc_upt [symmetric] del: upt_Suc)
  also have "\<dots> = memcpy d ptr t # map (\<lambda>i. memcpy d (drop (i * adv) (drop adv ptr)) t) [0..<n]"
    by (simp add: add.commute)
  finally show ?case using Suc.IH [of "drop adv ptr"] by simp
qed

text \<open>
  C5. For an advertised record size that is not zero: decoding \<^verbatim>\<open>maps\<close> and \<^verbatim>\<open>progs\<close>
  fails with \<open>- 1\<close> when the section length is not a multiple of it; otherwise there is
  one record for each of the \<open>length / size\<close> slots, and record \<open>i\<close> is the zeroed object
  with the nonzero defaults stored (\<^verbatim>\<open>bpfloader_max_ver\<close>, and \<^verbatim>\<open>max_kver\<close> for maps),
  overwritten by the first \<open>min size sizeof\<close> bytes found \<open>i * size\<close> bytes into the section.
\<close>

theorem defs_decoding:
  assumes "0 < sizeOfDef"
  shows "(length mdData mod sizeOfDef \<noteq> 0 \<longrightarrow> createMaps_defs a mdData sizeOfDef = Err (- 1))
    \<and> (length mdData mod sizeOfDef = 0 \<longrightarrow>
         createMaps_defs a mdData sizeOfDef =
           Ok (map (\<lambda>i. memcpy
                          (store_u32 (offsetof_map_max_kver a) 0xFFFFFFFF
                             (store_u32 (offsetof_map_bpfloader_max_ver a)
                                (DEFAULT_BPFLOADER_MAX_VER a)
                                (replicate (sizeof_bpf_map_def a) NUL)))
                          (drop (i * sizeOfDef) mdData)
                          (min sizeOfDef (sizeof_bpf_map_def a)))
                 [0..<length mdData div sizeOfDef]))
    \<and> (readSectionByName ''progs'' s = (Ok pdData, s') \<and> length pdData mod sizeOfDef \<noteq> 0 \<longrightarrow>
         readProgDefs a s sizeOfDef = (Err (- 1), s'))
    \<and> (readSectionByName ''progs'' s = (Ok pdData, s') \<and> length pdData mod sizeOfDef = 0 \<longrightarrow>
         readProgDefs a s sizeOfDef =
           (Ok (map (\<lambda>i. memcpy
                           (store_u32 (offsetof_prog_bpfloader_max_ver a)
                              (DEFAULT_BPFLOADER_MAX_VER a)
                              (replicate (sizeof_bpf_prog_def a) NUL))
                           (drop (i * sizeOfDef) pdData)
                           (min sizeOfDef (sizeof_bpf_prog_def a)))
                  [0..<length pdData div sizeOfDef]), s'))"
  using assms
  by (simp add: createMaps_defs_def readProgDefs_def and_then_def copy_defs_map
      map_def_defaults_def prog_def_defaults_def)

lemma read_bytes_Data:
  assumes "\<not> failbit s" and "sh_bytes sh = Data d"
  shows "read_bytes sh s = (Ok d, s)"
  using assms by (simp add: read_bytes_def seek_read_def)

lemma ex_c_failbit: "\<not> failbit ex_stream_c"
  by (simp add: ex_stream_c_def)

lemma ex_c_ehdr: "readElfHeader ex_stream_c = (Ok \<lparr>e_shstrndx = 1\<rparr>, ex_stream_c)"
  by (simp add: readElfHeader_def ex_stream_c_def)

lemma ex_c_headers: "readSectionHeadersAll ex_stream_c = (Ok ex_sections_c, ex_stream_c)"
  by (simp add: readSectionHeadersAll_def ex_c_ehdr and_then_def,
      simp add: seek_read_def ex_stream_c_def)

lemmas ex_c_sections = ex_sections_c_def ex_sections_d_def ex_section_def

lemma ex_c_strtab: "readSectionHeaderStrtab ex_stream_c = (Ok ex_strtab_c, ex_stream_c)"
  by (simp add: readSectionHeaderStrtab_def readSectionByIdx_def ex_c_ehdr ex_c_headers
      and_then_def ex_c_sections read_bytes_Data [OF ex_c_failbit])

lemmas ex_c_by_name =
  readSectionByName_def ex_c_headers ex_c_strtab and_then_def ex_c_sections ex_strtab_c_def
  read_bytes_Data [OF ex_c_failbit]

lemma ex_c_progs: "readSectionByName ''progs'' ex_stream_c = (Ok ex_progs_c, ex_stream_c)"
  by (simp add: ex_c_by_name)

lemma ex_c_maps: "readSectionByName ''maps'' ex_stream_c = (Ok ex_maps_c, ex_stream_c)"
  by (simp add: ex_c_by_name)

lemma ex_maps_c_length: "length ex_maps_c = 32"
  by (simp add: ex_maps_c_def)

lemma ex_progs_c_length: "length ex_progs_c = 20"
  by (simp add: ex_progs_c_def)

theorem defs_decoding_witness:
  "createMaps_defs ex_abi ex_maps_c 24 = Err (- 1)
   \<and> createMaps_defs ex_abi ex_maps_c 32 = Ok [ex_maps_c @ drop 32 (map_def_defaults ex_abi)]
   \<and> readProgDefs ex_abi ex_stream_c 8 = (Err (- 1), ex_stream_c)
   \<and> readProgDefs ex_abi ex_stream_c 20
       = (Ok [ex_progs_c @ drop 20 (prog_def_defaults ex_abi)], ex_stream_c)"
proof -
  have 1: "createMaps_defs ex_abi ex_maps_c 24 = Err (- 1)"
    using defs_decoding [where sizeOfDef = 24 and mdData = ex_maps_c and a = ex_abi]
    by (simp add: ex_maps_c_length)
  have 2: "createMaps_defs ex_abi ex_maps_c 32 = Ok [ex_maps_c @ drop 32 (map_def_defaults ex_abi)]"
    using defs_decoding [where sizeOfDef = 32 and mdData = ex_maps_c and a = ex_abi]
    by (simp add: ex_maps_c_length memcpy_def map_def_defaults_def ex_abi_def)
  have 3: "readProgDefs ex_abi ex_stream_c 8 = (Err (- 1), ex_stream_c)"
    using defs_decoding [where sizeOfDef = 8 and pdData = ex_progs_c and a = ex_abi
        and s = ex_stream_c and s' = ex_stream_c]
    by (simp add: ex_progs_c_length ex_c_progs)
  have 4: "readProgDefs ex_abi ex_stream_c 20
       = (Ok [ex_progs_c @ drop 20 (prog_def_defaults ex_abi)], ex_stream_c)"
    using defs_decoding [where sizeOfDef = 20 and pdData = ex_progs_c and a = ex_abi
        and s = ex_stream_c and s' = ex_stream_c]
    by (simp add: ex_progs_c_length ex_c_progs memcpy_def prog_def_defaults_def ex_abi_def)
  from 1 2 3 4 show ?thesis by simp
qed

subsection \<open>Relocation of one instruction\<close>

lemma le32_bytes_length: "length (le32_bytes v) = 4"
  by (simp add: le32_bytes_def)









lemma find_map_fd_first:
  assumes "j < length names" and "names ! j = n" and "\<forall>j' < j. names ! j' \<noteq> n"
    and "j0 + j < length fds"
  shows "find_map_fd names fds j0 n = Some (Inr (fds ! (j0 + j)))"
  using assms
proof (induction names arbitrary: j j0)
  case Nil
  then show ?case by simp
next
  case (Cons x xs)
  show ?case
  proof (cases j)
    case 0
    with Cons.prems show ?thesis by simp
  next
    case (Suc j1)
    with Cons.prems have ne: "x \<noteq> n" by auto
    have "find_map_fd xs fds (Suc j0) n = Some (Inr (fds ! (Suc j0 + j1)))"
    proof (rule Cons.IH)
      show "j1 < length xs" using Cons.prems(1) Suc by simp
      show "xs ! j1 = n" using Cons.prems(2) Suc by simp
      show "\<forall>j' < j1. xs ! j' \<noteq> n" using Cons.prems(3) Suc by auto
      show "Suc j0 + j1 < length fds" using Cons.prems(4) Suc by simp
    qed
    with ne Suc show ?thesis by simp
  qed
qed

lemma ex_c_by_type: "readSectionByType SHT_SYMTAB ex_stream_c = (Ok ex_symtab_c, ex_stream_c)"
  by (simp add: readSectionByType_def ex_c_headers and_then_def ex_c_sections SHT_SYMTAB_def
      read_bytes_Data [OF ex_c_failbit])

lemma array_of_rec:
  assumes "0 < n"
  shows "array_of sz n buf = take sz buf # array_of sz (n - 1) (drop sz buf)"
  using assms by (cases n) simp_all

lemma ex_c_syms_parsed:
  "map Elf64_Sym_of_bytes (array_of 24 (length ex_symtab_c div 24) ex_symtab_c) = ex_syms_c"
  by (simp add: ex_symtab_c_def ex_syms_c_def Elf64_Sym_of_bytes_def le_nat_def array_of_rec)

lemma ex_c_symtab: "readSymTab do_sort ex_stream_c = (Ok ex_syms_c, ex_stream_c)"
proof -
  have "sort_key st_value ex_syms_c = ex_syms_c"
    by (simp add: ex_syms_c_def)
  then show ?thesis
    by (simp add: readSymTab_def ex_c_by_type and_then_def sizeof_Elf64_Sym_def
        ex_c_syms_parsed Let_def)
qed

lemma ex_c_name_a_map: "getSymName 71 ex_stream_c = (Ok ''a_map'', ex_stream_c)"
  by (simp add: getSymName_def ex_c_strtab and_then_def ex_strtab_c_def)



lemma ex_code_c_length: "length ex_code_c = 24"
  by (simp add: ex_code_c_def)


subsection \<open>Decoding the tokens of an entry\<close>

lemma getDomainFromSelinuxContext_total:
  "\<exists>d. getDomainFromSelinuxContext tok = Inr d \<and> d \<noteq> Unrecognized"
  by (simp add: getDomainFromSelinuxContext_def AllDomains_def strlen_def
      BPF_SELINUX_CONTEXT_CHAR_ARRAY_SIZE_def)


lemma getDomainFromPinSubdir_total: "\<exists>d. getDomainFromPinSubdir tok = Inr d"
  by (simp add: getDomainFromPinSubdir_def AllDomains_def strlen_def
      BPF_PIN_SUBDIR_CHAR_ARRAY_SIZE_def)

subsection \<open>One map entry\<close>

lemma desired_type_source:
  "(if (if md_type m = BPF_MAP_TYPE_DEVMAP \<and> \<not> isAtLeastKernelVersion e 4 14 0
          then BPF_MAP_TYPE_ARRAY else md_type m) = BPF_MAP_TYPE_DEVMAP_HASH
        \<and> \<not> isAtLeastKernelVersion e 5 4 0
      then BPF_MAP_TYPE_HASH
    else (if md_type m = BPF_MAP_TYPE_DEVMAP \<and> \<not> isAtLeastKernelVersion e 4 14 0
            then BPF_MAP_TYPE_ARRAY else md_type m)) = desired_type e m"
  by (simp add: desired_type_def BPF_MAP_TYPE_DEVMAP_def BPF_MAP_TYPE_DEVMAP_HASH_def
      BPF_MAP_TYPE_ARRAY_def BPF_MAP_TYPE_HASH_def)

lemma desired_max_entries_source:
  "(if desired_type e m = BPF_MAP_TYPE_RINGBUF \<and> md_max_entries m < page_size e
      then page_size e else md_max_entries m) = desired_max_entries e m"
  by (auto simp: desired_max_entries_def max_def)

lemma mapMatchesExpectations_shape:
  "mapMatchesExpectations e y k fd m (desired_type e m)
     = (isAtLeastKernelVersion e 4 14 0 \<longrightarrow> fd_has_desired_shape e y k fd m)"
  by (simp add: mapMatchesExpectations_def fd_has_desired_shape_def Let_def
      desired_max_entries_source desired_map_flags_def)

lemma skip_ifs:
  assumes "c1 \<or> c2 \<or> c3 \<or> c4 \<or> c5 \<or> c6"
  shows "(if c1 then n else if c2 then n else if c3 then n else if c4 then n
          else if c5 then n else if c6 then n else x) = n"
  using assms by auto

lemma createMap_zero:
  assumes "md_zero m \<noteq> 0"
  shows "createMap e y objName prefix ver m mapName k = (Exit (Fault Abort), k)"
  using assms unfolding createMap_def by (simp only: simp_thms if_True)

lemma createMap_skipped:
  assumes "md_zero m = 0" and "map_skipped e ver m"
  shows "createMap e y objName prefix ver m mapName k = (Next (- 1), k)"
proof -
  have c: "ver < md_bpfloader_min_ver m \<or> ver \<ge> md_bpfloader_max_ver m
      \<or> kernelVersion e < md_min_kver m \<or> kernelVersion e \<ge> md_max_kver m
      \<or> ((md_ignore_on_eng m \<and> isEng e) \<or> (md_ignore_on_user m \<and> isUser e)
          \<or> (md_ignore_on_userdebug m \<and> isUserdebug e))
      \<or> ((isArm e \<and> isKernel32Bit e \<and> md_ignore_on_arm32 m)
          \<or> (isArm e \<and> isKernel64Bit e \<and> md_ignore_on_aarch64 m)
          \<or> (isX86 e \<and> isKernel32Bit e \<and> md_ignore_on_x86_32 m)
          \<or> (isX86 e \<and> isKernel64Bit e \<and> md_ignore_on_x86_64 m)
          \<or> (isRiscV e \<and> md_ignore_on_riscv64 m))"
    using assms(2) unfolding map_skipped_def by blast
  show ?thesis
    unfolding createMap_def
    by (simp only: assms(1) simp_thms if_False skip_ifs [OF c])
qed

lemma createMap_not_skipped:
  assumes "md_zero m = 0" and "\<not> map_skipped e ver m"
    and "getDomainFromSelinuxContext (md_selinux_context m) = Inr sc"
    and "getDomainFromPinSubdir (md_pin_subdir m) = Inr ps"
  shows "createMap e y objName prefix ver m mapName k =
           (if unrecognized ps then (Exit (Err (- ENOTDIR)), k)
            else
              (case open_map e y objName prefix ps m mapName k of
                 ((fd, saved_errno), k1) \<Rightarrow>
                   if \<not> fd \<ge> 0 then (Exit (ret_code (- saved_errno)), k1)
                   else if \<not> mapMatchesExpectations e y k1 fd m (desired_type e m)
                     then (Exit (Err (- ENOTUNIQ)), k1)
                   else if \<not> access y k (map_pin_path objName prefix ps m mapName) then
                     (case createMaps_pin y objName mapName sc
                             (map_pin_path objName prefix ps m mapName) m fd k1 of
                        (Next u, k2) \<Rightarrow> (Next fd, k2)
                      | (Exit r, k2) \<Rightarrow> (Exit r, k2))
                   else (Next fd, k1)))"
proof -
  from assms(2) have g:
    "(ver < md_bpfloader_min_ver m) = False" "(md_bpfloader_max_ver m \<le> ver) = False"
    "(kernelVersion e < md_min_kver m) = False" "(md_max_kver m \<le> kernelVersion e) = False"
    "((md_ignore_on_eng m \<and> isEng e) \<or> (md_ignore_on_user m \<and> isUser e)
        \<or> (md_ignore_on_userdebug m \<and> isUserdebug e)) = False"
    "((isArm e \<and> isKernel32Bit e \<and> md_ignore_on_arm32 m)
        \<or> (isArm e \<and> isKernel64Bit e \<and> md_ignore_on_aarch64 m)
        \<or> (isX86 e \<and> isKernel32Bit e \<and> md_ignore_on_x86_32 m)
        \<or> (isX86 e \<and> isKernel64Bit e \<and> md_ignore_on_x86_64 m)
        \<or> (isRiscV e \<and> md_ignore_on_riscv64 m)) = False"
    unfolding map_skipped_def by blast+
  have z: "(md_zero m \<noteq> 0) = False" using assms(1) by simp
  show ?thesis
    unfolding createMap_def open_map_def map_pin_path_def Let_def
    by (simp only: z g if_False desired_type_source desired_max_entries_source assms(3,4)
        sum.case)
qed


lemma createMap_mismatch:
  assumes "md_zero m = 0" and "\<not> map_skipped e ver m"
    and "getDomainFromPinSubdir (md_pin_subdir m) = Inr ps" and "\<not> unrecognized ps"
    and "open_map e y objName prefix ps m mapName k = ((fd, en), k1)" and "0 \<le> fd"
    and "\<not> mapMatchesExpectations e y k1 fd m (desired_type e m)"
  shows "createMap e y objName prefix ver m mapName k = (Exit (Err (- ENOTUNIQ)), k1)"
proof -
  obtain sc where sc: "getDomainFromSelinuxContext (md_selinux_context m) = Inr sc"
    using getDomainFromSelinuxContext_total by blast
  show ?thesis
    using assms(4,6,7) by (simp add: createMap_not_skipped [OF assms(1,2) sc assms(3)] assms(5))
qed

lemma createMaps_pin_Exit:
  assumes "errno_on_failure y"
    and "createMaps_pin y objName mapName sc loc m fd k = (Exit r, k')"
  shows "r \<noteq> Ok ()"
proof -
  have p: "en \<noteq> 0" if "bpfFdPin y k0 fd0 p0 = ((ret, en), kk)" "ret \<noteq> 0"
    for k0 fd0 p0 ret en kk
    using assms(1) that unfolding errno_on_failure_def
    by (metis fst_conv snd_conv)
  have r: "en \<noteq> 0" if "renameat2 y k0 p0 q0 = ((ret, en), kk)" "ret \<noteq> 0"
    for k0 p0 q0 ret en kk
    using assms(1) that unfolding errno_on_failure_def
    by (metis fst_conv snd_conv)
  have c: "en \<noteq> 0" if "chmod y k0 p0 m0 = ((ret, en), kk)" "ret \<noteq> 0"
    for k0 p0 m0 ret en kk
    using assms(1) that unfolding errno_on_failure_def
    by (metis fst_conv snd_conv)
  have o: "en \<noteq> 0" if "chown y k0 p0 u0 g0 = ((ret, en), kk)" "ret \<noteq> 0"
    for k0 p0 u0 g0 ret en kk
    using assms(1) that unfolding errno_on_failure_def
    by (metis fst_conv snd_conv)
  show ?thesis
    using assms(2)
    unfolding createMaps_pin_def Let_def
    by (auto simp: ret_code_def split: if_splits prod.splits step.splits dest: p r c o)
qed

lemma open_map_cases:
  obtains fd en k1 where "open_map e y objName prefix ps m mapName k = ((fd, en), k1)"
  by (cases "open_map e y objName prefix ps m mapName k") auto

lemma createMap_Exit:
  assumes "errno_on_failure y"
    and "createMap e y objName prefix ver m mapName k = (Exit r, k')"
  shows "r \<noteq> Ok ()"
proof (cases "md_zero m = 0")
  case False
  with assms(2) show ?thesis by (auto simp: createMap_zero)
next
  case z: True
  show ?thesis
  proof (cases "map_skipped e ver m")
    case True
    with assms(2) z show ?thesis by (simp add: createMap_skipped)
  next
    case False
    obtain sc where sc: "getDomainFromSelinuxContext (md_selinux_context m) = Inr sc"
      using getDomainFromSelinuxContext_total by blast
    obtain ps where ps: "getDomainFromPinSubdir (md_pin_subdir m) = Inr ps"
      using getDomainFromPinSubdir_total by blast
    obtain fd en k1 where om: "open_map e y objName prefix ps m mapName k = ((fd, en), k1)"
      by (rule open_map_cases)
    have en: "en \<noteq> 0" if "\<not> 0 \<le> fd"
    proof (cases "access y k (map_pin_path objName prefix ps m mapName)")
      case True
      with om have "mapRetrieveRO y k (map_pin_path objName prefix ps m mapName) = ((fd, en), k1)"
        by (simp add: open_map_def)
      moreover from assms(1) have
        "fst (fst (mapRetrieveRO y k (map_pin_path objName prefix ps m mapName))) < 0
          \<longrightarrow> snd (fst (mapRetrieveRO y k (map_pin_path objName prefix ps m mapName))) \<noteq> 0"
        unfolding errno_on_failure_def by blast
      ultimately show ?thesis using that by simp
    next
      case False
      let ?req = "\<lparr>req_map_type = desired_type e m,
              req_key_size = md_key_size m,
              req_value_size = md_value_size m,
              req_max_entries = desired_max_entries e m,
              req_map_flags = md_map_flags m,
              req_map_name =
                (if isAtLeastKernelVersion e 4 15 0 then take (BPF_OBJ_NAME_LEN - 1) mapName
                 else [])\<rparr>"
      from False om have "bpf_MAP_CREATE y k ?req = ((fd, en), k1)"
        by (simp add: open_map_def)
      moreover from assms(1) have
        "fst (fst (bpf_MAP_CREATE y k ?req)) < 0 \<longrightarrow> snd (fst (bpf_MAP_CREATE y k ?req)) \<noteq> 0"
        unfolding errno_on_failure_def by blast
      ultimately show ?thesis using that by simp
    qed
    have eq: "createMap e y objName prefix ver m mapName k =
      (if unrecognized ps then (Exit (Err (- ENOTDIR)), k)
        else if \<not> fd \<ge> 0 then (Exit (ret_code (- en)), k1)
        else if \<not> mapMatchesExpectations e y k1 fd m (desired_type e m)
          then (Exit (Err (- ENOTUNIQ)), k1)
        else if \<not> access y k (map_pin_path objName prefix ps m mapName) then
          (case createMaps_pin y objName mapName sc
                  (map_pin_path objName prefix ps m mapName) m fd k1 of
             (Next u, k2) \<Rightarrow> (Next fd, k2)
           | (Exit r, k2) \<Rightarrow> (Exit r, k2))
        else (Next fd, k1))"
      unfolding createMap_not_skipped [OF z False sc ps] om by (simp only: prod.case)
    from assms(2) [unfolded eq] show ?thesis
      using en createMaps_pin_Exit [OF assms(1)]
      by (auto simp: ret_code_def split: if_splits prod.splits step.splits)
  qed
qed

lemma createMap_Next:
  assumes "createMap e y objName prefix ver m mapName k = (Next fd, k')"
  shows "(map_skipped e ver m \<longrightarrow> fd = - 1 \<and> k' = k) \<and> (\<not> map_skipped e ver m \<longrightarrow> 0 \<le> fd)"
proof (cases "md_zero m = 0")
  case False
  with assms show ?thesis by (simp add: createMap_zero)
next
  case z: True
  show ?thesis
  proof (cases "map_skipped e ver m")
    case True
    with assms z show ?thesis by (simp add: createMap_skipped)
  next
    case False
    obtain sc where sc: "getDomainFromSelinuxContext (md_selinux_context m) = Inr sc"
      using getDomainFromSelinuxContext_total by blast
    obtain ps where ps: "getDomainFromPinSubdir (md_pin_subdir m) = Inr ps"
      using getDomainFromPinSubdir_total by blast
    obtain fd0 en k1 where om: "open_map e y objName prefix ps m mapName k = ((fd0, en), k1)"
      by (rule open_map_cases)
    have eq: "createMap e y objName prefix ver m mapName k =
      (if unrecognized ps then (Exit (Err (- ENOTDIR)), k)
        else if \<not> fd0 \<ge> 0 then (Exit (ret_code (- en)), k1)
        else if \<not> mapMatchesExpectations e y k1 fd0 m (desired_type e m)
          then (Exit (Err (- ENOTUNIQ)), k1)
        else if \<not> access y k (map_pin_path objName prefix ps m mapName) then
          (case createMaps_pin y objName mapName sc
                  (map_pin_path objName prefix ps m mapName) m fd0 k1 of
             (Next u, k2) \<Rightarrow> (Next fd0, k2)
           | (Exit r, k2) \<Rightarrow> (Exit r, k2))
        else (Next fd0, k1))"
      unfolding createMap_not_skipped [OF z False sc ps] om by (simp only: prod.case)
    from assms [unfolded eq] have "0 \<le> fd"
      by (auto split: if_splits prod.splits step.splits)
    with False show ?thesis by simp
  qed
qed

subsection \<open>The loop over the maps\<close>

lemma createMaps_loop_Exit:
  assumes "i < length md"
    and "createMap e y objName prefix ver (md ! i) mapName k = (Exit r, k1)"
  shows "createMaps_loop e y objName prefix ver md (mapName # rest) i mapFds k = (r, mapFds, k1)"
  using assms by simp

lemma createMaps_loop_Next:
  assumes "i < length md"
    and "createMap e y objName prefix ver (md ! i) mapName k = (Next fd, k1)"
  shows "createMaps_loop e y objName prefix ver md (mapName # rest) i mapFds k
           = createMaps_loop e y objName prefix ver md rest (Suc i) (mapFds @ [fd]) k1"
  using assms by simp

lemma createMaps_loop_aligned:
  assumes "createMaps_loop e y objName prefix ver md names i mapFds k = (r, fds, k')"
  shows "\<exists>new. fds = mapFds @ new \<and> length new \<le> length names
           \<and> (\<forall>j < length new. i + j < length md
                 \<and> (map_skipped e ver (md ! (i + j)) \<longrightarrow> new ! j = - 1)
                 \<and> (\<not> map_skipped e ver (md ! (i + j)) \<longrightarrow> 0 \<le> new ! j))
           \<and> (errno_on_failure y \<and> r = Ok () \<longrightarrow> length new = length names)"
  using assms
proof (induction names arbitrary: i mapFds k)
  case Nil
  then have "fds = mapFds" by simp
  then show ?case by (intro exI [of _ "[]"]) simp
next
  case (Cons mapName rest)
  show ?case
  proof (cases "i < length md")
    case False
    with Cons.prems have "fds = mapFds" "r = Fault OutOfBounds" by auto
    then show ?thesis by (intro exI [of _ "[]"]) simp
  next
    case i: True
    show ?thesis
    proof (cases "createMap e y objName prefix ver (md ! i) mapName k")
      case (Pair st k1)
      show ?thesis
      proof (cases st)
        case (Exit r0)
        have "(r, fds, k') = (r0, mapFds, k1)"
          using createMaps_loop_Exit [OF i Pair [unfolded Exit], of rest mapFds] Cons.prems
          by (simp only:)
        then have "r = r0" "fds = mapFds" by simp_all
        moreover have "errno_on_failure y \<Longrightarrow> r0 \<noteq> Ok ()"
          by (rule createMap_Exit [OF _ Pair [unfolded Exit]])
        ultimately show ?thesis by (intro exI [of _ "[]"]) auto
      next
        case (Next fd)
        have rec: "createMaps_loop e y objName prefix ver md rest (Suc i) (mapFds @ [fd]) k1
                = (r, fds, k')"
          using createMaps_loop_Next [OF i Pair [unfolded Next], of rest mapFds] Cons.prems
          by (simp only:)
        from Cons.IH [OF rec] obtain new where new:
          "fds = (mapFds @ [fd]) @ new" "length new \<le> length rest"
          "\<forall>j < length new. Suc i + j < length md
              \<and> (map_skipped e ver (md ! (Suc i + j)) \<longrightarrow> new ! j = - 1)
              \<and> (\<not> map_skipped e ver (md ! (Suc i + j)) \<longrightarrow> 0 \<le> new ! j)"
          "errno_on_failure y \<and> r = Ok () \<longrightarrow> length new = length rest"
          by blast
        have fd: "(map_skipped e ver (md ! i) \<longrightarrow> fd = - 1)
            \<and> (\<not> map_skipped e ver (md ! i) \<longrightarrow> 0 \<le> fd)"
          using createMap_Next [OF Pair [unfolded Next]] by simp
        have al: "i + j < length md
              \<and> (map_skipped e ver (md ! (i + j)) \<longrightarrow> (fd # new) ! j = - 1)
              \<and> (\<not> map_skipped e ver (md ! (i + j)) \<longrightarrow> 0 \<le> (fd # new) ! j)"
          if "j < length (fd # new)" for j
        proof (cases j)
          case 0
          with fd i show ?thesis by simp
        next
          case (Suc j1)
          with that have "j1 < length new" by simp
          with new(3) Suc show ?thesis by simp
        qed
        show ?thesis
        proof (intro exI [of _ "fd # new"] conjI)
          show "fds = mapFds @ fd # new" using new(1) by simp
          show "length (fd # new) \<le> length (mapName # rest)" using new(2) by simp
          show "\<forall>j < length (fd # new). i + j < length md
                   \<and> (map_skipped e ver (md ! (i + j)) \<longrightarrow> (fd # new) ! j = - 1)
                   \<and> (\<not> map_skipped e ver (md ! (i + j)) \<longrightarrow> 0 \<le> (fd # new) ! j)"
            using al by blast
          show "errno_on_failure y \<and> r = Ok () \<longrightarrow> length (fd # new) = length (mapName # rest)"
            using new(4) by simp
        qed
      qed
    qed
  qed
qed

lemma createMaps_result:
  assumes "readSectionByName ''maps'' s = (Ok mdData, s1)"
    and "createMaps_defs a mdData sizeOfBpfMapDef = Ok md"
    and "getSectionSymNames ''maps'' [] None s1 = (Ok (), mapNames, s2)"
    and "createMaps_loop e y (pathToObjName elfPath) prefix ver (map (as_bpf_map_def a) md)
           mapNames 0 mapFds k = (r, fds, k')"
  shows "createMaps a e y elfPath s mapFds prefix sizeOfBpfMapDef ver k = (r, fds, s2, k')"
  by (simp add: createMaps_def assms)

subsection \<open>One program entry\<close>







subsection \<open>The equivalence check of a map\<close>

text \<open>
  C3. On a kernel of version 4.14 or later \<^verbatim>\<open>mapMatchesExpectations\<close>, called as
  \<^verbatim>\<open>createMaps\<close> calls it, holds exactly when the type, key size, value size, number of
  entries and flags of the descriptor are the desired ones; on an older kernel it holds.
  When it fails on the descriptor of a map that is not skipped, the loop of
  \<^verbatim>\<open>createMaps\<close> returns \<open>- ENOTUNIQ\<close> at that map.
\<close>

theorem map_equivalence_check:
  "(isAtLeastKernelVersion e 4 14 0 \<longrightarrow>
      mapMatchesExpectations e y k' fd m (desired_type e m) = fd_has_desired_shape e y k' fd m)
   \<and> (\<not> isAtLeastKernelVersion e 4 14 0 \<longrightarrow>
        mapMatchesExpectations e y k' fd m (desired_type e m))
   \<and> (md_zero m = 0 \<and> \<not> map_skipped e ver m
        \<and> getDomainFromPinSubdir (md_pin_subdir m) = Inr ps \<and> \<not> unrecognized ps
        \<and> open_map e y objName prefix ps m mapName k = ((fd, en), k') \<and> 0 \<le> fd
        \<and> \<not> mapMatchesExpectations e y k' fd m (desired_type e m)
        \<and> i < length md \<and> md ! i = m \<longrightarrow>
        createMaps_loop e y objName prefix ver md (mapName # rest) i mapFds k
          = (Err (- ENOTUNIQ), mapFds, k'))"
proof (intro conjI impI)
  assume "isAtLeastKernelVersion e 4 14 0"
  then show "mapMatchesExpectations e y k' fd m (desired_type e m)
      = fd_has_desired_shape e y k' fd m"
    by (simp add: mapMatchesExpectations_shape)
next
  assume "\<not> isAtLeastKernelVersion e 4 14 0"
  then show "mapMatchesExpectations e y k' fd m (desired_type e m)"
    by (simp add: mapMatchesExpectations_shape)
next
  assume a: "md_zero m = 0 \<and> \<not> map_skipped e ver m
        \<and> getDomainFromPinSubdir (md_pin_subdir m) = Inr ps \<and> \<not> unrecognized ps
        \<and> open_map e y objName prefix ps m mapName k = ((fd, en), k') \<and> 0 \<le> fd
        \<and> \<not> mapMatchesExpectations e y k' fd m (desired_type e m)
        \<and> i < length md \<and> md ! i = m"
  then have "createMap e y objName prefix ver m mapName k = (Exit (Err (- ENOTUNIQ)), k')"
    by (intro createMap_mismatch [where ps = ps and fd = fd and en = en]) simp_all
  with a have cm: "createMap e y objName prefix ver (md ! i) mapName k
      = (Exit (Err (- ENOTUNIQ)), k')"
    by simp
  from a have i: "i < length md" by simp
  show "createMaps_loop e y objName prefix ver md (mapName # rest) i mapFds k
          = (Err (- ENOTUNIQ), mapFds, k')"
    by (rule createMaps_loop_Exit [OF i cm])
qed

subsection \<open>The example map and program\<close>

lemma char_at_head_simps:
  "char_at_head [] = NUL" "char_at_head (c # cs) = c"
  by (simp_all add: char_at_head_def)

lemma char_at_head_replicate:
  assumes "0 < n"
  shows "char_at_head (replicate n c) = c"
  using assms by (cases n) (simp_all add: char_at_head_def)

lemmas token_eval_array =
  getDomainFromSelinuxContext_def getDomainFromPinSubdir_def AllDomains_def
  BPF_SELINUX_CONTEXT_CHAR_ARRAY_SIZE_def BPF_PIN_SUBDIR_CHAR_ARRAY_SIZE_def
  strlen_def strncmp.simps char_at_head_simps char_at_head_replicate

lemma ex_map_pin_subdir: "getDomainFromPinSubdir (md_pin_subdir ex_map_def) = Inr Unspecified"
  by (simp add: ex_map_def_def token_eval_array)

lemma ex_map_selinux_context:
  "getDomainFromSelinuxContext (md_selinux_context ex_map_def) = Inr Unspecified"
  by (simp add: ex_map_def_def token_eval_array)



lemma ex_bogus_selinux_context: "getDomainFromSelinuxContext ''bogus'' = Inr Unspecified"
  by (simp add: token_eval_array)

lemma ex_env_4_14: "isAtLeastKernelVersion ex_env 4 14 0"
  by (simp add: ex_env_def)

lemma ex_env_old_4_14: "\<not> isAtLeastKernelVersion ex_env_old 4 14 0"
  by (simp add: ex_env_old_def ex_env_def)

lemma ex_map_zero: "md_zero ex_map_def = 0" "md_zero ex_map_def_bogus = 0"
  by (simp_all add: ex_map_def_def ex_map_def_bogus_def)

lemmas ex_gate_eval =
  ex_env_def isEng_def isUser_def isUserdebug_def

lemma ex_map_not_skipped:
  "\<not> map_skipped ex_env 44 ex_map_def" "\<not> map_skipped ex_env 44 ex_map_def_bogus"
  by (simp_all add: map_skipped_def ex_map_def_def ex_map_def_bogus_def ex_gate_eval)

lemma ex_map_skipped:
  "map_skipped ex_env 0x10000 ex_map_def" "map_skipped ex_env 0x10000 ex_map_def_bogus"
  by (simp_all add: map_skipped_def ex_map_def_def ex_map_def_bogus_def)




lemmas ex_shape_eval =
  fd_has_desired_shape_def desired_type_def desired_max_entries_def desired_map_flags_def
  ex_sys_def ex_fd_info_def ex_fd_map_def ex_map_def_def
  BPF_MAP_TYPE_HASH_def BPF_MAP_TYPE_ARRAY_def BPF_MAP_TYPE_DEVMAP_def
  BPF_MAP_TYPE_DEVMAP_HASH_def BPF_MAP_TYPE_RINGBUF_def

lemma ex_open_pinned:
  "open_map ex_env ex_sys_pinned objName prefix Unspecified ex_map_def mapName ex_pinned
     = ((3, 0), ex_pinned)"
  by (simp add: open_map_def ex_sys_pinned_def)

lemma ex_pinned_shape:
  "\<not> fd_has_desired_shape ex_env ex_sys_pinned ex_pinned 3 ex_map_def"
  by (simp add: ex_shape_eval ex_sys_pinned_def ex_pinned_def)

lemma ex_open_created:
  "open_map ex_env ex_sys objName prefix Unspecified ex_map_def ''a_map'' []
     = ((3, 0),
        [\<lparr>req_map_type = 1, req_key_size = 4, req_value_size = 8, req_max_entries = 16,
          req_map_flags = 0, req_map_name = ''a_map''\<rparr>])"
  by (simp add: open_map_def ex_sys_def desired_type_def desired_max_entries_def ex_map_def_def
      ex_env_def BPF_OBJ_NAME_LEN_def BPF_MAP_TYPE_HASH_def BPF_MAP_TYPE_ARRAY_def
      BPF_MAP_TYPE_DEVMAP_def BPF_MAP_TYPE_DEVMAP_HASH_def BPF_MAP_TYPE_RINGBUF_def)

lemma ex_created_shape:
  "fd_has_desired_shape ex_env ex_sys
     [\<lparr>req_map_type = 1, req_key_size = 4, req_value_size = 8, req_max_entries = 16,
       req_map_flags = 0, req_map_name = ''a_map''\<rparr>] 3 ex_map_def"
  by (simp add: ex_shape_eval)

lemma ex_access: "access ex_sys k path = False"
  by (simp add: ex_sys_def)

lemma ex_pin: "createMaps_pin ex_sys objName mapName Unspecified loc m fd k = (Next (), k)"
  by (simp add: createMaps_pin_def ex_sys_def specified_def)

lemma ex_errno: "errno_on_failure ex_sys"
  by (simp add: errno_on_failure_def ex_sys_def)

lemma ex_createMap_created:
  "createMap ex_env ex_sys objName prefix 44 ex_map_def ''a_map'' []
     = (Next 3,
        [\<lparr>req_map_type = 1, req_key_size = 4, req_value_size = 8, req_max_entries = 16,
          req_map_flags = 0, req_map_name = ''a_map''\<rparr>])"
  by (simp add: createMap_not_skipped [OF ex_map_zero(1) ex_map_not_skipped(1)
        ex_map_selinux_context ex_map_pin_subdir]
      unrecognized_def ex_open_created mapMatchesExpectations_shape ex_created_shape
      ex_access ex_pin)

subsection \<open>The theorems on the examples\<close>

theorem map_equivalence_check_witness:
  "isAtLeastKernelVersion ex_env 4 14 0
   \<and> \<not> fd_has_desired_shape ex_env ex_sys_pinned ex_pinned 3 ex_map_def
   \<and> \<not> mapMatchesExpectations ex_env ex_sys_pinned ex_pinned 3 ex_map_def
          (desired_type ex_env ex_map_def)
   \<and> createMaps_loop ex_env ex_sys_pinned ''c'' ''tethering/'' 44 [ex_map_def] [''a_map''] 0 []
        ex_pinned = (Err (- ENOTUNIQ), [], ex_pinned)
   \<and> \<not> isAtLeastKernelVersion ex_env_old 4 14 0
   \<and> mapMatchesExpectations ex_env_old ex_sys_pinned ex_pinned 3 ex_map_def
        (desired_type ex_env_old ex_map_def)"
proof -
  note t = map_equivalence_check [where e = ex_env and y = ex_sys_pinned and k' = ex_pinned
      and fd = 3 and m = ex_map_def and ver = 44 and ps = Unspecified and objName = "''c''"
      and prefix = "''tethering/''" and mapName = "''a_map''" and k = ex_pinned and en = 0
      and i = 0 and md = "[ex_map_def]" and rest = "[]" and mapFds = "[]"]
  from t ex_env_4_14 ex_pinned_shape have
    mm: "\<not> mapMatchesExpectations ex_env ex_sys_pinned ex_pinned 3 ex_map_def
          (desired_type ex_env ex_map_def)"
    by blast
  from t mm have
    "createMaps_loop ex_env ex_sys_pinned ''c'' ''tethering/'' 44 [ex_map_def] [''a_map''] 0 []
        ex_pinned = (Err (- ENOTUNIQ), [], ex_pinned)"
    by (simp add: ex_map_zero ex_map_not_skipped ex_map_pin_subdir ex_open_pinned
        unrecognized_def)
  moreover from map_equivalence_check [where e = ex_env_old and y = ex_sys_pinned
      and k' = ex_pinned and fd = 3 and m = ex_map_def] ex_env_old_4_14
  have "mapMatchesExpectations ex_env_old ex_sys_pinned ex_pinned 3 ex_map_def
        (desired_type ex_env_old ex_map_def)"
    by blast
  ultimately show ?thesis
    using ex_env_4_14 ex_pinned_shape mm ex_env_old_4_14 by blast
qed


subsection \<open>The maps of object c\<close>

lemma ex_map_def_defaults:
  "map_def_defaults ex_abi
     = replicate 36 NUL @ le32_bytes 0x10000 @ replicate 4 NUL @ le32_bytes 0xFFFFFFFF
         @ replicate 72 NUL"
  by (simp add: map_def_defaults_def ex_abi_def store_u32_def memcpy_def le32_bytes_length)

lemma le_nat_le32_bytes: "word_of_nat (le_nat (le32_bytes v)) = v"
proof -
  obtain b0 b1 b2 b3 where b: "le32_bytes v = [b0, b1, b2, b3]"
    by (simp add: le32_bytes_def)
  have "le_nat [b0, b1, b2, b3] = le32_nat b0 b1 b2 b3"
    by (simp add: le_nat_def le32_nat_def)
  with le32_nat_le32_bytes [OF b] show ?thesis by (simp add: b)
qed

lemma le_nat_replicate: "le_nat (replicate n NUL) = 0"
  by (induction n) (simp_all add: le_nat_def)

lemma ex_c_map_decoded:
  "as_bpf_map_def ex_abi (ex_maps_c @ drop 32 (map_def_defaults ex_abi)) = ex_map_def"
proof -
  have "ex_as_bpf_map_def
      (ex_maps_c @ replicate 4 NUL @ le32_bytes 0x10000 @ replicate 4 NUL
         @ le32_bytes 0xFFFFFFFF @ replicate 72 NUL) = ex_map_def"
    by (simp add: ex_as_bpf_map_def_def ex_map_def_def ex_maps_c_def u32_at_def flag_at_def
        le32_bytes_length le_nat_le32_bytes le_nat_replicate nth_append, simp add: le_nat_def)
  moreover have "as_bpf_map_def ex_abi = ex_as_bpf_map_def"
    by (simp add: ex_abi_def)
  ultimately show ?thesis
    by (simp add: ex_map_def_defaults)
qed

lemma ex_c_names:
  "getSymName 0 ex_stream_c = (Ok [], ex_stream_c)"
  "getSymName 1 ex_stream_c = (Ok ''.strtab'', ex_stream_c)"
  "getSymName 9 ex_stream_c = (Ok ''progs'', ex_stream_c)"
  "getSymName 15 ex_stream_c = (Ok ''maps'', ex_stream_c)"
  by (simp_all add: getSymName_def ex_c_strtab and_then_def ex_strtab_c_def)

lemma ex_c_find_maps: "find_sec_idx ''maps'' ex_sections_c 0 ex_stream_c = (Ok 3, ex_stream_c)"
  by (simp add: ex_c_sections ex_c_names)

lemma ex_c_map_names:
  "getSectionSymNames ''maps'' [] None ex_stream_c = (Ok (), [''a_map''], ex_stream_c)"
proof -
  have "sym_names_loop None 3 ex_syms_c [] ex_stream_c = (Ok (), [''a_map''], ex_stream_c)"
    by (simp add: ex_syms_c_def ex_c_name_a_map)
  then show ?thesis
    by (simp add: getSectionSymNames_def ex_c_symtab ex_c_headers ex_c_find_maps)
qed

lemma ex_c_map_defs:
  "createMaps_defs ex_abi ex_maps_c 32 = Ok [ex_maps_c @ drop 32 (map_def_defaults ex_abi)]"
  by (simp add: createMaps_defs_def copy_defs_map ex_maps_c_length memcpy_def ex_abi_def)

lemma ex_c_createMaps_skipped:
  "createMaps ex_abi ex_env ex_sys (ex_dir @ ''c.o'') ex_stream_c [] ''tethering/'' 32 0x10000 []
     = (Ok (), [- 1], ex_stream_c, [])"
proof -
  have "createMaps_loop ex_env ex_sys (pathToObjName (ex_dir @ ''c.o'')) ''tethering/'' 0x10000
      (map (as_bpf_map_def ex_abi) [ex_maps_c @ drop 32 (map_def_defaults ex_abi)])
      [''a_map''] 0 [] [] = (Ok (), [- 1], [])"
  proof -
    have cm: "createMap ex_env ex_sys (pathToObjName (ex_dir @ ''c.o'')) ''tethering/'' 0x10000
        ([ex_map_def] ! 0) ''a_map'' [] = (Next (- 1), [])"
      by (simp add: createMap_skipped [OF ex_map_zero(1) ex_map_skipped(1)])
    have "createMaps_loop ex_env ex_sys (pathToObjName (ex_dir @ ''c.o'')) ''tethering/'' 0x10000
        [ex_map_def] [''a_map''] 0 [] [] = (Ok (), [- 1], [])"
      by (subst createMaps_loop_Next [OF _ cm]) simp_all
    then show ?thesis by (simp add: ex_c_map_decoded)
  qed
  then show ?thesis
    by (rule createMaps_result [OF ex_c_maps ex_c_map_defs ex_c_map_names])
qed

lemma ex_c_createMaps_created:
  "createMaps ex_abi ex_env ex_sys (ex_dir @ ''c.o'') ex_stream_c [] ''tethering/'' 32 44 []
     = (Ok (), [3], ex_stream_c,
        [\<lparr>req_map_type = 1, req_key_size = 4, req_value_size = 8, req_max_entries = 16,
          req_map_flags = 0, req_map_name = ''a_map''\<rparr>])"
proof -
  have "createMaps_loop ex_env ex_sys (pathToObjName (ex_dir @ ''c.o'')) ''tethering/'' 44
      (map (as_bpf_map_def ex_abi) [ex_maps_c @ drop 32 (map_def_defaults ex_abi)])
      [''a_map''] 0 [] []
     = (Ok (), [3],
        [\<lparr>req_map_type = 1, req_key_size = 4, req_value_size = 8, req_max_entries = 16,
          req_map_flags = 0, req_map_name = ''a_map''\<rparr>])"
  proof -
    have cm: "createMap ex_env ex_sys (pathToObjName (ex_dir @ ''c.o'')) ''tethering/'' 44
        ([ex_map_def] ! 0) ''a_map'' []
      = (Next 3,
         [\<lparr>req_map_type = 1, req_key_size = 4, req_value_size = 8, req_max_entries = 16,
           req_map_flags = 0, req_map_name = ''a_map''\<rparr>])"
      by (simp add: ex_createMap_created)
    have "createMaps_loop ex_env ex_sys (pathToObjName (ex_dir @ ''c.o'')) ''tethering/'' 44
        [ex_map_def] [''a_map''] 0 [] []
      = (Ok (), [3],
         [\<lparr>req_map_type = 1, req_key_size = 4, req_value_size = 8, req_max_entries = 16,
           req_map_flags = 0, req_map_name = ''a_map''\<rparr>])"
      by (subst createMaps_loop_Next [OF _ cm]) simp_all
    then show ?thesis by (simp add: ex_c_map_decoded)
  qed
  then show ?thesis
    by (rule createMaps_result [OF ex_c_maps ex_c_map_defs ex_c_map_names])
qed

subsection \<open>A code section at the end of the section header table\<close>

lemma ex_d_failbit: "\<not> failbit ex_stream_d"
  by (simp add: ex_stream_d_def)

lemma ex_d_ehdr: "readElfHeader ex_stream_d = (Ok \<lparr>e_shstrndx = 1\<rparr>, ex_stream_d)"
  by (simp add: readElfHeader_def ex_stream_d_def)

lemma ex_d_headers: "readSectionHeadersAll ex_stream_d = (Ok ex_sections_d, ex_stream_d)"
  by (simp add: readSectionHeadersAll_def ex_d_ehdr and_then_def,
      simp add: seek_read_def ex_stream_d_def)

lemma ex_d_strtab: "readSectionHeaderStrtab ex_stream_d = (Ok ex_strtab_c, ex_stream_d)"
  by (simp add: readSectionHeaderStrtab_def readSectionByIdx_def ex_d_ehdr ex_d_headers
      and_then_def ex_sections_d_def ex_section_def read_bytes_Data [OF ex_d_failbit])

lemma ex_d_names:
  "getSymName 0 ex_stream_d = (Ok [], ex_stream_d)"
  "getSymName 1 ex_stream_d = (Ok ''.strtab'', ex_stream_d)"
  "getSymName 9 ex_stream_d = (Ok ''progs'', ex_stream_d)"
  "getSymName 15 ex_stream_d = (Ok ''maps'', ex_stream_d)"
  "getSymName 20 ex_stream_d = (Ok ''license'', ex_stream_d)"
  "getSymName 28 ex_stream_d = (Ok ''.symtab'', ex_stream_d)"
  "getSymName 40 ex_stream_d = (Ok ''xdp/prog'', ex_stream_d)"
  "getSymName 49 ex_stream_d = (Ok ''xdp_prog_def'', ex_stream_d)"
  "getSymName 62 ex_stream_d = (Ok ''xdp_prog'', ex_stream_d)"
  by (simp_all add: getSymName_def ex_d_strtab and_then_def ex_strtab_c_def)

lemma ex_d_progs: "readSectionByName ''progs'' ex_stream_d = (Ok ex_progs_c, ex_stream_d)"
  by (simp add: readSectionByName_def ex_d_headers ex_d_strtab and_then_def ex_sections_d_def
      ex_section_def ex_strtab_c_def read_bytes_Data [OF ex_d_failbit])

lemma ex_d_prog_defs:
  "readProgDefs ex_abi ex_stream_d 20
     = (Ok [ex_progs_c @ drop 20 (prog_def_defaults ex_abi)], ex_stream_d)"
  by (simp add: readProgDefs_def ex_d_progs and_then_def copy_defs_map ex_progs_c_length
      memcpy_def ex_abi_def)

lemma ex_d_by_type: "readSectionByType SHT_SYMTAB ex_stream_d = (Ok ex_symtab_c, ex_stream_d)"
  by (simp add: readSectionByType_def ex_d_headers and_then_def ex_sections_d_def
      ex_section_def SHT_SYMTAB_def read_bytes_Data [OF ex_d_failbit])

lemma ex_d_symtab: "readSymTab do_sort ex_stream_d = (Ok ex_syms_c, ex_stream_d)"
proof -
  have "sort_key st_value ex_syms_c = ex_syms_c"
    by (simp add: ex_syms_c_def)
  then show ?thesis
    by (simp add: readSymTab_def ex_d_by_type and_then_def sizeof_Elf64_Sym_def
        ex_c_syms_parsed Let_def)
qed

lemma ex_d_find_progs: "find_sec_idx ''progs'' ex_sections_d 0 ex_stream_d = (Ok 2, ex_stream_d)"
  by (simp add: ex_sections_d_def ex_section_def ex_d_names)

lemma ex_d_find_code:
  "find_sec_idx ''xdp/prog'' ex_sections_d 0 ex_stream_d = (Ok 6, ex_stream_d)"
  by (simp add: ex_sections_d_def ex_section_def ex_d_names)

lemma ex_d_prog_names:
  "getSectionSymNames ''progs'' [] None ex_stream_d = (Ok (), [''xdp_prog_def''], ex_stream_d)"
proof -
  have "sym_names_loop None 2 ex_syms_c [] ex_stream_d
      = (Ok (), [''xdp_prog_def''], ex_stream_d)"
    by (simp add: ex_syms_c_def ex_d_names)
  then show ?thesis
    by (simp add: getSectionSymNames_def ex_d_symtab ex_d_headers ex_d_find_progs)
qed

lemma ex_d_code_names:
  "getSectionSymNames ''xdp/prog'' [] (Some STT_FUNC) ex_stream_d
     = (Ok (), [''xdp_prog''], ex_stream_d)"
proof -
  have "sym_names_loop (Some STT_FUNC) 6 ex_syms_c [] ex_stream_d
      = (Ok (), [''xdp_prog''], ex_stream_d)"
    by (simp add: ex_syms_c_def ex_d_names ELF_ST_TYPE_def STT_FUNC_def)
  then show ?thesis
    by (simp add: getSectionSymNames_def ex_d_symtab ex_d_headers ex_d_find_code)
qed

lemma ex_d_code: "readSectionByIdx 6 ex_stream_d = (Ok ex_code_c, ex_stream_d)"
  by (simp add: readSectionByIdx_def ex_d_headers and_then_def ex_sections_d_def
      ex_section_def read_bytes_Data [OF ex_d_failbit])

lemma ex_section_types:
  "getSectionType [] = BPF_PROG_TYPE_UNSPEC"
  "getSectionType ''.strtab'' = BPF_PROG_TYPE_UNSPEC"
  "getSectionType ''progs'' = BPF_PROG_TYPE_UNSPEC"
  "getSectionType ''maps'' = BPF_PROG_TYPE_UNSPEC"
  "getSectionType ''license'' = BPF_PROG_TYPE_UNSPEC"
  "getSectionType ''.symtab'' = BPF_PROG_TYPE_UNSPEC"
  "getSectionType ''xdp/prog'' = BPF_PROG_TYPE_XDP"
  by (simp_all add: getSectionType_def sectionNameTypes_def StartsWith_def)

lemma ex_d_length: "length ex_sections_d = 7"
  by (simp add: ex_sections_d_def)

lemma ex_d_other_sections:
  assumes "i < 6"
  shows "readCodeSection ex_abi ex_sections_d pd names i ex_stream_d = (Next None, ex_stream_d)"
proof -
  from assms consider "i = 0" | "i = 1" | "i = 2" | "i = 3" | "i = 4" | "i = 5"
    by linarith
  then show ?thesis
    by cases
      (simp_all add: readCodeSection_def ex_sections_d_def ex_section_def ex_d_names
        ex_section_types)
qed

lemma ex_d_last_section:
  "readCodeSection ex_abi ex_sections_d pd [''xdp_prog_def''] 6 ex_stream_d
     = (Exit (Fault OutOfBounds), ex_stream_d)"
proof -
  have n: "sint (sh_name (ex_sections_d ! 6)) = 40"
    by (simp add: ex_sections_d_def ex_section_def)
  show ?thesis
    unfolding readCodeSection_def
    by (simp add: n ex_d_names ex_section_types ex_d_code ex_d_code_names ex_code_c_length
        ex_d_length Let_def split: sum.splits)
qed

lemma readCodeSections_loop_skip:
  assumes "\<And>j. i \<le> j \<Longrightarrow> j < n \<Longrightarrow> readCodeSection a shTable pd names j s = (Next None, s)"
    and "i \<le> n" and "n \<le> length shTable"
  shows "readCodeSections_loop a shTable pd names i cs s
           = readCodeSections_loop a shTable pd names n cs s"
  using assms
proof (induction "n - i" arbitrary: i)
  case 0
  then have "i = n" by simp
  then show ?case by simp
next
  case (Suc d)
  then have i: "i < n" by simp
  with Suc.prems(3) have l: "i < length shTable" by simp
  have r: "readCodeSection a shTable pd names i s = (Next None, s)"
    using Suc.prems(1) [of i] i by simp
  have "readCodeSections_loop a shTable pd names i cs s
      = readCodeSections_loop a shTable pd names (Suc i) cs s"
    by (subst readCodeSections_loop.simps) (simp add: l r)
  also have "\<dots> = readCodeSections_loop a shTable pd names n cs s"
  proof (rule Suc.hyps(1))
    show "d = n - Suc i" using Suc.hyps(2) by simp
    show "readCodeSection a shTable pd names j s = (Next None, s)" if "Suc i \<le> j" "j < n" for j
      using Suc.prems(1) [of j] that by simp
    show "Suc i \<le> n" using i by simp
    show "n \<le> length shTable" by (rule Suc.prems(3))
  qed
  finally show ?case .
qed

text \<open>
  C8. In object \<open>d\<close> the code section \<^verbatim>\<open>xdp/prog\<close> is the last of the seven sections:
  \<^verbatim>\<open>readCodeSections\<close> passes the test \<^verbatim>\<open>i < entries\<close> at \<open>i = 6\<close> and reads
  \<^verbatim>\<open>shTable[7]\<close>, past the end of the table.
\<close>

theorem readCodeSections_last_section_out_of_bounds:
  "readCodeSections ex_abi ex_stream_d 20 = (Fault OutOfBounds, [], ex_stream_d)"
proof -
  let ?pd = "[ex_progs_c @ drop 20 (prog_def_defaults ex_abi)]"
  have "readCodeSections_loop ex_abi ex_sections_d ?pd [''xdp_prog_def''] 0 [] ex_stream_d
      = readCodeSections_loop ex_abi ex_sections_d ?pd [''xdp_prog_def''] 6 [] ex_stream_d"
    by (rule readCodeSections_loop_skip) (simp_all add: ex_d_other_sections ex_d_length)
  also have "\<dots> = (Fault OutOfBounds, [], ex_stream_d)"
    by (subst readCodeSections_loop.simps) (simp add: ex_d_last_section ex_d_length)
  finally show ?thesis
    by (simp add: readCodeSections_def ex_d_headers ex_d_prog_defs ex_d_prog_names)
qed

subsection \<open>A code section followed by its relocation section\<close>

lemma ex_c_more_names:
  "getSymName 20 ex_stream_c = (Ok ''license'', ex_stream_c)"
  "getSymName 28 ex_stream_c = (Ok ''.symtab'', ex_stream_c)"
  "getSymName 36 ex_stream_c = (Ok ''.relxdp/prog'', ex_stream_c)"
  "getSymName 40 ex_stream_c = (Ok ''xdp/prog'', ex_stream_c)"
  "getSymName 49 ex_stream_c = (Ok ''xdp_prog_def'', ex_stream_c)"
  "getSymName 62 ex_stream_c = (Ok ''xdp_prog'', ex_stream_c)"
  by (simp_all add: getSymName_def ex_c_strtab and_then_def ex_strtab_c_def)

lemma ex_c_prog_defs:
  "readProgDefs ex_abi ex_stream_c 20
     = (Ok [ex_progs_c @ drop 20 (prog_def_defaults ex_abi)], ex_stream_c)"
  by (simp add: readProgDefs_def ex_c_progs and_then_def copy_defs_map ex_progs_c_length
      memcpy_def ex_abi_def)

lemma ex_c_find_progs: "find_sec_idx ''progs'' ex_sections_c 0 ex_stream_c = (Ok 2, ex_stream_c)"
  by (simp add: ex_c_sections ex_c_names)

lemma ex_c_find_code:
  "find_sec_idx ''xdp/prog'' ex_sections_c 0 ex_stream_c = (Ok 6, ex_stream_c)"
  by (simp add: ex_c_sections ex_c_names ex_c_more_names)

lemma ex_c_prog_names:
  "getSectionSymNames ''progs'' [] None ex_stream_c = (Ok (), [''xdp_prog_def''], ex_stream_c)"
proof -
  have "sym_names_loop None 2 ex_syms_c [] ex_stream_c
      = (Ok (), [''xdp_prog_def''], ex_stream_c)"
    by (simp add: ex_syms_c_def ex_c_more_names)
  then show ?thesis
    by (simp add: getSectionSymNames_def ex_c_symtab ex_c_headers ex_c_find_progs)
qed

lemma ex_c_code_names:
  "getSectionSymNames ''xdp/prog'' [] (Some STT_FUNC) ex_stream_c
     = (Ok (), [''xdp_prog''], ex_stream_c)"
proof -
  have "sym_names_loop (Some STT_FUNC) 6 ex_syms_c [] ex_stream_c
      = (Ok (), [''xdp_prog''], ex_stream_c)"
    by (simp add: ex_syms_c_def ex_c_more_names ELF_ST_TYPE_def STT_FUNC_def)
  then show ?thesis
    by (simp add: getSectionSymNames_def ex_c_symtab ex_c_headers ex_c_find_code)
qed

lemma ex_c_code:
  "readSectionByIdx 6 ex_stream_c = (Ok ex_code_c, ex_stream_c)"
  "readSectionByIdx (Suc 6) ex_stream_c = (Ok ex_rel_c, ex_stream_c)"
  "readSectionByIdx 7 ex_stream_c = (Ok ex_rel_c, ex_stream_c)"
  by (simp_all add: readSectionByIdx_def ex_c_headers and_then_def ex_c_sections
      read_bytes_Data [OF ex_c_failbit])

lemma ex_c_length: "length ex_sections_c = 8"
  by (simp add: ex_c_sections)

lemma ex_c_other_sections:
  assumes "i < 6"
  shows "readCodeSection ex_abi ex_sections_c pd names i ex_stream_c = (Next None, ex_stream_c)"
proof -
  from assms consider "i = 0" | "i = 1" | "i = 2" | "i = 3" | "i = 4" | "i = 5"
    by linarith
  then show ?thesis
    by cases
      (simp_all add: readCodeSection_def ex_c_sections ex_c_names ex_c_more_names
        ex_section_types)
qed

lemma ex_c_rel_section_type: "getSectionType ''.relxdp/prog'' = BPF_PROG_TYPE_UNSPEC"
  by (simp add: getSectionType_def sectionNameTypes_def StartsWith_def)

lemma ex_c_rel_section:
  "readCodeSection ex_abi ex_sections_c pd names 7 ex_stream_c = (Next None, ex_stream_c)"
  by (simp add: readCodeSection_def ex_c_sections ex_c_more_names ex_c_rel_section_type)

lemma ex_c_code_section:
  "readCodeSection ex_abi ex_sections_c [d] [''xdp_prog_def''] 6 ex_stream_c
     = (Next (Some \<lparr>cs_type = BPF_PROG_TYPE_XDP,
                      cs_expected_attach_type = getExpectedAttachType ''xdp/prog'',
                      cs_name = ''xdp_prog'', cs_data = ex_code_c, cs_rel_data = ex_rel_c,
                      cs_prog_def = Some (as_bpf_prog_def ex_abi d), cs_prog_fd = - 1\<rparr>),
        ex_stream_c)"
proof -
  have n: "sint (sh_name (ex_sections_c ! 6)) = 40" "sint (sh_name (ex_sections_c ! 7)) = 36"
    by (simp_all add: ex_c_sections)
  show ?thesis
    unfolding readCodeSection_def
    by (simp add: n ex_c_more_names ex_section_types ex_c_code ex_c_code_names ex_code_c_length
        ex_c_length Let_def)
qed

lemma readCodeSections_loop_Some:
  assumes "i < length shTable"
    and "readCodeSection a shTable pd names i s = (Next (Some c), s')"
  shows "readCodeSections_loop a shTable pd names i cs s
           = readCodeSections_loop a shTable pd names (Suc i) (cs @ [c]) s'"
  by (subst readCodeSections_loop.simps) (simp add: assms)

text \<open>
  In object \<open>c\<close> the relocation section follows the code section, and
  \<^verbatim>\<open>readCodeSections\<close> gives the one code section with its relocation bytes.
\<close>

lemma ex_c_readCodeSections:
  "readCodeSections ex_abi ex_stream_c 20
     = (Ok (),
        [\<lparr>cs_type = BPF_PROG_TYPE_XDP,
          cs_expected_attach_type = getExpectedAttachType ''xdp/prog'',
          cs_name = ''xdp_prog'', cs_data = ex_code_c, cs_rel_data = ex_rel_c,
          cs_prog_def =
            Some (as_bpf_prog_def ex_abi (ex_progs_c @ drop 20 (prog_def_defaults ex_abi))),
          cs_prog_fd = - 1\<rparr>],
        ex_stream_c)"
proof -
  let ?pd = "[ex_progs_c @ drop 20 (prog_def_defaults ex_abi)]"
  let ?c = "\<lparr>cs_type = BPF_PROG_TYPE_XDP,
          cs_expected_attach_type = getExpectedAttachType ''xdp/prog'',
          cs_name = ''xdp_prog'', cs_data = ex_code_c, cs_rel_data = ex_rel_c,
          cs_prog_def =
            Some (as_bpf_prog_def ex_abi (ex_progs_c @ drop 20 (prog_def_defaults ex_abi))),
          cs_prog_fd = - 1\<rparr>"
  have "readCodeSections_loop ex_abi ex_sections_c ?pd [''xdp_prog_def''] 0 [] ex_stream_c
      = readCodeSections_loop ex_abi ex_sections_c ?pd [''xdp_prog_def''] 6 [] ex_stream_c"
    by (rule readCodeSections_loop_skip) (simp_all add: ex_c_other_sections ex_c_length)
  also have "\<dots>
      = readCodeSections_loop ex_abi ex_sections_c ?pd [''xdp_prog_def''] (Suc 6) ([] @ [?c])
          ex_stream_c"
    by (rule readCodeSections_loop_Some) (simp_all add: ex_c_length ex_c_code_section)
  also have "\<dots>
      = readCodeSections_loop ex_abi ex_sections_c ?pd [''xdp_prog_def''] 8 [?c] ex_stream_c"
    by (subst readCodeSections_loop.simps) (simp add: ex_c_length ex_c_rel_section)
  also have "\<dots> = (Ok (), [?c], ex_stream_c)"
    by (subst readCodeSections_loop.simps) (simp add: ex_c_length)
  finally show ?thesis
    by (simp add: readCodeSections_def ex_c_headers ex_c_prog_defs ex_c_prog_names)
qed

subsection \<open>Tokens that are in no table, and what follows them\<close>















subsection \<open>Skipped maps and the reserved byte\<close>

lemma createMaps_loop_all_skipped:
  assumes "\<forall>j < length names. i + j < length md \<and> md_zero (md ! (i + j)) = 0
             \<and> map_skipped e ver (md ! (i + j))"
  shows "createMaps_loop e y objName prefix ver md names i mapFds k
           = (Ok (), mapFds @ replicate (length names) (- 1), k)"
  using assms
proof (induction names arbitrary: i mapFds)
  case Nil
  then show ?case by simp
next
  case (Cons mapName rest)
  from Cons.prems have i: "i < length md" and z: "md_zero (md ! i) = 0"
    and sk: "map_skipped e ver (md ! i)"
    by force+
  have r: "\<forall>j < length rest. Suc i + j < length md \<and> md_zero (md ! (Suc i + j)) = 0
             \<and> map_skipped e ver (md ! (Suc i + j))"
  proof (intro allI impI)
    fix j assume "j < length rest"
    then have "Suc j < length (mapName # rest)" by simp
    with Cons.prems have "i + Suc j < length md \<and> md_zero (md ! (i + Suc j)) = 0
             \<and> map_skipped e ver (md ! (i + Suc j))"
      by blast
    then show "Suc i + j < length md \<and> md_zero (md ! (Suc i + j)) = 0
             \<and> map_skipped e ver (md ! (Suc i + j))"
      by simp
  qed
  have "createMaps_loop e y objName prefix ver md (mapName # rest) i mapFds k
      = createMaps_loop e y objName prefix ver md rest (Suc i) (mapFds @ [- 1]) k"
    by (rule createMaps_loop_Next [OF i createMap_skipped [OF z sk]])
  also have "\<dots> = (Ok (), (mapFds @ [- 1]) @ replicate (length rest) (- 1), k)"
    by (rule Cons.IH [OF r])
  finally show ?case by (simp add: replicate_app_Cons_same)
qed

lemma createMaps_aligned:
  assumes "readSectionByName ''maps'' s = (Ok mdData, s1)"
    and "createMaps_defs a mdData sizeOfBpfMapDef = Ok md"
    and "getSectionSymNames ''maps'' [] None s1 = (Ok (), mapNames, s2)"
    and "createMaps a e y elfPath s [] prefix sizeOfBpfMapDef ver k = (r, fds, s', k')"
  shows "length fds \<le> length mapNames
    \<and> (\<forall>j < length fds. j < length md
          \<and> (map_skipped e ver (as_bpf_map_def a (md ! j)) \<longrightarrow> fds ! j = - 1)
          \<and> (\<not> map_skipped e ver (as_bpf_map_def a (md ! j)) \<longrightarrow> 0 \<le> fds ! j))
    \<and> (errno_on_failure y \<and> r = Ok () \<longrightarrow>
          length fds = length mapNames
          \<and> (\<forall>j < length mapNames. (\<forall>j' < j. mapNames ! j' \<noteq> mapNames ! j) \<longrightarrow>
                find_map_fd mapNames fds 0 (mapNames ! j) = Some (Inr (fds ! j))))"
proof -
  let ?md = "map (as_bpf_map_def a) md"
  obtain r0 fds0 k0 where
    l: "createMaps_loop e y (pathToObjName elfPath) prefix ver ?md mapNames 0 [] k
          = (r0, fds0, k0)"
    using prod_cases3 by blast
  from createMaps_result [OF assms(1,2,3) l] assms(4)
  have eq: "r = r0" "fds = fds0" by simp_all
  from createMaps_loop_aligned [OF l] obtain new where new:
    "fds0 = [] @ new" "length new \<le> length mapNames"
    "\<forall>j < length new. 0 + j < length ?md
        \<and> (map_skipped e ver (?md ! (0 + j)) \<longrightarrow> new ! j = - 1)
        \<and> (\<not> map_skipped e ver (?md ! (0 + j)) \<longrightarrow> 0 \<le> new ! j)"
    "errno_on_failure y \<and> r0 = Ok () \<longrightarrow> length new = length mapNames"
    by blast
  from new(1) eq have f: "fds = new" by simp
  have 1: "length fds \<le> length mapNames" using new(2) f by simp
  have 2: "j < length md
          \<and> (map_skipped e ver (as_bpf_map_def a (md ! j)) \<longrightarrow> fds ! j = - 1)
          \<and> (\<not> map_skipped e ver (as_bpf_map_def a (md ! j)) \<longrightarrow> 0 \<le> fds ! j)"
    if "j < length fds" for j
  proof -
    from that f new(3) have j: "j < length md"
      and p: "(map_skipped e ver (?md ! j) \<longrightarrow> new ! j = - 1)
        \<and> (\<not> map_skipped e ver (?md ! j) \<longrightarrow> 0 \<le> new ! j)"
      by auto
    from j have "?md ! j = as_bpf_map_def a (md ! j)" by simp
    with p j f show ?thesis by simp
  qed
  have 3: "length fds = length mapNames
          \<and> (\<forall>j < length mapNames. (\<forall>j' < j. mapNames ! j' \<noteq> mapNames ! j) \<longrightarrow>
                find_map_fd mapNames fds 0 (mapNames ! j) = Some (Inr (fds ! j)))"
    if "errno_on_failure y \<and> r = Ok ()"
  proof -
    from that new(4) eq f have len: "length fds = length mapNames" by simp
    have "find_map_fd mapNames fds 0 (mapNames ! j) = Some (Inr (fds ! j))"
      if "j < length mapNames" "\<forall>j' < j. mapNames ! j' \<noteq> mapNames ! j" for j
      using find_map_fd_first [OF that(1) refl that(2), of 0 fds] that(1) len by simp
    with len show ?thesis by blast
  qed
  from 1 2 3 show ?thesis by blast
qed

text \<open>
  C6. In the loop of \<^verbatim>\<open>createMaps\<close>, a map whose reserved byte is zero and that is
  skipped gets the null descriptor \<open>- 1\<close> appended, and the loop goes on with the next
  map in the same state of the kernel; a map whose reserved byte is not zero aborts,
  skipped or not. For the maps \<open>md\<close> and names \<open>mapNames\<close> of an object, from an empty
  vector: whatever \<^verbatim>\<open>createMaps\<close> returns, the vector it leaves is no longer than
  \<open>mapNames\<close>, and its entry \<open>j\<close> belongs to map \<open>j\<close>, being \<open>- 1\<close> when that map is
  skipped and a descriptor that is not negative otherwise; when system calls leave a
  nonzero \<^verbatim>\<open>errno\<close> on failure and \<^verbatim>\<open>createMaps\<close> returns zero, the vector has one entry
  for each name, and the search of \<^verbatim>\<open>applyMapRelo\<close> for the name of map \<open>j\<close> gives entry
  \<open>j\<close>; when every map has a zero reserved byte and is skipped, \<^verbatim>\<open>createMaps\<close> returns
  zero with a null descriptor for each name.
\<close>

theorem skipped_maps_keep_alignment:
  assumes "readSectionByName ''maps'' s = (Ok mdData, s1)"
    and "createMaps_defs a mdData sizeOfBpfMapDef = Ok md"
    and "getSectionSymNames ''maps'' [] None s1 = (Ok (), mapNames, s2)"
  shows "(i < length defs \<and> md_zero (defs ! i) = 0 \<and> map_skipped e ver (defs ! i) \<longrightarrow>
           createMaps_loop e y objName prefix ver defs (mapName # rest) i mapFds k
             = createMaps_loop e y objName prefix ver defs rest (Suc i) (mapFds @ [- 1]) k)
    \<and> (i < length defs \<and> md_zero (defs ! i) \<noteq> 0 \<longrightarrow>
           createMaps_loop e y objName prefix ver defs (mapName # rest) i mapFds k
             = (Fault Abort, mapFds, k))
    \<and> (createMaps a e y elfPath s [] prefix sizeOfBpfMapDef ver k = (r, fds, s', k') \<longrightarrow>
          length fds \<le> length mapNames
          \<and> (\<forall>j < length fds. j < length md
                \<and> (map_skipped e ver (as_bpf_map_def a (md ! j)) \<longrightarrow> fds ! j = - 1)
                \<and> (\<not> map_skipped e ver (as_bpf_map_def a (md ! j)) \<longrightarrow> 0 \<le> fds ! j))
          \<and> (errno_on_failure y \<and> r = Ok () \<longrightarrow>
                length fds = length mapNames
                \<and> (\<forall>j < length mapNames. (\<forall>j' < j. mapNames ! j' \<noteq> mapNames ! j) \<longrightarrow>
                      find_map_fd mapNames fds 0 (mapNames ! j) = Some (Inr (fds ! j)))))
    \<and> ((\<forall>j < length mapNames. j < length md \<and> md_zero (as_bpf_map_def a (md ! j)) = 0
            \<and> map_skipped e ver (as_bpf_map_def a (md ! j))) \<longrightarrow>
          createMaps a e y elfPath s [] prefix sizeOfBpfMapDef ver k
            = (Ok (), replicate (length mapNames) (- 1), s2, k))"
proof (intro conjI impI)
  assume a: "i < length defs \<and> md_zero (defs ! i) = 0 \<and> map_skipped e ver (defs ! i)"
  then have i: "i < length defs" and z: "md_zero (defs ! i) = 0"
    and sk: "map_skipped e ver (defs ! i)"
    by simp_all
  show "createMaps_loop e y objName prefix ver defs (mapName # rest) i mapFds k
             = createMaps_loop e y objName prefix ver defs rest (Suc i) (mapFds @ [- 1]) k"
    by (rule createMaps_loop_Next [OF i createMap_skipped [OF z sk]])
next
  assume a: "i < length defs \<and> md_zero (defs ! i) \<noteq> 0"
  then have i: "i < length defs" and z: "md_zero (defs ! i) \<noteq> 0" by simp_all
  show "createMaps_loop e y objName prefix ver defs (mapName # rest) i mapFds k
             = (Fault Abort, mapFds, k)"
    by (rule createMaps_loop_Exit [OF i createMap_zero [OF z]])
next
  assume c: "createMaps a e y elfPath s [] prefix sizeOfBpfMapDef ver k = (r, fds, s', k')"
  note al = createMaps_aligned [OF assms c]
  from al show "length fds \<le> length mapNames" by blast
  from al show "\<forall>j < length fds. j < length md
                \<and> (map_skipped e ver (as_bpf_map_def a (md ! j)) \<longrightarrow> fds ! j = - 1)
                \<and> (\<not> map_skipped e ver (as_bpf_map_def a (md ! j)) \<longrightarrow> 0 \<le> fds ! j)"
    by blast
  assume "errno_on_failure y \<and> r = Ok ()"
  with al show "length fds = length mapNames" by blast
  from al \<open>errno_on_failure y \<and> r = Ok ()\<close>
  show "\<forall>j < length mapNames. (\<forall>j' < j. mapNames ! j' \<noteq> mapNames ! j) \<longrightarrow>
                      find_map_fd mapNames fds 0 (mapNames ! j) = Some (Inr (fds ! j))"
    by blast
next
  let ?md = "map (as_bpf_map_def a) md"
  assume a: "\<forall>j < length mapNames. j < length md \<and> md_zero (as_bpf_map_def a (md ! j)) = 0
            \<and> map_skipped e ver (as_bpf_map_def a (md ! j))"
  have "\<forall>j < length mapNames. 0 + j < length ?md \<and> md_zero (?md ! (0 + j)) = 0
            \<and> map_skipped e ver (?md ! (0 + j))"
    using a by simp
  from createMaps_loop_all_skipped [OF this, of y "pathToObjName elfPath" prefix "[]" k]
  have "createMaps_loop e y (pathToObjName elfPath) prefix ver ?md mapNames 0 [] k
      = (Ok (), replicate (length mapNames) (- 1), k)"
    by simp
  then show "createMaps a e y elfPath s [] prefix sizeOfBpfMapDef ver k
            = (Ok (), replicate (length mapNames) (- 1), s2, k)"
    by (rule createMaps_result [OF assms])
qed

subsection \<open>A skipped map with a nonzero reserved byte\<close>

lemma ex_r_failbit: "\<not> failbit ex_stream_r"
  by (simp add: ex_stream_r_def)

lemma ex_r_ehdr: "readElfHeader ex_stream_r = (Ok \<lparr>e_shstrndx = 1\<rparr>, ex_stream_r)"
  by (simp add: readElfHeader_def ex_stream_r_def)

lemma ex_r_headers: "readSectionHeadersAll ex_stream_r = (Ok ex_sections_r, ex_stream_r)"
  by (simp add: readSectionHeadersAll_def ex_r_ehdr and_then_def,
      simp add: seek_read_def ex_stream_r_def)

lemma ex_r_strtab: "readSectionHeaderStrtab ex_stream_r = (Ok ex_strtab_c, ex_stream_r)"
  by (simp add: readSectionHeaderStrtab_def readSectionByIdx_def ex_r_ehdr ex_r_headers
      and_then_def ex_sections_r_def ex_section_def read_bytes_Data [OF ex_r_failbit])

lemma ex_r_names:
  "getSymName 0 ex_stream_r = (Ok [], ex_stream_r)"
  "getSymName 1 ex_stream_r = (Ok ''.strtab'', ex_stream_r)"
  "getSymName 9 ex_stream_r = (Ok ''progs'', ex_stream_r)"
  "getSymName 15 ex_stream_r = (Ok ''maps'', ex_stream_r)"
  "getSymName 71 ex_stream_r = (Ok ''a_map'', ex_stream_r)"
  by (simp_all add: getSymName_def ex_r_strtab and_then_def ex_strtab_c_def)

lemma ex_r_maps: "readSectionByName ''maps'' ex_stream_r = (Ok ex_maps_r, ex_stream_r)"
  by (simp add: readSectionByName_def ex_r_headers ex_r_strtab and_then_def ex_sections_r_def
      ex_section_def ex_strtab_c_def read_bytes_Data [OF ex_r_failbit])

lemma ex_r_by_type: "readSectionByType SHT_SYMTAB ex_stream_r = (Ok ex_symtab_c, ex_stream_r)"
  by (simp add: readSectionByType_def ex_r_headers and_then_def ex_sections_r_def
      ex_section_def SHT_SYMTAB_def read_bytes_Data [OF ex_r_failbit])

lemma ex_r_symtab: "readSymTab do_sort ex_stream_r = (Ok ex_syms_c, ex_stream_r)"
proof -
  have "sort_key st_value ex_syms_c = ex_syms_c"
    by (simp add: ex_syms_c_def)
  then show ?thesis
    by (simp add: readSymTab_def ex_r_by_type and_then_def sizeof_Elf64_Sym_def
        ex_c_syms_parsed Let_def)
qed

lemma ex_r_find_maps: "find_sec_idx ''maps'' ex_sections_r 0 ex_stream_r = (Ok 3, ex_stream_r)"
  by (simp add: ex_sections_r_def ex_section_def ex_r_names)

lemma ex_r_map_names:
  "getSectionSymNames ''maps'' [] None ex_stream_r = (Ok (), [''a_map''], ex_stream_r)"
proof -
  have "sym_names_loop None 3 ex_syms_c [] ex_stream_r = (Ok (), [''a_map''], ex_stream_r)"
    by (simp add: ex_syms_c_def ex_r_names)
  then show ?thesis
    by (simp add: getSectionSymNames_def ex_r_symtab ex_r_headers ex_r_find_maps)
qed

lemma ex_maps_r_length: "length ex_maps_r = 32"
  by (simp add: ex_maps_r_def)

lemma ex_r_map_defs:
  "createMaps_defs ex_abi ex_maps_r 32 = Ok [ex_maps_r @ drop 32 (map_def_defaults ex_abi)]"
  by (simp add: createMaps_defs_def copy_defs_map ex_maps_r_length memcpy_def ex_abi_def)

lemma ex_r_map_decoded:
  "as_bpf_map_def ex_abi (ex_maps_r @ drop 32 (map_def_defaults ex_abi)) = ex_map_def_reserved"
proof -
  have "ex_as_bpf_map_def
      (ex_maps_r @ replicate 4 NUL @ le32_bytes 0x10000 @ replicate 4 NUL
         @ le32_bytes 0xFFFFFFFF @ replicate 72 NUL) = ex_map_def_reserved"
    by (simp add: ex_as_bpf_map_def_def ex_map_def_reserved_def ex_map_def_def ex_maps_r_def
        u32_at_def flag_at_def le32_bytes_length le_nat_le32_bytes le_nat_replicate nth_append,
        simp add: le_nat_def)
  moreover have "as_bpf_map_def ex_abi = ex_as_bpf_map_def"
    by (simp add: ex_abi_def)
  ultimately show ?thesis
    by (simp add: ex_map_def_defaults)
qed

lemma ex_map_reserved:
  "md_zero ex_map_def_reserved \<noteq> 0" "map_skipped ex_env 0x10000 ex_map_def_reserved"
  by (simp_all add: map_skipped_def ex_map_def_def ex_map_def_reserved_def)

text \<open>
  The map of object \<open>r\<close> is skipped by a loader of version \<open>0x10000\<close>, and
  \<^verbatim>\<open>createMaps\<close> aborts on it: no descriptor is appended.
\<close>

theorem skipped_map_reserved_byte_counterexample:
  "readSectionByName ''maps'' ex_stream_r = (Ok ex_maps_r, ex_stream_r)
   \<and> getSectionSymNames ''maps'' [] None ex_stream_r = (Ok (), [''a_map''], ex_stream_r)
   \<and> createMaps_defs ex_abi ex_maps_r 32 = Ok [ex_maps_r @ drop 32 (map_def_defaults ex_abi)]
   \<and> map_skipped ex_env 0x10000
        (as_bpf_map_def ex_abi (ex_maps_r @ drop 32 (map_def_defaults ex_abi)))
   \<and> createMaps ex_abi ex_env ex_sys (ex_dir @ ''r.o'') ex_stream_r [] ''tethering/'' 32 0x10000 []
       = (Fault Abort, [], ex_stream_r, [])"
proof -
  have cm: "createMap ex_env ex_sys (pathToObjName (ex_dir @ ''r.o'')) ''tethering/'' 0x10000
      ([ex_map_def_reserved] ! 0) ''a_map'' [] = (Exit (Fault Abort), [])"
    by (simp add: createMap_zero [OF ex_map_reserved(1)])
  have "createMaps_loop ex_env ex_sys (pathToObjName (ex_dir @ ''r.o'')) ''tethering/'' 0x10000
      [ex_map_def_reserved] [''a_map''] 0 [] [] = (Fault Abort, [], [])"
    by (rule createMaps_loop_Exit [OF _ cm]) simp
  then have "createMaps_loop ex_env ex_sys (pathToObjName (ex_dir @ ''r.o'')) ''tethering/''
      0x10000 (map (as_bpf_map_def ex_abi) [ex_maps_r @ drop 32 (map_def_defaults ex_abi)])
      [''a_map''] 0 [] [] = (Fault Abort, [], [])"
    by (simp add: ex_r_map_decoded)
  then have "createMaps ex_abi ex_env ex_sys (ex_dir @ ''r.o'') ex_stream_r [] ''tethering/''
      32 0x10000 [] = (Fault Abort, [], ex_stream_r, [])"
    by (rule createMaps_result [OF ex_r_maps ex_r_map_defs ex_r_map_names])
  then show ?thesis
    using ex_r_maps ex_r_map_names ex_r_map_defs ex_map_reserved(2)
    by (simp add: ex_r_map_decoded)
qed

theorem skipped_maps_keep_alignment_witness:
  "md_zero ex_map_def = 0 \<and> map_skipped ex_env 0x10000 ex_map_def
   \<and> createMaps_loop ex_env ex_sys ''c'' ''tethering/'' 0x10000 [ex_map_def] [''a_map''] 0 [] []
       = (Ok (), [- 1], [])
   \<and> md_zero ex_map_def_reserved \<noteq> 0
   \<and> createMaps_loop ex_env ex_sys ''c'' ''tethering/'' 0x10000 [ex_map_def_reserved]
        [''a_map''] 0 [] []
       = (Fault Abort, [], [])
   \<and> createMaps ex_abi ex_env ex_sys (ex_dir @ ''c.o'') ex_stream_c [] ''tethering/'' 32 0x10000 []
       = (Ok (), [- 1], ex_stream_c, [])
   \<and> map_skipped ex_env 0x10000
        (as_bpf_map_def ex_abi (ex_maps_c @ drop 32 (map_def_defaults ex_abi)))
   \<and> createMaps ex_abi ex_env ex_sys (ex_dir @ ''c.o'') ex_stream_c [] ''tethering/'' 32 44 []
       = (Ok (), [3], ex_stream_c,
          [\<lparr>req_map_type = 1, req_key_size = 4, req_value_size = 8, req_max_entries = 16,
            req_map_flags = 0, req_map_name = ''a_map''\<rparr>])
   \<and> \<not> map_skipped ex_env 44
        (as_bpf_map_def ex_abi (ex_maps_c @ drop 32 (map_def_defaults ex_abi)))
   \<and> errno_on_failure ex_sys
   \<and> find_map_fd [''a_map''] [- 1] 0 ''a_map'' = Some (Inr (- 1))
   \<and> find_map_fd [''a_map''] [3] 0 ''a_map'' = Some (Inr 3)"
proof -
  note t = skipped_maps_keep_alignment [OF ex_c_maps ex_c_map_defs ex_c_map_names]
  note t1 = t [where defs = "[ex_map_def]" and i = 0 and e = ex_env and ver = "0x10000"
      and y = ex_sys and objName = "''c''" and prefix = "''tethering/''"
      and mapName = "''a_map''" and rest = "[]" and mapFds = "[]" and k = "[]"]
  note t2 = t [where defs = "[ex_map_def_reserved]" and i = 0 and e = ex_env
      and ver = "0x10000" and y = ex_sys and objName = "''c''" and prefix = "''tethering/''"
      and mapName = "''a_map''" and rest = "[]" and mapFds = "[]" and k = "[]"]
  note t3 = t [where e = ex_env and ver = "0x10000" and y = ex_sys
      and elfPath = "ex_dir @ ''c.o''" and prefix = "''tethering/''" and k = "[]"
      and r = "Ok ()" and fds = "[- 1]" and s' = ex_stream_c and k' = "[]"]
  note t4 = t [where e = ex_env and ver = 44 and y = ex_sys
      and elfPath = "ex_dir @ ''c.o''" and prefix = "''tethering/''" and k = "[]"
      and r = "Ok ()" and fds = "[3]" and s' = ex_stream_c
      and k' = "[\<lparr>req_map_type = 1, req_key_size = 4, req_value_size = 8,
                 req_max_entries = 16, req_map_flags = 0, req_map_name = ''a_map''\<rparr>]"]
  from t1 [THEN conjunct1]
  have 1: "createMaps_loop ex_env ex_sys ''c'' ''tethering/'' 0x10000 [ex_map_def] [''a_map'']
      0 [] [] = (Ok (), [- 1], [])"
    by (simp add: ex_map_zero ex_map_skipped)
  from t2 [THEN conjunct2, THEN conjunct1]
  have 2: "createMaps_loop ex_env ex_sys ''c'' ''tethering/'' 0x10000 [ex_map_def_reserved]
      [''a_map''] 0 [] [] = (Fault Abort, [], [])"
    by (simp add: ex_map_reserved)
  from t3 [THEN conjunct2, THEN conjunct2, THEN conjunct2]
  have 3: "createMaps ex_abi ex_env ex_sys (ex_dir @ ''c.o'') ex_stream_c [] ''tethering/'' 32
      0x10000 [] = (Ok (), [- 1], ex_stream_c, [])"
    by (simp add: ex_c_map_decoded ex_map_zero ex_map_skipped)
  from t3 [THEN conjunct2, THEN conjunct2, THEN conjunct1] 3 ex_errno
  have 4: "find_map_fd [''a_map''] [- 1] 0 ''a_map'' = Some (Inr (- 1))"
    by simp
  from t4 [THEN conjunct2, THEN conjunct2, THEN conjunct1] ex_c_createMaps_created ex_errno
  have 5: "find_map_fd [''a_map''] [3] 0 ''a_map'' = Some (Inr 3)"
    by simp
  from 1 2 3 4 5 show ?thesis
    using ex_c_createMaps_created ex_errno
    by (simp add: ex_c_map_decoded ex_map_zero ex_map_skipped ex_map_not_skipped
        ex_map_reserved)
qed

subsection \<open>All relocation records of all code sections\<close>










subsection \<open>The relocation records of the examples\<close>










end
